theory Spec2Isabelle
  imports Main "HOL-Library.Word"
begin

section \<open>Bytes, runes and Go strings\<close>

text \<open>
  A Go \<^verbatim>\<open>string\<close> and a \<^verbatim>\<open>[]byte\<close> are sequences of bytes: they are modelled
  as \<^typ>\<open>string\<close> (a list of 8-bit characters). A rune is a Unicode code point, modelled
  as a natural number. \<^verbatim>\<open>uint64\<close> is \<^typ>\<open>64 word\<close>, \<^verbatim>\<open>int32\<close> and
  \<^verbatim>\<open>uint32\<close> are \<^typ>\<open>32 word\<close> (read with \<open>sint\<close> or \<open>unat\<close>).
\<close>

definition byteval :: "char \<Rightarrow> nat" where
  "byteval c = of_char c"

definition RuneError :: nat where
  "RuneError = 0xFFFD"

text \<open>
  The table \<^verbatim>\<open>first\<close> of package utf8, read per lead byte: the length of the
  sequence, and the range accepted for the second byte (\<^verbatim>\<open>acceptRanges\<close>). Lead bytes
  below 0x80 are ASCII, lead bytes in 0x80..0xC1 and 0xF5..0xFF are invalid.
\<close>

definition first_size :: "nat \<Rightarrow> nat" where
  "first_size s0 = (if s0 < 0xE0 then 2 else if s0 < 0xF0 then 3 else 4)"

definition first_accept :: "nat \<Rightarrow> nat \<times> nat" where
  "first_accept s0 =
     (if s0 = 0xE0 then (0xA0, 0xBF)
      else if s0 = 0xED then (0x80, 0x9F)
      else if s0 = 0xF0 then (0x90, 0xBF)
      else if s0 = 0xF4 then (0x80, 0x8F)
      else (0x80, 0xBF))"

text \<open>
  \<^verbatim>\<open>utf8.DecodeRuneInString\<close>: the rune at the head of the string and its width in
  bytes. An invalid or truncated sequence is \<open>RuneError\<close> of width 1. The masks
  \<^verbatim>\<open>s0 & 0x1F\<close>, \<^verbatim>\<open>& 0x0F\<close>, \<^verbatim>\<open>& 0x07\<close>, \<^verbatim>\<open>& 0x3F\<close> are written as \<open>mod\<close>
  and the shifts as multiplications.
\<close>

fun DecodeRune :: "string \<Rightarrow> nat \<times> nat" where
  "DecodeRune [] = (RuneError, 0)"
| "DecodeRune (c0 # cs) =
     (let s0 = byteval c0 in
      if s0 < 0x80 then (s0, 1)
      else if s0 < 0xC2 \<or> 0xF4 < s0 then (RuneError, 1)
      else
        let sz = first_size s0; (lo, hi) = first_accept s0 in
        if length (c0 # cs) < sz then (RuneError, 1)
        else
          let s1 = byteval (cs ! 0) in
          if s1 < lo \<or> hi < s1 then (RuneError, 1)
          else if sz \<le> 2 then ((s0 mod 32) * 64 + s1 mod 64, 2)
          else
            let s2 = byteval (cs ! 1) in
            if s2 < 0x80 \<or> 0xBF < s2 then (RuneError, 1)
            else if sz \<le> 3 then ((s0 mod 16) * 4096 + (s1 mod 64) * 64 + s2 mod 64, 3)
            else
              let s3 = byteval (cs ! 2) in
              if s3 < 0x80 \<or> 0xBF < s3 then (RuneError, 1)
              else ((s0 mod 8) * 262144 + (s1 mod 64) * 4096 + (s2 mod 64) * 64 + s3 mod 64, 4))"

lemma DecodeRune_width: "1 \<le> snd (DecodeRune (c # cs)) \<and> snd (DecodeRune (c # cs)) \<le> 4"
  by (simp add: Let_def split: prod.split)

declare DecodeRune.simps(2) [simp del]

lemma DecodeRune_width_pos: "(r, n) = DecodeRune (c # cs) \<Longrightarrow> 0 < n"
  using DecodeRune_width [of c cs] by (cases "DecodeRune (c # cs)") auto

text \<open>The runes that \<^verbatim>\<open>for _, c := range s\<close> visits, in order.\<close>

function runes :: "string \<Rightarrow> nat list" where
  "runes [] = []"
| "runes (c # cs) = (let (r, n) = DecodeRune (c # cs) in r # runes (drop n (c # cs)))"
  by pat_completeness auto
termination
proof (relation "measure length")
  show "wf (measure length)" by simp
next
  fix c :: char and cs :: string and x :: "nat \<times> nat" and r n :: nat
  assume "x = DecodeRune (c # cs)" and "(r, n) = x"
  then have "0 < n" using DecodeRune_width_pos [of r n c cs] by simp
  then show "(drop n (c # cs), c # cs) \<in> measure length" by simp
qed

section \<open>Errors\<close>

text \<open>The state of a connection (tcp_conn.go).\<close>

datatype connState = Unavailable | Connected | Terminated | Reconnecting | ConnectFailed

text \<open>
  Every error value the modelled code returns. \<open>ErrWrap\<close> is \<^verbatim>\<open>fmt.Errorf\<close> with
  \<^verbatim>\<open>%w\<close>: a message around another error. \<open>PanicIndex\<close> stands for the run-time panic
  of an index out of range.
\<close>

datatype error =
    ErrInvalidKey string
  | EOF
  | ErrUnexpectedEOF
  | ErrBufferFull
  | ErrExpected string char
  | ErrSyntax string
  | ErrRange string
  | ErrWrap string error
  | ErrShortRead nat nat
  | PanicIndex
  | errNonVersionResp
  | errConnChangingState
  | errOutboundQueueFull
  | ErrNotConnected string connState
  | errBackendUnhealthy

section \<open>Key validation and token writers (utils.go)\<close>

fun isLegalLoop :: "nat list \<Rightarrow> bool" where
  "isLegalLoop [] = True"
| "isLegalLoop (c # cs) = (if c \<le> 0x20 \<or> c = 0x7f then False else isLegalLoop cs)"

definition isLegalMemcacheKey :: "string \<Rightarrow> bool" where
  "isLegalMemcacheKey key =
     (if length key > 250 then False else isLegalLoop (runes key))"

text \<open>A \<^verbatim>\<open>bytes.Buffer\<close> is the string of the bytes written to it so far.\<close>

definition Space :: char where
  "Space = CHR '' ''"

definition writeKey :: "string \<Rightarrow> string \<Rightarrow> error option \<times> string" where
  "writeKey b key =
     (if \<not> isLegalMemcacheKey key then (Some (ErrInvalidKey key), b)
      else (None, b @ key @ [Space]))"

subsection \<open>Constants (constants.go)\<close>

definition CRLF :: string where "CRLF = [CHR 0x0D, CHR 0x0A]"
definition MetaGet :: string where "MetaGet = ''mg ''"
definition MetaSet :: string where "MetaSet = ''ms ''"
definition MetaArithmetic :: string where "MetaArithmetic = ''ma ''"
definition FetchValue :: string where "FetchValue = ''v ''"
definition Base64EncodedKey :: string where "Base64EncodedKey = ''b ''"
definition FetchCasId :: string where "FetchCasId = ''c ''"
definition FetchRemainingTTL :: string where "FetchRemainingTTL = ''t ''"
definition FetchClientFlags :: string where "FetchClientFlags = ''f ''"
definition FetchItemHitBefore :: string where "FetchItemHitBefore = ''h ''"
definition FetchKey :: string where "FetchKey = ''k ''"
definition FetchItemSize :: string where "FetchItemSize = ''s ''"
definition FetchLastAccessedTime :: string where "FetchLastAccessedTime = ''l ''"
definition PreventLRUBump :: string where "PreventLRUBump = ''u ''"
definition Invalidate :: string where "Invalidate = ''I ''"
definition RemoveValue :: string where "RemoveValue = ''x ''"
definition MetaDelete :: string where "MetaDelete = ''md ''"

definition CasOverride :: char where "CasOverride = CHR ''E''"
definition BlockTTL :: char where "BlockTTL = CHR ''N''"
definition RecacheTTL :: char where "RecacheTTL = CHR ''R''"
definition Opaque :: char where "Opaque = CHR ''O''"
definition CasId :: char where "CasId = CHR ''C''"
definition InitialValue :: char where "InitialValue = CHR ''J''"
definition ClientFlagsToken :: char where "ClientFlagsToken = CHR ''F''"
definition TTL :: char where "TTL = CHR ''T''"
definition Delta :: char where "Delta = CHR ''D''"

definition CacheMissHeader :: string where "CacheMissHeader = ''EN''"
definition Header :: string where "Header = ''HD''"
definition ValueHeader :: string where "ValueHeader = ''VA''"
definition NotFoundHeader :: string where "NotFoundHeader = ''NF''"
definition ExistsHeader :: string where "ExistsHeader = ''EX''"
definition NotStoredHeader :: string where "NotStoredHeader = ''NS''"
definition PutIfAbsentMode :: string where "PutIfAbsentMode = ''ME ''"
definition AppendMode :: string where "AppendMode = ''MA ''"
definition PrependMode :: string where "PrependMode = ''MP ''"
definition ReplaceMode :: string where "ReplaceMode = ''MR ''"
definition DecrementMode :: string where "DecrementMode = ''MD ''"

lemmas const_defs =
  CRLF_def MetaGet_def MetaSet_def MetaArithmetic_def FetchValue_def Base64EncodedKey_def
  FetchCasId_def FetchRemainingTTL_def FetchClientFlags_def FetchItemHitBefore_def FetchKey_def
  FetchItemSize_def FetchLastAccessedTime_def PreventLRUBump_def Invalidate_def CasOverride_def
  BlockTTL_def RecacheTTL_def Opaque_def CasId_def InitialValue_def ClientFlagsToken_def TTL_def
  Delta_def Space_def PutIfAbsentMode_def AppendMode_def PrependMode_def ReplaceMode_def
  DecrementMode_def RemoveValue_def MetaDelete_def

subsection \<open>Decimal formatting (strconv.AppendUint, strconv.AppendInt, base 10)\<close>

definition digit_char :: "nat \<Rightarrow> char" where
  "digit_char d = ''0123456789'' ! d"

function FormatUint :: "nat \<Rightarrow> string" where
  "FormatUint n = (if n < 10 then [digit_char n] else FormatUint (n div 10) @ [digit_char (n mod 10)])"
  by pat_completeness auto
termination
  by (relation "measure id") auto

declare FormatUint.simps [simp del]

definition FormatInt :: "int \<Rightarrow> string" where
  "FormatInt i = (if i < 0 then CHR ''-'' # FormatUint (nat (- i)) else FormatUint (nat i))"

subsection \<open>Token writers\<close>

definition writeOpaque :: "string \<Rightarrow> 64 word \<Rightarrow> string" where
  "writeOpaque b opaque =
     (if opaque \<noteq> 0 then b @ [Opaque] @ FormatUint (unat opaque) @ [Space] else b)"

definition writeCasId :: "string \<Rightarrow> 64 word \<Rightarrow> string" where
  "writeCasId b casId =
     (if casId \<noteq> 0 then b @ [CasId] @ FormatUint (unat casId) @ [Space] else b)"

definition writeCasOverride :: "string \<Rightarrow> 64 word \<Rightarrow> string" where
  "writeCasOverride b override =
     (if override \<noteq> 0 then b @ [CasOverride] @ FormatUint (unat override) @ [Space] else b)"

definition writeClientFlags :: "string \<Rightarrow> 64 word \<Rightarrow> string" where
  "writeClientFlags b clientFlags =
     (if clientFlags > 0 then b @ [ClientFlagsToken] @ FormatUint (unat clientFlags) @ [Space]
      else b)"

definition writeTTL :: "string \<Rightarrow> 32 word \<Rightarrow> string" where
  "writeTTL b ttl =
     (if 0 \<le> sint ttl then b @ [TTL] @ FormatInt (sint ttl) @ [Space] else b)"

definition writeBlockTTL :: "string \<Rightarrow> 32 word \<Rightarrow> string" where
  "writeBlockTTL b blockTTL =
     (if 0 \<le> sint blockTTL then b @ [BlockTTL] @ FormatInt (sint blockTTL) @ [Space] else b)"

definition writeRecacheTTL :: "string \<Rightarrow> 32 word \<Rightarrow> string" where
  "writeRecacheTTL b recacheTTL =
     (if 0 \<le> sint recacheTTL then b @ [RecacheTTL] @ FormatInt (sint recacheTTL) @ [Space]
      else b)"

definition writeInitialValue :: "string \<Rightarrow> 64 word \<Rightarrow> string" where
  "writeInitialValue b initialValue =
     (if initialValue \<noteq> 0 then b @ [InitialValue] @ FormatUint (unat initialValue) @ [Space]
      else b)"

definition writeDelta :: "string \<Rightarrow> 64 word \<Rightarrow> string" where
  "writeDelta b delta = b @ [Delta] @ FormatUint (unat delta) @ [Space]"

text \<open>\<^verbatim>\<open>if flag { b.Write(token) }\<close>\<close>

definition writeIf :: "bool \<Rightarrow> string \<Rightarrow> string \<Rightarrow> string" where
  "writeIf flag token b = (if flag then b @ token else b)"

section \<open>The buffered writer\<close>


text \<open>
  A \<^verbatim>\<open>bufio.Writer\<close> over the socket: \<open>wout\<close> is every byte the writer has
  accepted so far, in order (the bytes that reach the socket once flushed), \<open>werr\<close> the
  sticky error of the writer. \<^verbatim>\<open>Write\<close> on a writer with a sticky error accepts nothing and
  returns that error.
\<close>

record writer =
  wout :: string
  werr :: "error option"

definition Write :: "writer \<Rightarrow> string \<Rightarrow> error option \<times> writer" where
  "Write w p = (case werr w of Some e \<Rightarrow> (Some e, w) | None \<Rightarrow> (None, w\<lparr>wout := wout w @ p\<rparr>))"

section \<open>Encoders\<close>

subsection \<open>mg (metaget.go)\<close>

record MetaGetEncoder =
  mg_Key :: string
  mg_Base64EncodedKey :: bool
  mg_FetchCasId :: bool
  mg_FetchClientFlags :: bool
  mg_FetchItemHitBefore :: bool
  mg_FetchKey :: bool
  mg_FetchLastAccessedTime :: bool
  mg_Opaque :: "64 word"
  mg_FetchItemSizeInBytes :: bool
  mg_FetchRemainingTTL :: bool
  mg_PreventLRUBump :: bool
  mg_FetchValue :: bool
  mg_CasOverride :: "64 word"
  mg_BlockTTL :: "32 word"
  mg_RecacheTTL :: "32 word"
  mg_UpdateTTL :: "32 word"

definition MetaGetEncoder_Reset :: "MetaGetEncoder \<Rightarrow> MetaGetEncoder" where
  "MetaGetEncoder_Reset e =
     e\<lparr>mg_Key := [], mg_Base64EncodedKey := False, mg_FetchCasId := False,
       mg_FetchClientFlags := False, mg_FetchItemHitBefore := False, mg_FetchKey := False,
       mg_FetchLastAccessedTime := False, mg_Opaque := 0, mg_FetchItemSizeInBytes := False,
       mg_FetchRemainingTTL := False, mg_PreventLRUBump := False, mg_FetchValue := False,
       mg_CasOverride := 0, mg_BlockTTL := - 1, mg_RecacheTTL := - 1, mg_UpdateTTL := - 1\<rparr>"

text \<open>The flags of an \<^verbatim>\<open>mg\<close> request, written to the pooled buffer after the key.\<close>

definition MetaGetEncoder_flags :: "MetaGetEncoder \<Rightarrow> string \<Rightarrow> string" where
  "MetaGetEncoder_flags e b0 =
     (let b = writeIf (mg_Base64EncodedKey e) Base64EncodedKey b0;
          b = writeIf (mg_FetchCasId e) FetchCasId b;
          b = writeIf (mg_FetchClientFlags e) FetchClientFlags b;
          b = writeIf (mg_FetchItemHitBefore e) FetchItemHitBefore b;
          b = writeIf (mg_FetchKey e) FetchKey b;
          b = writeIf (mg_FetchLastAccessedTime e) FetchLastAccessedTime b;
          b = writeIf (mg_FetchItemSizeInBytes e) FetchItemSize b;
          b = writeCasOverride b (mg_CasOverride e);
          b = writeRecacheTTL b (mg_RecacheTTL e);
          b = writeBlockTTL b (mg_BlockTTL e);
          b = writeTTL b (mg_UpdateTTL e);
          b = writeIf (mg_FetchRemainingTTL e) FetchRemainingTTL b;
          b = writeIf (mg_PreventLRUBump e) PreventLRUBump b;
          b = writeIf (mg_FetchValue e) FetchValue b;
          b = writeOpaque b (mg_Opaque e)
      in b @ CRLF)"

definition MetaGetEncoder_Encode :: "MetaGetEncoder \<Rightarrow> writer \<Rightarrow> error option \<times> writer" where
  "MetaGetEncoder_Encode e w =
     (case writeKey MetaGet (mg_Key e) of
        (Some keyErr, b) \<Rightarrow> (Some keyErr, w)
      | (None, b) \<Rightarrow> Write w (MetaGetEncoder_flags e b))"

text \<open>\<^verbatim>\<open>CreateMetaGetEncoder\<close> returns the zero value of the struct.\<close>

definition CreateMetaGetEncoder :: MetaGetEncoder where
  "CreateMetaGetEncoder =
     \<lparr>mg_Key = [], mg_Base64EncodedKey = False, mg_FetchCasId = False,
      mg_FetchClientFlags = False, mg_FetchItemHitBefore = False, mg_FetchKey = False,
      mg_FetchLastAccessedTime = False, mg_Opaque = 0, mg_FetchItemSizeInBytes = False,
      mg_FetchRemainingTTL = False, mg_PreventLRUBump = False, mg_FetchValue = False,
      mg_CasOverride = 0, mg_BlockTTL = 0, mg_RecacheTTL = 0, mg_UpdateTTL = 0\<rparr>"

subsection \<open>ms (metaset.go)\<close>

type_synonym MetaSetMode = string

definition Add :: MetaSetMode where "Add = ''add''"
definition Replace :: MetaSetMode where "Replace = ''replace''"
definition Append :: MetaSetMode where "Append = ''append''"
definition Prepend :: MetaSetMode where "Prepend = ''prepend''"

record MetaSetEncoder =
  ms_Key :: string
  ms_Value :: string
  ms_Base64EncodedKey :: bool
  ms_FetchCasId :: bool
  ms_CasId :: "64 word"
  ms_CasOverride :: "64 word"
  ms_ClientFlags :: "64 word"
  ms_Invalidate :: bool
  ms_FetchKey :: bool
  ms_FetchItemSize :: bool
  ms_TTL :: "32 word"
  ms_Opaque :: "64 word"
  ms_Mode :: MetaSetMode
  ms_BlockTTL :: "32 word"

definition writeMode :: "MetaSetMode \<Rightarrow> string \<Rightarrow> string" where
  "writeMode m b =
     (if m = Add then b @ PutIfAbsentMode
      else if m = Append then b @ AppendMode
      else if m = Prepend then b @ PrependMode
      else if m = Replace then b @ ReplaceMode
      else b)"

definition MetaSetEncoder_flags :: "MetaSetEncoder \<Rightarrow> string \<Rightarrow> string" where
  "MetaSetEncoder_flags e b0 =
     (let b = b0 @ FormatInt (int (length (ms_Value e)));
          b = b @ [Space];
          b = writeIf (ms_Base64EncodedKey e) Base64EncodedKey b;
          b = writeIf (ms_FetchCasId e) FetchCasId b;
          b = writeIf (ms_Invalidate e) Invalidate b;
          b = writeIf (ms_FetchKey e) FetchKey b;
          b = writeIf (ms_FetchItemSize e) FetchItemSize b;
          b = writeMode (ms_Mode e) b;
          b = writeTTL b (ms_TTL e);
          b = writeCasId b (ms_CasId e);
          b = writeCasOverride b (ms_CasOverride e);
          b = writeClientFlags b (ms_ClientFlags e);
          b = writeBlockTTL b (ms_BlockTTL e);
          b = writeOpaque b (ms_Opaque e)
      in b @ CRLF)"

definition MetaSetEncoder_Encode :: "MetaSetEncoder \<Rightarrow> writer \<Rightarrow> error option \<times> writer" where
  "MetaSetEncoder_Encode e w =
     (case writeKey MetaSet (ms_Key e) of
        (Some keyErr, b) \<Rightarrow> (Some keyErr, w)
      | (None, b) \<Rightarrow> Write w (MetaSetEncoder_flags e b @ ms_Value e @ CRLF))"

definition MetaSetEncoder_Reset :: "MetaSetEncoder \<Rightarrow> MetaSetEncoder" where
  "MetaSetEncoder_Reset e =
     e\<lparr>ms_Key := [], ms_Value := [], ms_Base64EncodedKey := False, ms_FetchCasId := False,
       ms_CasId := 0, ms_CasOverride := 0, ms_ClientFlags := 0, ms_Invalidate := False,
       ms_FetchKey := False, ms_FetchItemSize := False, ms_TTL := - 1, ms_Opaque := 0,
       ms_Mode := [], ms_BlockTTL := - 1\<rparr>"

definition CreateMetaSetEncoder :: MetaSetEncoder where
  "CreateMetaSetEncoder =
     \<lparr>ms_Key = [], ms_Value = [], ms_Base64EncodedKey = False, ms_FetchCasId = False,
      ms_CasId = 0, ms_CasOverride = 0, ms_ClientFlags = 0, ms_Invalidate = False,
      ms_FetchKey = False, ms_FetchItemSize = False, ms_TTL = 0, ms_Opaque = 0, ms_Mode = [],
      ms_BlockTTL = 0\<rparr>"

subsection \<open>ma (metaarithmetic.go)\<close>

record MetaArithmeticEncoder =
  ma_Key :: string
  ma_Base64EncodedKey :: bool
  ma_CasId :: "64 word"
  ma_CasOverride :: "64 word"
  ma_BlockTTL :: "32 word"
  ma_InitialValue :: "64 word"
  ma_Delta :: "64 word"
  ma_TTL :: "32 word"
  ma_Decrement :: bool
  ma_Opaque :: "64 word"
  ma_FetchRemainingTTL :: bool
  ma_FetchCasId :: bool
  ma_FetchValue :: bool
  ma_FetchKey :: bool

definition MetaArithmeticEncoder_flags :: "MetaArithmeticEncoder \<Rightarrow> string \<Rightarrow> string" where
  "MetaArithmeticEncoder_flags e b0 =
     (let b = writeIf (ma_Base64EncodedKey e) Base64EncodedKey b0;
          b = writeIf (ma_Decrement e) DecrementMode b;
          b = writeIf (ma_FetchRemainingTTL e) FetchRemainingTTL b;
          b = writeIf (ma_FetchCasId e) FetchCasId b;
          b = writeIf (ma_FetchValue e) FetchValue b;
          b = writeIf (ma_FetchKey e) FetchKey b;
          b = writeCasId b (ma_CasId e);
          b = writeCasOverride b (ma_CasOverride e);
          b = writeTTL b (ma_TTL e);
          b = writeBlockTTL b (ma_BlockTTL e);
          b = writeInitialValue b (ma_InitialValue e);
          b = writeDelta b (ma_Delta e);
          b = writeOpaque b (ma_Opaque e)
      in b @ CRLF)"

definition MetaArithmeticEncoder_Encode ::
  "MetaArithmeticEncoder \<Rightarrow> writer \<Rightarrow> error option \<times> writer" where
  "MetaArithmeticEncoder_Encode e w =
     (case writeKey MetaArithmetic (ma_Key e) of
        (Some keyErr, b) \<Rightarrow> (Some keyErr, w)
      | (None, b) \<Rightarrow> Write w (MetaArithmeticEncoder_flags e b))"

definition MetaArithmeticEncoder_Reset :: "MetaArithmeticEncoder \<Rightarrow> MetaArithmeticEncoder" where
  "MetaArithmeticEncoder_Reset e =
     e\<lparr>ma_Key := [], ma_Base64EncodedKey := False, ma_CasId := 0, ma_CasOverride := 0,
       ma_BlockTTL := - 1, ma_InitialValue := 0, ma_Delta := 0, ma_TTL := - 1,
       ma_Decrement := False, ma_Opaque := 0, ma_FetchRemainingTTL := False,
       ma_FetchValue := False, ma_FetchCasId := False, ma_FetchKey := False\<rparr>"

definition CreateArithmeticEncoder :: MetaArithmeticEncoder where
  "CreateArithmeticEncoder =
     \<lparr>ma_Key = [], ma_Base64EncodedKey = False, ma_CasId = 0, ma_CasOverride = 0,
      ma_BlockTTL = 0, ma_InitialValue = 0, ma_Delta = 0, ma_TTL = 0, ma_Decrement = False,
      ma_Opaque = 0, ma_FetchRemainingTTL = False, ma_FetchCasId = False,
      ma_FetchValue = False, ma_FetchKey = False\<rparr>"

subsection \<open>md\<close>

record MetaDeleteEncoder =
  md_Key :: string
  md_Base64EncodedKey :: bool
  md_CasId :: "64 word"
  md_CasOverride :: "64 word"
  md_Invalidate :: bool
  md_FetchKey :: bool
  md_Opaque :: "64 word"
  md_TTL :: "32 word"
  md_ClientFlags :: "64 word"
  md_RemoveValue :: bool

definition MetaDeleteEncoder_flags :: "MetaDeleteEncoder \<Rightarrow> string \<Rightarrow> string" where
  "MetaDeleteEncoder_flags e b0 =
     (let b = writeIf (md_Base64EncodedKey e) Base64EncodedKey b0;
          b = writeIf (md_Invalidate e) Invalidate b;
          b = writeIf (md_FetchKey e) FetchKey b;
          b = writeIf (md_RemoveValue e) RemoveValue b;
          b = writeCasId b (md_CasId e);
          b = writeCasOverride b (md_CasOverride e);
          b = writeTTL b (md_TTL e);
          b = writeClientFlags b (md_ClientFlags e);
          b = writeOpaque b (md_Opaque e)
      in b @ CRLF)"

definition MetaDeleteEncoder_Encode :: "MetaDeleteEncoder \<Rightarrow> writer \<Rightarrow> error option \<times> writer" where
  "MetaDeleteEncoder_Encode e w =
     (case writeKey MetaDelete (md_Key e) of
        (Some keyErr, b) \<Rightarrow> (Some keyErr, w)
      | (None, b) \<Rightarrow> Write w (MetaDeleteEncoder_flags e b))"

definition MetaDeleteEncoder_Reset :: "MetaDeleteEncoder \<Rightarrow> MetaDeleteEncoder" where
  "MetaDeleteEncoder_Reset e =
     e\<lparr>md_Key := [], md_Base64EncodedKey := False, md_CasId := 0, md_CasOverride := 0,
       md_Invalidate := False, md_FetchKey := False, md_Opaque := 0, md_TTL := - 1,
       md_ClientFlags := 0, md_RemoveValue := False\<rparr>"

definition CreateMetaDeleteEncoder :: MetaDeleteEncoder where
  "CreateMetaDeleteEncoder =
     \<lparr>md_Key = [], md_Base64EncodedKey = False, md_CasId = 0, md_CasOverride = 0,
      md_Invalidate = False, md_FetchKey = False, md_Opaque = 0, md_TTL = 0,
      md_ClientFlags = 0, md_RemoveValue = False\<rparr>"

section \<open>The buffered reader\<close>

text \<open>
  A \<^verbatim>\<open>bufio.Reader\<close> over the socket: \<open>rdata\<close> is the bytes of the stream that have
  not been consumed yet, up to the end of the stream, and \<open>rsize\<close> the size of the reader's
  buffer (4096 for \<^verbatim>\<open>bufio.NewReader\<close>). The stream itself never fails: the only
  read error of the model is the end of the stream.
\<close>

record reader =
  rdata :: string
  rsize :: nat

definition ReadByte :: "reader \<Rightarrow> (error + char) \<times> reader" where
  "ReadByte rd =
     (case rdata rd of
        [] \<Rightarrow> (Inl EOF, rd)
      | c # cs \<Rightarrow> (Inr c, rd\<lparr>rdata := cs\<rparr>))"

text \<open>
  \<^verbatim>\<open>ReadSlice(delim)\<close>: the line up to and including the first delimiter, when it fits
  the buffer; \<^verbatim>\<open>ErrBufferFull\<close> (a buffer's worth consumed) when the buffer fills first;
  the end-of-stream error (everything consumed) when the stream ends first.
\<close>

definition ReadSlice :: "char \<Rightarrow> reader \<Rightarrow> (error + string) \<times> reader" where
  "ReadSlice delim rd =
     (let xs = rdata rd; i = length (takeWhile (\<lambda>c. c \<noteq> delim) xs) in
      if i < length xs \<and> i < rsize rd
        then (Inr (take (Suc i) xs), rd\<lparr>rdata := drop (Suc i) xs\<rparr>)
      else if rsize rd \<le> length xs
        then (Inl ErrBufferFull, rd\<lparr>rdata := drop (rsize rd) xs\<rparr>)
      else (Inl EOF, rd\<lparr>rdata := []\<rparr>))"

text \<open>\<^verbatim>\<open>ReadString(delim)\<close> has no length limit.\<close>

definition ReadString :: "char \<Rightarrow> reader \<Rightarrow> (error + string) \<times> reader" where
  "ReadString delim rd =
     (let xs = rdata rd; i = length (takeWhile (\<lambda>c. c \<noteq> delim) xs) in
      if i < length xs
        then (Inr (take (Suc i) xs), rd\<lparr>rdata := drop (Suc i) xs\<rparr>)
      else (Inl EOF, rd\<lparr>rdata := []\<rparr>))"

text \<open>
  \<^verbatim>\<open>io.ReadFull(reader, buf)\<close> for a zeroed buffer of \<open>n\<close> bytes: the number of bytes
  read, the error, the buffer afterwards, and the reader.
\<close>

definition ReadFull :: "reader \<Rightarrow> nat \<Rightarrow> nat \<times> error option \<times> string \<times> reader" where
  "ReadFull rd n =
     (let xs = rdata rd in
      if n \<le> length xs then (n, None, take n xs, rd\<lparr>rdata := drop n xs\<rparr>)
      else (length xs, Some (if xs = [] then EOF else ErrUnexpectedEOF),
            xs @ replicate (n - length xs) (CHR 0x00), rd\<lparr>rdata := []\<rparr>))"

definition ReadCLRF :: "reader \<Rightarrow> error option \<times> reader" where
  "ReadCLRF reader0 =
     (case ReadByte reader0 of
        (Inl err, reader1) \<Rightarrow> (Some err, reader1)
      | (Inr cr, reader1) \<Rightarrow>
          if cr \<noteq> CHR 0x0D then (Some (ErrExpected ''CR'' cr), reader1)
          else
            (case ReadByte reader1 of
               (Inl err, reader2) \<Rightarrow> (Some err, reader2)
             | (Inr nl, reader2) \<Rightarrow>
                 if nl \<noteq> CHR 0x0A then (Some (ErrExpected ''NL'' nl), reader2)
                 else (None, reader2)))"

definition ReadMNResp :: "reader \<Rightarrow> error option \<times> reader" where
  "ReadMNResp reader0 =
     (case ReadByte reader0 of
        (Inl err, reader1) \<Rightarrow> (Some err, reader1)
      | (Inr m, reader1) \<Rightarrow>
          if m \<noteq> CHR ''M'' then (Some (ErrExpected ''M'' m), reader1)
          else
            (case ReadByte reader1 of
               (Inl err, reader2) \<Rightarrow> (Some err, reader2)
             | (Inr n, reader2) \<Rightarrow>
                 if n \<noteq> CHR ''N'' then (Some (ErrExpected ''N'' m), reader2)
                 else ReadCLRF reader2))"

section \<open>Parsing (strconv, bytes.Fields)\<close>

definition isDigit :: "char \<Rightarrow> bool" where
  "isDigit c = (0x30 \<le> byteval c \<and> byteval c \<le> 0x39)"

text \<open>
  \<^verbatim>\<open>strconv.ParseUint(s, 10, bitSize)\<close>: decimal digits only, no sign, no underscore;
  a value above \<open>2 ^ bitSize - 1\<close> is a range error. The unsigned 64-bit overflow checks of
  the library are written on unbounded naturals.
\<close>

fun ParseUint_loop :: "nat \<Rightarrow> string \<Rightarrow> string \<Rightarrow> nat \<Rightarrow> error + nat" where
  "ParseUint_loop maxVal s0 [] n = Inr n"
| "ParseUint_loop maxVal s0 (c # cs) n =
     (if \<not> isDigit c then Inl (ErrSyntax s0)
      else
        let n1 = n * 10 + (byteval c - 0x30) in
        if n1 > maxVal then Inl (ErrRange s0)
        else ParseUint_loop maxVal s0 cs n1)"

definition ParseUint :: "string \<Rightarrow> nat \<Rightarrow> error + nat" where
  "ParseUint s bitSize =
     (if s = [] then Inl (ErrSyntax s) else ParseUint_loop (2 ^ bitSize - 1) s s 0)"

text \<open>\<^verbatim>\<open>strconv.ParseInt(s, 10, bitSize)\<close>: an optional sign, then \<open>ParseUint\<close>.\<close>

definition ParseInt :: "string \<Rightarrow> nat \<Rightarrow> error + int" where
  "ParseInt s0 bitSize =
     (case s0 of
        [] \<Rightarrow> Inl (ErrSyntax s0)
      | c # cs \<Rightarrow>
          let neg = (c = CHR ''-'');
              s = (if c = CHR ''+'' \<or> c = CHR ''-'' then cs else s0);
              cutoff = 2 ^ (bitSize - 1) in
          (case ParseUint s bitSize of
             Inl (ErrRange _) \<Rightarrow> Inl (ErrRange s0)
           | Inl _ \<Rightarrow> Inl (ErrSyntax s0)
           | Inr un \<Rightarrow>
               if \<not> neg \<and> un \<ge> cutoff then Inl (ErrRange s0)
               else if neg \<and> un > cutoff then Inl (ErrRange s0)
               else Inr (if neg then - int un else int un)))"

text \<open>\<^verbatim>\<open>strconv.Atoi\<close>, for the 64-bit \<^verbatim>\<open>int\<close>.\<close>

definition Atoi :: "string \<Rightarrow> error + int" where
  "Atoi s = ParseInt s 64"

text \<open>\<^verbatim>\<open>unicode.IsSpace\<close>\<close>

definition IsSpace :: "nat \<Rightarrow> bool" where
  "IsSpace r =
     (if r \<le> 0xFF then r = 0x09 \<or> r = 0x0A \<or> r = 0x0B \<or> r = 0x0C \<or> r = 0x0D \<or> r = 0x20 \<or>
                         r = 0x85 \<or> r = 0xA0
      else r = 0x1680 \<or> (0x2000 \<le> r \<and> r \<le> 0x200A) \<or> r = 0x2028 \<or> r = 0x2029 \<or>
           r = 0x202F \<or> r = 0x205F \<or> r = 0x3000)"

text \<open>
  \<^verbatim>\<open>bytes.FieldsFunc(s, f)\<close>: the maximal runs of runes that do not satisfy \<open>f\<close>. The
  argument \<open>cur\<close> is the field being collected (the span from \<^verbatim>\<open>start\<close> to the current
  position; empty when \<^verbatim>\<open>start < 0\<close>).
\<close>

function FieldsFunc :: "(nat \<Rightarrow> bool) \<Rightarrow> string \<Rightarrow> string \<Rightarrow> string list" where
  "FieldsFunc f cur [] = (if cur \<noteq> [] then [cur] else [])"
| "FieldsFunc f cur (c # cs) =
     (let (r, size) = DecodeRune (c # cs) in
      if f r then
        (if cur \<noteq> [] then cur # FieldsFunc f [] (drop size (c # cs))
         else FieldsFunc f [] (drop size (c # cs)))
      else FieldsFunc f (cur @ take size (c # cs)) (drop size (c # cs)))"
  by pat_completeness auto
termination
proof (relation "measure (\<lambda>(f, cur, s). length s)")
  show "wf (measure (\<lambda>(f, cur, s). length s))" by simp
next
  fix f :: "nat \<Rightarrow> bool" and cur :: string and c :: char and cs :: string
    and x :: "nat \<times> nat" and r n :: nat
  assume "x = DecodeRune (c # cs)" and "(r, n) = x"
  then have "0 < n" using DecodeRune_width_pos [of r n c cs] by simp
  then show "((f, [], drop n (c # cs)), f, cur, c # cs) \<in> measure (\<lambda>(f, cur, s). length s)"
    by simp
next
  fix f :: "nat \<Rightarrow> bool" and cur :: string and c :: char and cs :: string
    and x :: "nat \<times> nat" and r n :: nat
  assume "x = DecodeRune (c # cs)" and "(r, n) = x"
  then have "0 < n" using DecodeRune_width_pos [of r n c cs] by simp
  then show "((f, [], drop n (c # cs)), f, cur, c # cs) \<in> measure (\<lambda>(f, cur, s). length s)"
    by simp
next
  fix f :: "nat \<Rightarrow> bool" and cur :: string and c :: char and cs :: string
    and x :: "nat \<times> nat" and r n :: nat
  assume "x = DecodeRune (c # cs)" and "(r, n) = x"
  then have "0 < n" using DecodeRune_width_pos [of r n c cs] by simp
  then show "((f, cur @ take n (c # cs), drop n (c # cs)), f, cur, c # cs)
             \<in> measure (\<lambda>(f, cur, s). length s)"
    by simp
qed

declare FieldsFunc.simps(2) [simp del]

definition Fields :: "string \<Rightarrow> string list" where
  "Fields s = FieldsFunc IsSpace [] s"

text \<open>\<^verbatim>\<open>for idx, elem := range xs { body }\<close>, where the body may return (\<open>Inl\<close>).\<close>

fun range_loop :: "(nat \<Rightarrow> 'e \<Rightarrow> 's \<Rightarrow> 'r + 's) \<Rightarrow> nat \<Rightarrow> 'e list \<Rightarrow> 's \<Rightarrow> 'r + 's" where
  "range_loop body idx [] s = Inr s"
| "range_loop body idx (x # xs) s =
     (case body idx x s of
        Inl r \<Rightarrow> Inl r
      | Inr s' \<Rightarrow> range_loop body (Suc idx) xs s')"

section \<open>Decoders\<close>

type_synonym RecacheStatus = string

definition RecacheNotSet :: RecacheStatus where "RecacheNotSet = ''RecacheNotSet''"
definition RecacheWon :: RecacheStatus where "RecacheWon = ''Won''"
definition RecacheAlreadySent :: RecacheStatus where "RecacheAlreadySent = ''AlreadySent''"

type_synonym MetadataStatus = string

definition MetadataStatusInvalid :: MetadataStatus where
  "MetadataStatusInvalid = ''MetadataStatusInvalid''"
definition CacheHit :: MetadataStatus where "CacheHit = ''CacheHit''"
definition CacheMiss :: MetadataStatus where "CacheMiss = ''CacheMiss''"
definition NotFound :: MetadataStatus where "NotFound = ''NotFound''"
definition NotStored :: MetadataStatus where "NotStored = ''NotStored''"
definition Exists :: MetadataStatus where "Exists = ''Exists''"
definition Stored :: MetadataStatus where "Stored = ''Stored''"
definition Deleted :: MetadataStatus where "Deleted = ''Deleted''"

lemmas status_defs =
  MetadataStatusInvalid_def CacheHit_def CacheMiss_def NotFound_def NotStored_def Exists_def
  Stored_def Deleted_def CacheMissHeader_def Header_def ValueHeader_def NotFoundHeader_def
  ExistsHeader_def NotStoredHeader_def RecacheNotSet_def RecacheWon_def RecacheAlreadySent_def

definition MetaGetStatusFromHeader :: "string \<Rightarrow> MetadataStatus" where
  "MetaGetStatusFromHeader hdrPrefix =
     (if hdrPrefix = CacheMissHeader then CacheMiss
      else if hdrPrefix = Header \<or> hdrPrefix = ValueHeader then CacheHit
      else MetadataStatusInvalid)"

definition MetaSetStatusFromHeader :: "string \<Rightarrow> MetadataStatus" where
  "MetaSetStatusFromHeader hdrPrefix =
     (if hdrPrefix = Header then Stored
      else if hdrPrefix = NotStoredHeader then NotStored
      else if hdrPrefix = ExistsHeader then Exists
      else if hdrPrefix = NotFoundHeader then NotFound
      else MetadataStatusInvalid)"

definition ArithmeticStatusFromHeader :: "string \<Rightarrow> MetadataStatus" where
  "ArithmeticStatusFromHeader hdrPrefix =
     (if hdrPrefix = Header \<or> hdrPrefix = ValueHeader then Stored
      else if hdrPrefix = NotStoredHeader then NotStored
      else if hdrPrefix = ExistsHeader then Exists
      else if hdrPrefix = NotFoundHeader then NotFound
      else MetadataStatusInvalid)"

definition MetaDeleteStatusFromHeader :: "string \<Rightarrow> MetadataStatus" where
  "MetaDeleteStatusFromHeader hdrPrefix =
     (if hdrPrefix = Header then Deleted
      else if hdrPrefix = ExistsHeader then Exists
      else if hdrPrefix = NotFoundHeader then NotFound
      else if hdrPrefix = NotStoredHeader then NotStored
      else MetadataStatusInvalid)"

text \<open>
  A flag whose argument is parsed as an unsigned or a signed decimal: the parse error is
  wrapped and returned, a parsed number is stored by \<open>upd\<close>. The state of each decoding
  loop is the decoder and \<^verbatim>\<open>valueSize\<close>; a loop body returns \<open>Inl\<close> of the error (or
  \<open>None\<close> for \<^verbatim>\<open>return nil\<close>) and the decoder when it returns from \<^verbatim>\<open>Decode\<close>.
\<close>

definition parseUintField ::
  "string \<Rightarrow> string \<Rightarrow> string \<Rightarrow> nat \<Rightarrow> (nat \<Rightarrow> 'd) \<Rightarrow> 'd \<Rightarrow> int \<Rightarrow>
   (error option \<times> 'd) + ('d \<times> int)" where
  "parseUintField msg elem arg bitSize upd d valueSize =
     (case ParseUint arg bitSize of
        Inl pErr \<Rightarrow> Inl (Some (ErrWrap (msg @ elem) pErr), d)
      | Inr n \<Rightarrow> Inr (upd n, valueSize))"

definition parseIntField ::
  "string \<Rightarrow> string \<Rightarrow> string \<Rightarrow> nat \<Rightarrow> (int \<Rightarrow> 'd) \<Rightarrow> 'd \<Rightarrow> int \<Rightarrow>
   (error option \<times> 'd) + ('d \<times> int)" where
  "parseIntField msg elem arg bitSize upd d valueSize =
     (case ParseInt arg bitSize of
        Inl pErr \<Rightarrow> Inl (Some (ErrWrap (msg @ elem) pErr), d)
      | Inr n \<Rightarrow> Inr (upd n, valueSize))"

text \<open>The messages of the wrapped parse errors, before the token is appended.\<close>

definition msg_meta_get_opaque_token :: string where
  "msg_meta_get_opaque_token =
     ''meta_get::decoder - unable to parse opaque token as an uint64 as the token is ''"

definition msg_meta_get_ttl :: string where
  "msg_meta_get_ttl =
     ''meta_get::decoder - unable to parse ttl as an int32 as the token is ''"

definition msg_meta_get_casid :: string where
  "msg_meta_get_casid =
     ''meta_get::decoder - unable to parse casid as an uint64 as the token is ''"

definition msg_meta_get_cft :: string where
  "msg_meta_get_cft =
     ''meta_get::decoder - unable to parse cft as an uint64 as the token is ''"

definition msg_meta_get_item_size :: string where
  "msg_meta_get_item_size =
     ''meta_get::decoder - unable to parse item size as an uint64 as the token is ''"

definition msg_meta_get_last_access :: string where
  "msg_meta_get_last_access =
     ''meta_get::decoder - unable to parse last access as an uint64 as the token is ''"

definition msg_meta_set_opaque_token :: string where
  "msg_meta_set_opaque_token =
     ''meta_set::decoder - unable to parse opaque token as an uint64 as the token is ''"

definition msg_meta_set_cas_id :: string where
  "msg_meta_set_cas_id =
     ''meta_set::decoder - unable to parse cas id as an uint64 as the token is ''"

definition msg_meta_delete_opaque_token :: string where
  "msg_meta_delete_opaque_token =
     ''meta_delete::decoder - unable to parse opaque token as an uint64 as the token is ''"

definition msg_meta_arithmetic_opaque_token :: string where
  "msg_meta_arithmetic_opaque_token =
     ''meta_arithmetic::decoder - unable to parse opaque token as an uint64 as the token is ''"

definition msg_meta_arithmetic_ttl :: string where
  "msg_meta_arithmetic_ttl =
     ''meta_arithmetic::decoder - unable to parse ttl as an int32 as the token is ''"

definition msg_meta_arithmetic_cas_id :: string where
  "msg_meta_arithmetic_cas_id =
     ''meta_arithmetic::decoder - unable to parse cas id as an uint64 as the token is ''"

subsection \<open>mg (metaget.go)\<close>

record MetaGetDecoder =
  mgd_Status :: MetadataStatus
  mgd_Recache :: RecacheStatus
  mgd_Value :: "string option"
  mgd_CasId :: "64 word"
  mgd_RemainingTTLSeconds :: "32 word"
  mgd_ClientFlags :: "64 word"
  mgd_Opaque :: "64 word"
  mgd_IsItemHitBefore :: bool
  mgd_ItemKey :: string
  mgd_ItemSizeInBytes :: "64 word"
  mgd_TimeSinceLastAccessedSeconds :: "32 word"
  mgd_Stale :: bool
  mgd_HdrLine :: string

definition MetaGetDecoder_Reset :: "MetaGetDecoder \<Rightarrow> MetaGetDecoder" where
  "MetaGetDecoder_Reset d =
     d\<lparr>mgd_Status := MetadataStatusInvalid, mgd_Recache := RecacheNotSet, mgd_Value := None,
       mgd_CasId := 0, mgd_RemainingTTLSeconds := 0, mgd_ClientFlags := 0, mgd_Opaque := 0,
       mgd_IsItemHitBefore := False, mgd_ItemKey := [], mgd_ItemSizeInBytes := 0,
       mgd_TimeSinceLastAccessedSeconds := 0, mgd_Stale := False, mgd_HdrLine := []\<rparr>"

text \<open>\<^verbatim>\<open>CreateMetaGetDecoder\<close> returns the zero value of the struct.\<close>

definition CreateMetaGetDecoder :: MetaGetDecoder where
  "CreateMetaGetDecoder =
     \<lparr>mgd_Status = [], mgd_Recache = [], mgd_Value = None, mgd_CasId = 0,
      mgd_RemainingTTLSeconds = 0, mgd_ClientFlags = 0, mgd_Opaque = 0,
      mgd_IsItemHitBefore = False, mgd_ItemKey = [], mgd_ItemSizeInBytes = 0,
      mgd_TimeSinceLastAccessedSeconds = 0, mgd_Stale = False, mgd_HdrLine = []\<rparr>"

text \<open>The \<^verbatim>\<open>switch elem[0]\<close> for a token of one character.\<close>

definition MetaGetDecoder_single :: "char \<Rightarrow> MetaGetDecoder \<Rightarrow> MetaGetDecoder" where
  "MetaGetDecoder_single c d =
     (if c = CHR ''W'' then d\<lparr>mgd_Recache := RecacheWon\<rparr>
      else if c = CHR ''X'' then d\<lparr>mgd_Stale := True\<rparr>
      else if c = CHR ''Z'' then d\<lparr>mgd_Recache := RecacheAlreadySent\<rparr>
      else d)"

text \<open>
  The \<^verbatim>\<open>switch elem[0]\<close> for a longer token \<open>elem = c # arg\<close>: the first character
  selects the field, the rest is its argument.
\<close>

definition MetaGetDecoder_flag ::
  "char \<Rightarrow> string \<Rightarrow> string \<Rightarrow> MetaGetDecoder \<Rightarrow> int \<Rightarrow>
   (error option \<times> MetaGetDecoder) + (MetaGetDecoder \<times> int)" where
  "MetaGetDecoder_flag c arg elem d valueSize =
     (if c = CHR ''O'' then
        parseUintField msg_meta_get_opaque_token elem arg 64
          (\<lambda>n. d\<lparr>mgd_Opaque := of_nat n\<rparr>) d valueSize
      else if c = CHR ''t'' then
        parseIntField msg_meta_get_ttl elem arg 32
          (\<lambda>n. d\<lparr>mgd_RemainingTTLSeconds := of_int n\<rparr>) d valueSize
      else if c = CHR ''c'' then
        parseUintField msg_meta_get_casid elem arg 64
          (\<lambda>n. d\<lparr>mgd_CasId := of_nat n\<rparr>) d valueSize
      else if c = CHR ''f'' then
        parseUintField msg_meta_get_cft elem arg 64
          (\<lambda>n. d\<lparr>mgd_ClientFlags := of_nat n\<rparr>) d valueSize
      else if c = CHR ''h'' then
        (if arg = ''1'' then Inr (d\<lparr>mgd_IsItemHitBefore := True\<rparr>, valueSize)
         else Inr (d, valueSize))
      else if c = CHR ''k'' then Inr (d\<lparr>mgd_ItemKey := arg\<rparr>, valueSize)
      else if c = CHR ''s'' then
        parseUintField msg_meta_get_item_size elem arg 64
          (\<lambda>n. d\<lparr>mgd_ItemSizeInBytes := of_nat n\<rparr>) d valueSize
      else if c = CHR ''l'' then
        parseUintField msg_meta_get_last_access elem arg 32
          (\<lambda>n. d\<lparr>mgd_TimeSinceLastAccessedSeconds := of_nat n\<rparr>) d valueSize
      else Inr (d, valueSize))"

text \<open>The body of the loop over the tokens of the header line.\<close>

definition MetaGetDecoder_elem ::
  "string \<Rightarrow> nat \<Rightarrow> string \<Rightarrow> MetaGetDecoder \<times> int \<Rightarrow>
   (error option \<times> MetaGetDecoder) + (MetaGetDecoder \<times> int)" where
  "MetaGetDecoder_elem hdrLine idx elem st =
     (case st of (d, valueSize) \<Rightarrow>
      if idx = 0 then
        (let d = d\<lparr>mgd_Status := MetaGetStatusFromHeader elem\<rparr> in
         if mgd_Status d = MetadataStatusInvalid then Inl (None, d\<lparr>mgd_HdrLine := hdrLine\<rparr>)
         else Inr (d, valueSize))
      else
        (case elem of
           [] \<Rightarrow> Inl (Some PanicIndex, d)
         | c # arg \<Rightarrow>
             if valueSize = - 1 \<and> isDigit c then
               (case Atoi elem of
                  Inl pErr \<Rightarrow> Inl (Some pErr, d)
                | Inr v \<Rightarrow> Inr (d, v))
             else if length elem = 1 then Inr (MetaGetDecoder_single c d, valueSize)
             else MetaGetDecoder_flag c arg elem d valueSize))"

definition MetaGetDecoder_Decode ::
  "MetaGetDecoder \<Rightarrow> reader \<Rightarrow> error option \<times> MetaGetDecoder \<times> reader" where
  "MetaGetDecoder_Decode d reader0 =
     (case ReadSlice (CHR 0x0A) reader0 of
        (Inl err, reader1) \<Rightarrow> (Some err, d, reader1)
      | (Inr hdrLine, reader1) \<Rightarrow>
          (case range_loop (MetaGetDecoder_elem hdrLine) 0 (Fields hdrLine) (d, - 1) of
             Inl (err, d1) \<Rightarrow> (err, d1, reader1)
           | Inr (d1, valueSize) \<Rightarrow>
               if valueSize \<ge> 0 then
                 (case ReadFull reader1 (nat valueSize) of
                    (bytesRead, rfErr, buf, reader2) \<Rightarrow>
                      let d2 = d1\<lparr>mgd_Value := Some buf\<rparr> in
                      (case rfErr of
                         Some e \<Rightarrow> (Some e, d2, reader2)
                       | None \<Rightarrow>
                           if bytesRead \<noteq> nat valueSize
                           then (Some (ErrShortRead (nat valueSize) bytesRead), d2, reader2)
                           else (case ReadCLRF reader2 of (e, reader3) \<Rightarrow> (e, d2, reader3))))
               else (None, d1, reader1)))"

subsection \<open>ms (metaset.go)\<close>

record MetaSetDecoder =
  msd_Status :: MetadataStatus
  msd_Opaque :: "64 word"
  msd_CasId :: "64 word"
  msd_ItemKey :: string
  msd_HdrLine :: string

definition MetaSetDecoder_Reset :: "MetaSetDecoder \<Rightarrow> MetaSetDecoder" where
  "MetaSetDecoder_Reset d =
     d\<lparr>msd_Status := MetadataStatusInvalid, msd_Opaque := 0, msd_CasId := 0, msd_ItemKey := [],
       msd_HdrLine := []\<rparr>"

definition CreateMetaSetDecoder :: MetaSetDecoder where
  "CreateMetaSetDecoder =
     \<lparr>msd_Status = [], msd_Opaque = 0, msd_CasId = 0, msd_ItemKey = [], msd_HdrLine = []\<rparr>"

definition MetaSetDecoder_flag ::
  "char \<Rightarrow> string \<Rightarrow> string \<Rightarrow> MetaSetDecoder \<Rightarrow> int \<Rightarrow>
   (error option \<times> MetaSetDecoder) + (MetaSetDecoder \<times> int)" where
  "MetaSetDecoder_flag c arg elem d valueSize =
     (if c = CHR ''O'' then
        parseUintField msg_meta_set_opaque_token elem arg 64
          (\<lambda>n. d\<lparr>msd_Opaque := of_nat n\<rparr>) d valueSize
      else if c = CHR ''c'' then
        parseUintField msg_meta_set_cas_id elem arg 64
          (\<lambda>n. d\<lparr>msd_CasId := of_nat n\<rparr>) d valueSize
      else if c = CHR ''k'' then Inr (d\<lparr>msd_ItemKey := arg\<rparr>, valueSize)
      else Inr (d, valueSize))"

definition MetaSetDecoder_elem ::
  "string \<Rightarrow> nat \<Rightarrow> string \<Rightarrow> MetaSetDecoder \<times> int \<Rightarrow>
   (error option \<times> MetaSetDecoder) + (MetaSetDecoder \<times> int)" where
  "MetaSetDecoder_elem hdrLine idx elem st =
     (case st of (d, valueSize) \<Rightarrow>
      if idx = 0 then
        (let d = d\<lparr>msd_Status := MetaSetStatusFromHeader elem\<rparr> in
         if msd_Status d = MetadataStatusInvalid then Inl (None, d\<lparr>msd_HdrLine := hdrLine\<rparr>)
         else Inr (d, valueSize))
      else
        (case elem of
           [] \<Rightarrow> Inl (Some PanicIndex, d)
         | c # arg \<Rightarrow> MetaSetDecoder_flag c arg elem d valueSize))"

text \<open>The \<^verbatim>\<open>ms\<close> and \<^verbatim>\<open>md\<close> decoders have no \<^verbatim>\<open>valueSize\<close>; their loops carry 0.\<close>

definition MetaSetDecoder_Decode ::
  "MetaSetDecoder \<Rightarrow> reader \<Rightarrow> error option \<times> MetaSetDecoder \<times> reader" where
  "MetaSetDecoder_Decode d reader0 =
     (case ReadSlice (CHR 0x0A) reader0 of
        (Inl err, reader1) \<Rightarrow> (Some err, d, reader1)
      | (Inr hdrLine, reader1) \<Rightarrow>
          (case range_loop (MetaSetDecoder_elem hdrLine) 0 (Fields hdrLine) (d, 0) of
             Inl (err, d1) \<Rightarrow> (err, d1, reader1)
           | Inr (d1, valueSize) \<Rightarrow> (None, d1, reader1)))"

subsection \<open>md\<close>

record MetaDeleteDecoder =
  mdd_Status :: MetadataStatus
  mdd_Opaque :: "64 word"
  mdd_ItemKey :: string
  mdd_HdrLine :: string

definition MetaDeleteDecoder_Reset :: "MetaDeleteDecoder \<Rightarrow> MetaDeleteDecoder" where
  "MetaDeleteDecoder_Reset d =
     d\<lparr>mdd_Status := MetadataStatusInvalid, mdd_Opaque := 0, mdd_ItemKey := [],
       mdd_HdrLine := []\<rparr>"

definition CreateMetaDeleteDecoder :: MetaDeleteDecoder where
  "CreateMetaDeleteDecoder =
     \<lparr>mdd_Status = [], mdd_Opaque = 0, mdd_ItemKey = [], mdd_HdrLine = []\<rparr>"

definition MetaDeleteDecoder_flag ::
  "char \<Rightarrow> string \<Rightarrow> string \<Rightarrow> MetaDeleteDecoder \<Rightarrow> int \<Rightarrow>
   (error option \<times> MetaDeleteDecoder) + (MetaDeleteDecoder \<times> int)" where
  "MetaDeleteDecoder_flag c arg elem d valueSize =
     (if c = CHR ''O'' then
        parseUintField msg_meta_delete_opaque_token elem arg 64
          (\<lambda>n. d\<lparr>mdd_Opaque := of_nat n\<rparr>) d valueSize
      else if c = CHR ''k'' then Inr (d\<lparr>mdd_ItemKey := arg\<rparr>, valueSize)
      else Inr (d, valueSize))"

definition MetaDeleteDecoder_elem ::
  "string \<Rightarrow> nat \<Rightarrow> string \<Rightarrow> MetaDeleteDecoder \<times> int \<Rightarrow>
   (error option \<times> MetaDeleteDecoder) + (MetaDeleteDecoder \<times> int)" where
  "MetaDeleteDecoder_elem hdrLine idx elem st =
     (case st of (d, valueSize) \<Rightarrow>
      if idx = 0 then
        (let d = d\<lparr>mdd_Status := MetaDeleteStatusFromHeader elem\<rparr> in
         if mdd_Status d = MetadataStatusInvalid then Inl (None, d\<lparr>mdd_HdrLine := hdrLine\<rparr>)
         else Inr (d, valueSize))
      else
        (case elem of
           [] \<Rightarrow> Inl (Some PanicIndex, d)
         | c # arg \<Rightarrow> MetaDeleteDecoder_flag c arg elem d valueSize))"

definition MetaDeleteDecoder_Decode ::
  "MetaDeleteDecoder \<Rightarrow> reader \<Rightarrow> error option \<times> MetaDeleteDecoder \<times> reader" where
  "MetaDeleteDecoder_Decode d reader0 =
     (case ReadSlice (CHR 0x0A) reader0 of
        (Inl err, reader1) \<Rightarrow> (Some err, d, reader1)
      | (Inr hdrLine, reader1) \<Rightarrow>
          (case range_loop (MetaDeleteDecoder_elem hdrLine) 0 (Fields hdrLine) (d, 0) of
             Inl (err, d1) \<Rightarrow> (err, d1, reader1)
           | Inr (d1, valueSize) \<Rightarrow> (None, d1, reader1)))"

subsection \<open>ma (metaarithmetic.go)\<close>

record MetaArithmeticDecoder =
  mad_Status :: MetadataStatus
  mad_Opaque :: "64 word"
  mad_RemainingTTLSeconds :: "32 word"
  mad_Value :: "string option"
  mad_ValueUInt64 :: "64 word"
  mad_CasId :: "64 word"
  mad_ItemKey :: string
  mad_HdrLine :: string

definition MetaArithmeticDecoder_Reset :: "MetaArithmeticDecoder \<Rightarrow> MetaArithmeticDecoder" where
  "MetaArithmeticDecoder_Reset d =
     d\<lparr>mad_Status := MetadataStatusInvalid, mad_Opaque := 0, mad_RemainingTTLSeconds := 0,
       mad_Value := None, mad_ValueUInt64 := 0, mad_CasId := 0, mad_ItemKey := [],
       mad_HdrLine := []\<rparr>"

definition CreateArithmeticDecoder :: MetaArithmeticDecoder where
  "CreateArithmeticDecoder =
     \<lparr>mad_Status = [], mad_Opaque = 0, mad_RemainingTTLSeconds = 0, mad_Value = None,
      mad_ValueUInt64 = 0, mad_CasId = 0, mad_ItemKey = [], mad_HdrLine = []\<rparr>"

definition MetaArithmeticDecoder_flag ::
  "char \<Rightarrow> string \<Rightarrow> string \<Rightarrow> MetaArithmeticDecoder \<Rightarrow> int \<Rightarrow>
   (error option \<times> MetaArithmeticDecoder) + (MetaArithmeticDecoder \<times> int)" where
  "MetaArithmeticDecoder_flag c arg elem d valueSize =
     (if c = CHR ''O'' then
        parseUintField msg_meta_arithmetic_opaque_token elem arg 64
          (\<lambda>n. d\<lparr>mad_Opaque := of_nat n\<rparr>) d valueSize
      else if c = CHR ''t'' then
        parseIntField msg_meta_arithmetic_ttl elem arg 32
          (\<lambda>n. d\<lparr>mad_RemainingTTLSeconds := of_int n\<rparr>) d valueSize
      else if c = CHR ''c'' then
        parseUintField msg_meta_arithmetic_cas_id elem arg 64
          (\<lambda>n. d\<lparr>mad_CasId := of_nat n\<rparr>) d valueSize
      else if c = CHR ''k'' then Inr (d\<lparr>mad_ItemKey := arg\<rparr>, valueSize)
      else Inr (d, valueSize))"

definition MetaArithmeticDecoder_elem ::
  "string \<Rightarrow> nat \<Rightarrow> string \<Rightarrow> MetaArithmeticDecoder \<times> int \<Rightarrow>
   (error option \<times> MetaArithmeticDecoder) + (MetaArithmeticDecoder \<times> int)" where
  "MetaArithmeticDecoder_elem hdrLine idx elem st =
     (case st of (d, valueSize) \<Rightarrow>
      if idx = 0 then
        (let d = d\<lparr>mad_Status := ArithmeticStatusFromHeader elem\<rparr> in
         if mad_Status d = MetadataStatusInvalid then Inl (None, d\<lparr>mad_HdrLine := hdrLine\<rparr>)
         else Inr (d, valueSize))
      else
        (case elem of
           [] \<Rightarrow> Inl (Some PanicIndex, d)
         | c # arg \<Rightarrow>
             if valueSize = - 1 \<and> isDigit c then
               (case Atoi elem of
                  Inl pErr \<Rightarrow> Inl (Some pErr, d)
                | Inr v \<Rightarrow> Inr (d, v))
             else MetaArithmeticDecoder_flag c arg elem d valueSize))"

definition MetaArithmeticDecoder_Decode ::
  "MetaArithmeticDecoder \<Rightarrow> reader \<Rightarrow> error option \<times> MetaArithmeticDecoder \<times> reader" where
  "MetaArithmeticDecoder_Decode d reader0 =
     (case ReadSlice (CHR 0x0A) reader0 of
        (Inl err, reader1) \<Rightarrow> (Some err, d, reader1)
      | (Inr hdrLine, reader1) \<Rightarrow>
          (case range_loop (MetaArithmeticDecoder_elem hdrLine) 0 (Fields hdrLine) (d, - 1) of
             Inl (err, d1) \<Rightarrow> (err, d1, reader1)
           | Inr (d1, valueSize) \<Rightarrow>
               if valueSize \<ge> 0 then
                 (case ReadFull reader1 (nat valueSize) of
                    (bytesRead, fullReadErr, buf, reader2) \<Rightarrow>
                      let d2 = d1\<lparr>mad_Value := Some buf\<rparr> in
                      (case fullReadErr of
                         Some e \<Rightarrow> (Some e, d2, reader2)
                       | None \<Rightarrow>
                           if bytesRead \<noteq> nat valueSize
                           then (Some (ErrShortRead (nat valueSize) bytesRead), d2, reader2)
                           else
                             (case ParseUint buf 64 of
                                Inl convertErr \<Rightarrow> (Some convertErr, d2, reader2)
                              | Inr v \<Rightarrow>
                                  (case ReadCLRF reader2 of
                                     (e, reader3) \<Rightarrow>
                                       (e, d2\<lparr>mad_ValueUInt64 := of_nat v\<rparr>, reader3)))))
               else (None, d1, reader1)))"

section \<open>Bulk responses (bulk_op.go)\<close>

text \<open>
  \<^verbatim>\<open>BulkDecoder[T]\<close> is generic in its sub-decoders: \<open>dec\<close> is the \<^verbatim>\<open>Decode\<close>
  method of \<^verbatim>\<open>T\<close>. The loop stops at the first sub-decoder that returns an error.
\<close>

fun BulkDecoder_loop ::
  "('d \<Rightarrow> reader \<Rightarrow> error option \<times> 'd \<times> reader) \<Rightarrow> 'd list \<Rightarrow> reader \<Rightarrow>
   error option \<times> 'd list \<times> reader" where
  "BulkDecoder_loop dec [] reader0 = (None, [], reader0)"
| "BulkDecoder_loop dec (decoder # ds) reader0 =
     (case dec decoder reader0 of
        (Some err, decoder1, reader1) \<Rightarrow> (Some err, decoder1 # ds, reader1)
      | (None, decoder1, reader1) \<Rightarrow>
          (case BulkDecoder_loop dec ds reader1 of
             (err, ds1, reader2) \<Rightarrow> (err, decoder1 # ds1, reader2)))"

definition BulkDecoder_Decode ::
  "('d \<Rightarrow> reader \<Rightarrow> error option \<times> 'd \<times> reader) \<Rightarrow> 'd list \<Rightarrow> reader \<Rightarrow>
   error option \<times> 'd list \<times> reader" where
  "BulkDecoder_Decode dec Decoders reader0 =
     (case BulkDecoder_loop dec Decoders reader0 of
        (Some err, ds1, reader1) \<Rightarrow> (Some err, ds1, reader1)
      | (None, ds1, reader1) \<Rightarrow>
          (case ReadMNResp reader1 of (err, reader2) \<Rightarrow> (err, ds1, reader2)))"

section \<open>The version command\<close>

record VersionDecoder =
  vd_HdrLine :: string

definition HasPrefix :: "string \<Rightarrow> string \<Rightarrow> bool" where
  "HasPrefix s pre = (length pre \<le> length s \<and> take (length pre) s = pre)"

definition VersionDecoder_Decode ::
  "VersionDecoder \<Rightarrow> reader \<Rightarrow> error option \<times> VersionDecoder \<times> reader" where
  "VersionDecoder_Decode d reader0 =
     (case ReadString (CHR 0x0A) reader0 of
        (Inl err, reader1) \<Rightarrow> (Some err, d, reader1)
      | (Inr hdrLine, reader1) \<Rightarrow>
          let d = d\<lparr>vd_HdrLine := hdrLine\<rparr> in
          if \<not> HasPrefix hdrLine ''VERSION'' then (Some errNonVersionResp, d, reader1)
          else (None, d, reader1))"

section \<open>The opaque counter (opaque.go)\<close>

text \<open>
  \<^verbatim>\<open>Counter\<close> is a process-wide \<^verbatim>\<open>atomic.Uint64\<close>. \<^verbatim>\<open>Counter.Add(delta)\<close> is one
  atomic step: it adds \<open>delta\<close> (wrapping at \<open>2 ^ 64\<close>) and returns the new value. The
  functions take the counter and return their result and the counter afterwards.
\<close>

definition Counter_Add :: "64 word \<Rightarrow> 64 word \<Rightarrow> 64 word \<times> 64 word" where
  "Counter_Add counter delta = (counter + delta, counter + delta)"

definition NextOpaque :: "64 word \<Rightarrow> 64 word \<times> 64 word" where
  "NextOpaque counter = Counter_Add counter 1"

definition NextNOpaques :: "64 word \<Rightarrow> 64 word \<Rightarrow> 64 word \<times> 64 word" where
  "NextNOpaques n counter = (case Counter_Add counter n of (o', counter') \<Rightarrow> (o' - n + 1, counter'))"

section \<open>Connections (tcp_conn.go)\<close>

definition queueSize :: nat where
  "queueSize = 1000"

text \<open>
  The part of a connection that \<^verbatim>\<open>Append\<close> touches. The \<^verbatim>\<open>sync.RWMutex\<close> is the
  pair of \<open>mu_writer\<close> (a writer holds the lock or waits for it) and \<open>mu_readers\<close> (the
  number of read locks held); \<^verbatim>\<open>TryRLock\<close> fails exactly when a writer holds or waits.
  \<open>outbound\<close> is the content of the outbound channel, whose capacity is \<open>queueSize\<close>;
  in state \<open>Connected\<close> the channel exists and is open.
\<close>

record 'l tcpConn =
  be :: string
  mu_writer :: bool
  mu_readers :: nat
  state :: connState
  outbound :: "'l list"

definition TryRLock :: "'l tcpConn \<Rightarrow> bool \<times> 'l tcpConn" where
  "TryRLock c = (if mu_writer c then (False, c) else (True, c\<lparr>mu_readers := mu_readers c + 1\<rparr>))"

definition RUnlock :: "'l tcpConn \<Rightarrow> 'l tcpConn" where
  "RUnlock c = c\<lparr>mu_readers := mu_readers c - 1\<rparr>"

text \<open>\<^verbatim>\<open>select { case c.outbound <- link: default: }\<close>: whether the link was sent.\<close>

definition trySend :: "'l tcpConn \<Rightarrow> 'l \<Rightarrow> bool \<times> 'l tcpConn" where
  "trySend c link =
     (if length (outbound c) < queueSize then (True, c\<lparr>outbound := outbound c @ [link]\<rparr>)
      else (False, c))"

definition tcpConn_Append :: "'l tcpConn \<Rightarrow> 'l \<Rightarrow> error option \<times> 'l tcpConn" where
  "tcpConn_Append c link =
     (case TryRLock c of
        (True, c1) \<Rightarrow>
          (if state c1 = Connected then
             (case trySend c1 link of
                (True, c2) \<Rightarrow> (None, RUnlock c2)
              | (False, c2) \<Rightarrow> (Some errOutboundQueueFull, RUnlock c2))
           else (Some (ErrNotConnected (be c1) (state c1)), RUnlock c1))
      | (False, c1) \<Rightarrow> (Some errConnChangingState, c1))"

section \<open>Connection lists (tcp_conn_list.go)\<close>

record 'l tcpConnList =
  numConns :: "64 word"
  lbe :: string
  conns :: "'l tcpConn list"
  iterIdx :: "64 word"

text \<open>\<^verbatim>\<open>errors.Is(err, target)\<close>, for an error that may be \<^verbatim>\<open>nil\<close>.\<close>

fun error_Is :: "error \<Rightarrow> error \<Rightarrow> bool" where
  "error_Is (ErrWrap msg e) target = (ErrWrap msg e = target \<or> error_Is e target)"
| "error_Is e target = (e = target)"

definition errors_Is :: "error option \<Rightarrow> error \<Rightarrow> bool" where
  "errors_Is err target = (case err of None \<Rightarrow> False | Some e \<Rightarrow> error_Is e target)"

text \<open>
  The loop \<^verbatim>\<open>for i := uint64(0); i < t.numConns; i++\<close> with \<open>k\<close> iterations left.
  \<open>Inl\<close> is a return from inside the loop, \<open>Inr\<close> the list when the loop ends.
\<close>

fun tcpConnList_loop ::
  "nat \<Rightarrow> 'l tcpConnList \<Rightarrow> 'l \<Rightarrow> (error option \<times> 'l tcpConnList) + 'l tcpConnList" where
  "tcpConnList_loop 0 t link = Inr t"
| "tcpConnList_loop (Suc k) t link =
     (let newIterIdx = iterIdx t + 1;
          t1 = t\<lparr>iterIdx := newIterIdx\<rparr>;
          target = unat (newIterIdx mod numConns t1) in
      if length (conns t1) \<le> target then Inl (Some PanicIndex, t1)
      else
        (case tcpConn_Append (conns t1 ! target) link of
           (err, c1) \<Rightarrow>
             let t2 = t1\<lparr>conns := (conns t1)[target := c1]\<rparr> in
             if \<not> errors_Is err errConnChangingState then Inl (err, t2)
             else tcpConnList_loop k t2 link))"

definition tcpConnList_Append ::
  "'l tcpConnList \<Rightarrow> 'l \<Rightarrow> error option \<times> 'l tcpConnList" where
  "tcpConnList_Append t link =
     (case tcpConnList_loop (unat (numConns t)) t link of
        Inl (err, t1) \<Rightarrow> (err, t1)
      | Inr t1 \<Rightarrow>
          (Some (ErrWrap (''backend='' @ lbe t1 @ '' attempts='' @ FormatUint (unat (numConns t1)) @ '' error='')
                   errBackendUnhealthy), t1))"

text \<open>The index of the connection chosen by the \<open>j\<close>-th iteration of the loop.\<close>

definition listTarget :: "'l tcpConnList \<Rightarrow> nat \<Rightarrow> nat" where
  "listTarget t j = unat ((iterIdx t + of_nat j) mod numConns t)"

text \<open>Whether a token of a header line starts with a decimal digit, or with a given byte.\<close>

definition startsWithDigit :: "string \<Rightarrow> bool" where
  "startsWithDigit tok = (case tok of [] \<Rightarrow> False | c # _ \<Rightarrow> isDigit c)"

definition startsWith :: "char \<Rightarrow> string \<Rightarrow> bool" where
  "startsWith x tok = (case tok of [] \<Rightarrow> False | c # _ \<Rightarrow> c = x)"

text \<open>
  A step of a decoding loop keeps what \<open>g\<close> reads from the decoder (a field, say):
  whether the step returns or goes on, \<open>g\<close> gives the same as on the decoder \<open>d\<close>.
\<close>

definition keeps :: "('d \<Rightarrow> 'a) \<Rightarrow> 'd \<Rightarrow> (error option \<times> 'd) + ('d \<times> int) \<Rightarrow> bool" where
  "keeps g d res = (case res of Inl (e, d') \<Rightarrow> g d' = g d | Inr (d', vs') \<Rightarrow> g d' = g d)"

text \<open>
  What the response about to be decoded lacks: \<open>flagAbsent c\<close> when no token after the
  status word starts with the byte \<open>c\<close>, \<open>valueAbsent\<close> when none starts with a
  decimal digit. A reader from which no header line can be read lacks every token.
\<close>

definition flagAbsent :: "char \<Rightarrow> reader \<Rightarrow> bool" where
  "flagAbsent c rd =
     (case ReadSlice (CHR 0x0A) rd of
        (Inl err, rd1) \<Rightarrow> True
      | (Inr hdrLine, rd1) \<Rightarrow> \<not> list_ex (startsWith c) (tl (Fields hdrLine)))"

definition valueAbsent :: "reader \<Rightarrow> bool" where
  "valueAbsent rd =
     (case ReadSlice (CHR 0x0A) rd of
        (Inl err, rd1) \<Rightarrow> True
      | (Inr hdrLine, rd1) \<Rightarrow> \<not> list_ex startsWithDigit (tl (Fields hdrLine)))"

text \<open>
  A step of a decoding loop that started with \<^verbatim>\<open>valueSize\<close> at -1 leaves it there,
  when it goes on.
\<close>

definition novalue :: "(error option \<times> 'd) + ('d \<times> int) \<Rightarrow> bool" where
  "novalue res = (case res of Inl r \<Rightarrow> True | Inr (d', vs') \<Rightarrow> vs' = - 1)"

text \<open>
  The bytes a writer has accepted between two of its states, and the flag tokens of a
  request: the tokens of its first line after the verb (two letters and a space), the key
  and the space that follows the key.
\<close>

definition written :: "writer \<Rightarrow> writer \<Rightarrow> string" where
  "written w w' = drop (length (wout w)) (wout w')"

definition requestFlags :: "string \<Rightarrow> string \<Rightarrow> string list" where
  "requestFlags key out = Fields (drop (length key + 4) (takeWhile (\<lambda>c. c \<noteq> CHR 0x0A) out))"

text \<open>No token that satisfies \<open>P\<close> comes after a token that satisfies \<open>Q\<close>.\<close>

fun emittedBefore :: "(string \<Rightarrow> bool) \<Rightarrow> (string \<Rightarrow> bool) \<Rightarrow> string list \<Rightarrow> bool" where
  "emittedBefore P Q [] = True"
| "emittedBefore P Q (t # ts) = ((Q t \<longrightarrow> \<not> list_ex P ts) \<and> emittedBefore P Q ts)"

text \<open>
  The tokens each encoder writes after the key, in the order of its writes; every token is
  written with a space after it.
\<close>

definition joinToks :: "string list \<Rightarrow> string" where
  "joinToks ts = concat (map (\<lambda>t. t @ [Space]) ts)"

definition optTok :: "bool \<Rightarrow> string \<Rightarrow> string list" where
  "optTok present tok = (if present then [tok] else [])"

text \<open>A token of 7-bit bytes, none of them white space, and not empty.\<close>

definition plainTok :: "string \<Rightarrow> bool" where
  "plainTok t = (t \<noteq> [] \<and> (\<forall>c\<in>set t. byteval c < 0x80 \<and> \<not> IsSpace (byteval c)))"

definition modeTok :: "MetaSetMode \<Rightarrow> string list" where
  "modeTok m =
     (if m = Add then [''ME'']
      else if m = Append then [''MA'']
      else if m = Prepend then [''MP'']
      else if m = Replace then [''MR'']
      else [])"

definition MetaGetEncoder_tokens :: "MetaGetEncoder \<Rightarrow> string list" where
  "MetaGetEncoder_tokens e =
     optTok (mg_Base64EncodedKey e) ''b'' @
     optTok (mg_FetchCasId e) ''c'' @
     optTok (mg_FetchClientFlags e) ''f'' @
     optTok (mg_FetchItemHitBefore e) ''h'' @
     optTok (mg_FetchKey e) ''k'' @
     optTok (mg_FetchLastAccessedTime e) ''l'' @
     optTok (mg_FetchItemSizeInBytes e) ''s'' @
     optTok (mg_CasOverride e \<noteq> 0) (CHR ''E'' # FormatUint (unat (mg_CasOverride e))) @
     optTok (0 \<le> sint (mg_RecacheTTL e)) (CHR ''R'' # FormatInt (sint (mg_RecacheTTL e))) @
     optTok (0 \<le> sint (mg_BlockTTL e)) (CHR ''N'' # FormatInt (sint (mg_BlockTTL e))) @
     optTok (0 \<le> sint (mg_UpdateTTL e)) (CHR ''T'' # FormatInt (sint (mg_UpdateTTL e))) @
     optTok (mg_FetchRemainingTTL e) ''t'' @
     optTok (mg_PreventLRUBump e) ''u'' @
     optTok (mg_FetchValue e) ''v'' @
     optTok (mg_Opaque e \<noteq> 0) (CHR ''O'' # FormatUint (unat (mg_Opaque e)))"

definition MetaSetEncoder_tokens :: "MetaSetEncoder \<Rightarrow> string list" where
  "MetaSetEncoder_tokens e =
     [FormatInt (int (length (ms_Value e)))] @
     optTok (ms_Base64EncodedKey e) ''b'' @
     optTok (ms_FetchCasId e) ''c'' @
     optTok (ms_Invalidate e) ''I'' @
     optTok (ms_FetchKey e) ''k'' @
     optTok (ms_FetchItemSize e) ''s'' @
     modeTok (ms_Mode e) @
     optTok (0 \<le> sint (ms_TTL e)) (CHR ''T'' # FormatInt (sint (ms_TTL e))) @
     optTok (ms_CasId e \<noteq> 0) (CHR ''C'' # FormatUint (unat (ms_CasId e))) @
     optTok (ms_CasOverride e \<noteq> 0) (CHR ''E'' # FormatUint (unat (ms_CasOverride e))) @
     optTok (ms_ClientFlags e \<noteq> 0) (CHR ''F'' # FormatUint (unat (ms_ClientFlags e))) @
     optTok (0 \<le> sint (ms_BlockTTL e)) (CHR ''N'' # FormatInt (sint (ms_BlockTTL e))) @
     optTok (ms_Opaque e \<noteq> 0) (CHR ''O'' # FormatUint (unat (ms_Opaque e)))"

definition MetaArithmeticEncoder_tokens :: "MetaArithmeticEncoder \<Rightarrow> string list" where
  "MetaArithmeticEncoder_tokens e =
     optTok (ma_Base64EncodedKey e) ''b'' @
     optTok (ma_Decrement e) ''MD'' @
     optTok (ma_FetchRemainingTTL e) ''t'' @
     optTok (ma_FetchCasId e) ''c'' @
     optTok (ma_FetchValue e) ''v'' @
     optTok (ma_FetchKey e) ''k'' @
     optTok (ma_CasId e \<noteq> 0) (CHR ''C'' # FormatUint (unat (ma_CasId e))) @
     optTok (ma_CasOverride e \<noteq> 0) (CHR ''E'' # FormatUint (unat (ma_CasOverride e))) @
     optTok (0 \<le> sint (ma_TTL e)) (CHR ''T'' # FormatInt (sint (ma_TTL e))) @
     optTok (0 \<le> sint (ma_BlockTTL e)) (CHR ''N'' # FormatInt (sint (ma_BlockTTL e))) @
     optTok (ma_InitialValue e \<noteq> 0) (CHR ''J'' # FormatUint (unat (ma_InitialValue e))) @
     [CHR ''D'' # FormatUint (unat (ma_Delta e))] @
     optTok (ma_Opaque e \<noteq> 0) (CHR ''O'' # FormatUint (unat (ma_Opaque e)))"

section \<open>Key validation\<close>

lemma byteval_lt: "byteval c < 256"
  unfolding byteval_def by (cases c) (simp add: of_char_def)

lemma DecodeRune_ascii: "byteval c < 0x80 \<Longrightarrow> DecodeRune (c # cs) = (byteval c, 1)"
  by (simp add: DecodeRune.simps Let_def)

lemma mod_shift:
  assumes "q * m \<le> (s::nat)" and "s < q * m + m"
  shows "s mod m = s - q * m"
proof -
  have "s = q * m + (s - q * m)" using assms by simp
  then have "s mod m = (s - q * m) mod m" by (metis mod_mult_self3)
  also have "\<dots> = s - q * m" using assms by simp
  finally show ?thesis .
qed

lemma rune2: "\<not> (s0::nat) < 0xC2 \<Longrightarrow> s0 < 0xE0 \<Longrightarrow> 128 \<le> (s0 mod 32) * 64"
  using mod_shift [of 6 32 s0] by simp

lemma rune3: "\<not> (s0::nat) < 0xE0 \<Longrightarrow> s0 \<noteq> 0xE0 \<Longrightarrow> s0 < 0xF0 \<Longrightarrow> 128 \<le> (s0 mod 16) * 4096"
  using mod_shift [of 14 16 s0] by simp

lemma rune3_E0: "\<not> (s1::nat) < 0xA0 \<Longrightarrow> \<not> 0xBF < s1 \<Longrightarrow> 128 \<le> (s1 mod 64) * 64"
  using mod_shift [of 2 64 s1] by simp

lemma rune4: "\<not> (s0::nat) < 0xF0 \<Longrightarrow> s0 \<noteq> 0xF0 \<Longrightarrow> \<not> 0xF4 < s0 \<Longrightarrow> 128 \<le> (s0 mod 8) * 262144"
  using mod_shift [of 30 8 s0] by simp

lemma rune4_F0: "\<not> (s1::nat) < 0x90 \<Longrightarrow> \<not> 0xBF < s1 \<Longrightarrow> 128 \<le> (s1 mod 64) * 4096"
  using mod_shift [of 2 64 s1] by simp

lemmas rune_bounds = rune2 rune3 rune3_E0 rune4 rune4_F0

text \<open>
  A rune that starts with a byte of 0x80 or more is 0x80 or more itself, and every byte of
  its encoding is 0x80 or more.
\<close>

lemma DecodeRune_nonascii:
  assumes "0x80 \<le> byteval c" and "DecodeRune (c # cs) = (r, n)"
  shows "0x80 \<le> r \<and> 1 \<le> n \<and> n \<le> length (c # cs) \<and>
         (\<forall>x\<in>set (take n (c # cs)). 0x80 \<le> byteval x)"
proof -
  consider "cs = []" | a where "cs = [a]" | a b where "cs = [a, b]"
    | a b d rest where "cs = a # b # d # rest"
    by (metis list.exhaust)
  then show ?thesis
  proof cases
    case 1
    with assms show ?thesis
      by (auto simp: DecodeRune.simps Let_def first_size_def first_accept_def RuneError_def
               split: if_splits)
  next
    case 2
    with assms show ?thesis
      by (auto simp: DecodeRune.simps Let_def first_size_def first_accept_def RuneError_def
               intro!: trans_le_add1 rune_bounds split: if_splits)
  next
    case 3
    with assms show ?thesis
      by (auto simp: DecodeRune.simps Let_def first_size_def first_accept_def RuneError_def
               intro!: trans_le_add1 rune_bounds split: if_splits)
  next
    case 4
    with assms show ?thesis
      by (auto simp: DecodeRune.simps Let_def first_size_def first_accept_def RuneError_def
               intro!: trans_le_add1 rune_bounds split: if_splits)
  qed
qed

lemma isLegalLoop_runes:
  "isLegalLoop (runes s) \<longleftrightarrow> (\<forall>c\<in>set s. 0x20 < byteval c \<and> byteval c \<noteq> 0x7F)"
proof (induction s rule: runes.induct)
  case 1
  show ?case by simp
next
  case (2 c cs)
  obtain r n where rn: "DecodeRune (c # cs) = (r, n)" by (cases "DecodeRune (c # cs)")
  have IH: "isLegalLoop (runes (drop n (c # cs))) \<longleftrightarrow>
            (\<forall>x\<in>set (drop n (c # cs)). 0x20 < byteval x \<and> byteval x \<noteq> 0x7F)"
    using "2.IH" [of "(r, n)" r n] rn by simp
  have parts: "set (c # cs) = set (take n (c # cs)) \<union> set (drop n (c # cs))"
    by (metis append_take_drop_id set_append)
  show ?case
  proof (cases "byteval c < 0x80")
    case True
    then have "r = byteval c" "n = 1" using DecodeRune_ascii [of c cs] rn by simp_all
    then show ?thesis using IH rn by auto
  next
    case False
    then have h: "0x80 \<le> r" "\<forall>x\<in>set (take n (c # cs)). 0x80 \<le> byteval x"
      using DecodeRune_nonascii [of c cs r n] rn by simp_all
    have "(\<forall>x\<in>set (c # cs). 0x20 < byteval x \<and> byteval x \<noteq> 0x7F) \<longleftrightarrow>
          (\<forall>x\<in>set (drop n (c # cs)). 0x20 < byteval x \<and> byteval x \<noteq> 0x7F)"
      using h(2) by (subst parts) fastforce
    then show ?thesis using IH rn h(1) by simp
  qed
qed

lemma isLegalMemcacheKey_bytes:
  "isLegalMemcacheKey key \<longleftrightarrow>
     length key \<le> 250 \<and> (\<forall>c\<in>set key. 0x20 < byteval c \<and> byteval c \<noteq> 0x7F)"
  unfolding isLegalMemcacheKey_def using isLegalLoop_runes [of key] by auto

lemma writeKey_illegal:
  "\<not> isLegalMemcacheKey key \<Longrightarrow> writeKey b key = (Some (ErrInvalidKey key), b)"
  by (simp add: writeKey_def)

lemma writeKey_legal:
  "isLegalMemcacheKey key \<Longrightarrow> writeKey b key = (None, b @ key @ [Space])"
  by (simp add: writeKey_def)

text \<open>
  C1, as the code has it. The validator accepts a key exactly when its length is at most 250
  and every byte is strictly greater than 0x20 and different from 0x7F: the empty key and
  keys with bytes of 0x80 and above are accepted. For every key the validator rejects, each
  encoder returns the invalid-key error and leaves the writer, and so the socket, untouched.
\<close>

theorem isLegalMemcacheKey_characterisation:
  "(isLegalMemcacheKey key \<longleftrightarrow>
      length key \<le> 250 \<and> (\<forall>c\<in>set key. 0x20 < byteval c \<and> byteval c \<noteq> 0x7F)) \<and>
   (\<not> isLegalMemcacheKey key \<longrightarrow>
      MetaGetEncoder_Encode (e1\<lparr>mg_Key := key\<rparr>) w = (Some (ErrInvalidKey key), w) \<and>
      MetaSetEncoder_Encode (e2\<lparr>ms_Key := key\<rparr>) w = (Some (ErrInvalidKey key), w) \<and>
      MetaDeleteEncoder_Encode (e3\<lparr>md_Key := key\<rparr>) w = (Some (ErrInvalidKey key), w) \<and>
      MetaArithmeticEncoder_Encode (e4\<lparr>ma_Key := key\<rparr>) w = (Some (ErrInvalidKey key), w))"
proof (intro conjI impI)
  show "isLegalMemcacheKey key \<longleftrightarrow>
        length key \<le> 250 \<and> (\<forall>c\<in>set key. 0x20 < byteval c \<and> byteval c \<noteq> 0x7F)"
    by (rule isLegalMemcacheKey_bytes)
next
  assume "\<not> isLegalMemcacheKey key"
  then show "MetaGetEncoder_Encode (e1\<lparr>mg_Key := key\<rparr>) w = (Some (ErrInvalidKey key), w)"
    by (simp add: MetaGetEncoder_Encode_def writeKey_illegal)
next
  assume "\<not> isLegalMemcacheKey key"
  then show "MetaSetEncoder_Encode (e2\<lparr>ms_Key := key\<rparr>) w = (Some (ErrInvalidKey key), w)"
    by (simp add: MetaSetEncoder_Encode_def writeKey_illegal)
next
  assume "\<not> isLegalMemcacheKey key"
  then show "MetaDeleteEncoder_Encode (e3\<lparr>md_Key := key\<rparr>) w = (Some (ErrInvalidKey key), w)"
    by (simp add: MetaDeleteEncoder_Encode_def writeKey_illegal)
next
  assume "\<not> isLegalMemcacheKey key"
  then show "MetaArithmeticEncoder_Encode (e4\<lparr>ma_Key := key\<rparr>) w = (Some (ErrInvalidKey key), w)"
    by (simp add: MetaArithmeticEncoder_Encode_def writeKey_illegal)
qed

text \<open>
  The characterisation at two keys: \<open>mykey\<close> is accepted, and a key with a space is rejected
  by every encoder with nothing written.
\<close>

theorem isLegalMemcacheKey_characterisation_witness:
  "isLegalMemcacheKey ''mykey'' \<and> \<not> isLegalMemcacheKey ''contain space'' \<and>
   MetaGetEncoder_Encode (CreateMetaGetEncoder\<lparr>mg_Key := ''contain space''\<rparr>)
       \<lparr>wout = [], werr = None\<rparr>
     = (Some (ErrInvalidKey ''contain space''), \<lparr>wout = [], werr = None\<rparr>)"
proof -
  have legal: "isLegalMemcacheKey ''mykey''"
    using isLegalMemcacheKey_characterisation [of "''mykey''"]
    by (simp add: byteval_def)
  have illegal: "\<not> isLegalMemcacheKey ''contain space''"
    using isLegalMemcacheKey_characterisation [of "''contain space''"]
    by (simp add: byteval_def)
  show ?thesis
    using legal illegal
      isLegalMemcacheKey_characterisation
        [of "''contain space''" CreateMetaGetEncoder "\<lparr>wout = [], werr = None\<rparr>"]
    by simp
qed

text \<open>
  C1 as stated fails: the empty key is accepted although its length is below 1, the
  one-byte key 0x80 is accepted although its byte is not below 0x7F, and the \<^verbatim>\<open>mg\<close>
  encoder does not fail on the empty key but writes a request.
\<close>

theorem isLegalMemcacheKey_counterexample:
  "isLegalMemcacheKey [] \<and> \<not> 1 \<le> length ([] :: string) \<and>
   isLegalMemcacheKey [CHR 0x80] \<and> \<not> byteval (CHR 0x80) < 0x7F \<and>
   MetaGetEncoder_Encode ((MetaGetEncoder_Reset CreateMetaGetEncoder)\<lparr>mg_Key := []\<rparr>)
       \<lparr>wout = [], werr = None\<rparr>
     = (None, \<lparr>wout = ''mg  '' @ [CHR 0x0D, CHR 0x0A], werr = None\<rparr>)"
  by (simp add: isLegalMemcacheKey_def DecodeRune.simps byteval_def RuneError_def
        MetaGetEncoder_Encode_def writeKey_def MetaGetEncoder_flags_def
        MetaGetEncoder_Reset_def CreateMetaGetEncoder_def writeIf_def writeCasOverride_def
        writeRecacheTTL_def writeBlockTTL_def writeTTL_def writeOpaque_def Write_def const_defs)

section \<open>The wire format of a request\<close>

lemma legal_mykey: "isLegalMemcacheKey ''mykey''"
  by (simp add: isLegalMemcacheKey_bytes byteval_def)

lemmas mg_encode_defs =
  MetaGetEncoder_Encode_def MetaGetEncoder_flags_def MetaGetEncoder_Reset_def
  CreateMetaGetEncoder_def writeIf_def writeCasOverride_def writeRecacheTTL_def
  writeBlockTTL_def writeTTL_def writeOpaque_def Write_def

text \<open>
  C3, as the code has it. A \<^verbatim>\<open>MetaGetEncoder\<close> after \<^verbatim>\<open>Reset\<close> (the three TTL
  fields at -1), with key \<open>mykey\<close> and \<^verbatim>\<open>FetchValue\<close> set, writes
  \<^verbatim>\<open>mg mykey v \r\n\<close>: every flag token is followed by a space, so one space stands
  between \<open>v\<close> and the line end.
\<close>

theorem MetaGetEncoder_Encode_mykey:
  "MetaGetEncoder_Encode
     ((MetaGetEncoder_Reset CreateMetaGetEncoder)\<lparr>mg_Key := ''mykey'', mg_FetchValue := True\<rparr>)
     \<lparr>wout = [], werr = None\<rparr>
   = (None, \<lparr>wout = ''mg mykey v '' @ [CHR 0x0D, CHR 0x0A], werr = None\<rparr>)"
  by (simp add: mg_encode_defs writeKey_legal legal_mykey const_defs)

text \<open>
  C3 as stated fails: the bytes written are not \<^verbatim>\<open>mg mykey v\r\n\<close>. With the fields at
  the zero values of the struct instead (no \<^verbatim>\<open>Reset\<close>), the three TTL tokens are written
  as well.
\<close>

theorem MetaGetEncoder_Encode_mykey_counterexample:
  "wout (snd (MetaGetEncoder_Encode
     ((MetaGetEncoder_Reset CreateMetaGetEncoder)\<lparr>mg_Key := ''mykey'', mg_FetchValue := True\<rparr>)
     \<lparr>wout = [], werr = None\<rparr>))
   \<noteq> ''mg mykey v'' @ [CHR 0x0D, CHR 0x0A] \<and>
   wout (snd (MetaGetEncoder_Encode
     (CreateMetaGetEncoder\<lparr>mg_Key := ''mykey'', mg_FetchValue := True\<rparr>)
     \<lparr>wout = [], werr = None\<rparr>))
   = ''mg mykey R0 N0 T0 v '' @ [CHR 0x0D, CHR 0x0A]"
  by (simp add: mg_encode_defs writeKey_legal legal_mykey const_defs FormatInt_def
        FormatUint.simps digit_char_def)

section \<open>The opaque counter\<close>

text \<open>
  C5. From any counter value \<open>v\<close>, \<^verbatim>\<open>NextOpaque\<close> returns the value after its increment
  and leaves the counter there; \<^verbatim>\<open>NextNOpaques(n)\<close> returns \<open>v + 1\<close> and leaves
  the counter at \<open>v + n\<close>, the last value of the range that starts at the returned one (in
  64-bit arithmetic). Where the counter does not wrap, the same holds of the numbers
  themselves, and the values returned are at least 1. Each function calls
  \<^verbatim>\<open>Counter.Add\<close> once, which is the one atomic step of the model.
\<close>

theorem opaque_counter:
  "fst (NextOpaque v) = v + 1 \<and> snd (NextOpaque v) = v + 1 \<and>
   fst (NextNOpaques n v) = v + 1 \<and> snd (NextNOpaques n v) = v + n \<and>
   fst (NextNOpaques n v) + n - 1 = snd (NextNOpaques n v) \<and>
   (1 \<le> unat n \<and> unat v + unat n < 2 ^ 64 \<longrightarrow>
      1 \<le> unat (fst (NextOpaque v)) \<and>
      unat (fst (NextNOpaques n v)) = unat v + 1 \<and>
      unat (snd (NextNOpaques n v)) = unat v + unat n)"
  apply (simp add: NextOpaque_def NextNOpaques_def Counter_Add_def)
  apply (auto simp: unat_word_ariths)
  done

text \<open>From a counter at 0, a batch of 3 returns 1 and leaves the counter at 3.\<close>

theorem opaque_counter_witness:
  "1 \<le> unat (3 :: 64 word) \<and> unat (0 :: 64 word) + unat (3 :: 64 word) < 2 ^ 64 \<and>
   unat (fst (NextOpaque 0)) = 1 \<and>
   unat (fst (NextNOpaques 3 0)) = 1 \<and> unat (snd (NextNOpaques 3 0)) = 3"
  using opaque_counter [of 0 3] by simp

section \<open>Reading lines\<close>

lemma takeWhile_delim: "d \<notin> set pre \<Longrightarrow> takeWhile (\<lambda>c. c \<noteq> d) (pre @ d # post) = pre"
  by (induction pre) auto

lemma ReadString_split:
  assumes "rdata rd = pre @ d # post" and "d \<notin> set pre"
  shows "ReadString d rd = (Inr (pre @ [d]), rd\<lparr>rdata := post\<rparr>)"
  using assms by (simp add: ReadString_def Let_def takeWhile_delim)

lemma ReadSlice_split:
  assumes "rdata rd = pre @ d # post" and "d \<notin> set pre" and "length pre < rsize rd"
  shows "ReadSlice d rd = (Inr (pre @ [d]), rd\<lparr>rdata := post\<rparr>)"
  using assms by (simp add: ReadSlice_def Let_def takeWhile_delim)

section \<open>The version response\<close>

text \<open>
  C7. When the stream holds a line (a newline is among the unread bytes), the version
  decoder consumes exactly that line, newline included; it returns an error exactly when
  the line does not start with the seven bytes \<open>VERSION\<close>, and that error is
  \<open>errNonVersionResp\<close>; otherwise it succeeds; in both cases the whole line is stored in
  \<^verbatim>\<open>HdrLine\<close>.
\<close>

theorem VersionDecoder_Decode_line:
  assumes "CHR 0x0A \<in> set (rdata rd)"
  shows "let line = takeWhile (\<lambda>c. c \<noteq> CHR 0x0A) (rdata rd) @ [CHR 0x0A];
             res = VersionDecoder_Decode d rd in
         take (length line) (rdata rd) = line \<and>
         snd (snd res) = rd\<lparr>rdata := drop (length line) (rdata rd)\<rparr> \<and>
         (fst res \<noteq> None \<longleftrightarrow> take 7 line \<noteq> ''VERSION'') \<and>
         (take 7 line = ''VERSION'' \<longrightarrow> fst res = None) \<and>
         (take 7 line \<noteq> ''VERSION'' \<longrightarrow> fst res = Some errNonVersionResp) \<and>
         vd_HdrLine (fst (snd res)) = line"
proof -
  obtain pre post where xs: "rdata rd = pre @ CHR 0x0A # post" and pre: "CHR 0x0A \<notin> set pre"
    using assms by (meson split_list_first)
  define line where "line = pre @ [CHR 0x0A]"
  have line: "takeWhile (\<lambda>c. c \<noteq> CHR 0x0A) (rdata rd) @ [CHR 0x0A] = line"
    using xs pre by (simp add: takeWhile_delim line_def)
  have parts: "take (length line) (rdata rd) = line" "drop (length line) (rdata rd) = post"
    using xs by (simp_all add: line_def)
  have l7: "length ''VERSION'' = 7" by simp
  have hp: "HasPrefix line ''VERSION'' \<longleftrightarrow> take 7 line = ''VERSION''"
  proof (cases "7 \<le> length line")
    case True
    then show ?thesis unfolding HasPrefix_def l7 by simp
  next
    case False
    then have "length (take 7 line) \<noteq> length ''VERSION''" by simp
    then have "take 7 line \<noteq> ''VERSION''" by metis
    then show ?thesis using False unfolding HasPrefix_def l7 by simp
  qed
  have dec: "VersionDecoder_Decode d rd =
               (if take 7 line = ''VERSION'' then None else Some errNonVersionResp,
                d\<lparr>vd_HdrLine := line\<rparr>, rd\<lparr>rdata := post\<rparr>)"
    using hp
    by (simp add: VersionDecoder_Decode_def ReadString_split [OF xs pre] Let_def
          line_def [symmetric])
  show ?thesis
    unfolding line Let_def dec parts by simp
qed

text \<open>The two responses of \<^verbatim>\<open>TestVersionDecode\<close>.\<close>

theorem VersionDecoder_Decode_line_witness:
  "VersionDecoder_Decode \<lparr>vd_HdrLine = []\<rparr> \<lparr>rdata = ''VERSION 1.6.9'' @ [CHR 0x0D, CHR 0x0A], rsize = 4096\<rparr>
     = (None, \<lparr>vd_HdrLine = ''VERSION 1.6.9'' @ [CHR 0x0D, CHR 0x0A]\<rparr>, \<lparr>rdata = [], rsize = 4096\<rparr>) \<and>
   fst (VersionDecoder_Decode \<lparr>vd_HdrLine = []\<rparr>
          \<lparr>rdata = ''unexpected response'' @ [CHR 0x0D, CHR 0x0A], rsize = 4096\<rparr>)
     = Some errNonVersionResp"
proof -
  let ?rd1 = "\<lparr>rdata = ''VERSION 1.6.9'' @ [CHR 0x0D, CHR 0x0A], rsize = 4096\<rparr>"
  let ?rd2 = "\<lparr>rdata = ''unexpected response'' @ [CHR 0x0D, CHR 0x0A], rsize = 4096\<rparr>"
  have h1: "CHR 0x0A \<in> set (rdata ?rd1)" by simp
  have h2: "CHR 0x0A \<in> set (rdata ?rd2)" by simp
  have a: "VersionDecoder_Decode \<lparr>vd_HdrLine = []\<rparr> ?rd1
     = (None, \<lparr>vd_HdrLine = ''VERSION 1.6.9'' @ [CHR 0x0D, CHR 0x0A]\<rparr>, \<lparr>rdata = [], rsize = 4096\<rparr>)"
    using VersionDecoder_Decode_line [OF h1, of "\<lparr>vd_HdrLine = []\<rparr>"]
    apply (simp add: Let_def)
    apply (cases "VersionDecoder_Decode \<lparr>vd_HdrLine = []\<rparr> ?rd1")
    apply (auto)
    done
  have b: "fst (VersionDecoder_Decode \<lparr>vd_HdrLine = []\<rparr> ?rd2) = Some errNonVersionResp"
    using VersionDecoder_Decode_line [OF h2, of "\<lparr>vd_HdrLine = []\<rparr>"]
    by (simp add: Let_def)
  show ?thesis using a b by simp
qed

section \<open>Submitting a link to a connection\<close>

text \<open>
  C8. \<^verbatim>\<open>Append\<close> on a connection is one step that never waits. When a writer holds
  or waits for the state lock it returns \<open>errConnChangingState\<close>; otherwise, when the
  state is not \<open>Connected\<close> it returns the not-connected error; otherwise, when the
  outbound channel holds \<open>queueSize\<close> links it returns \<open>errOutboundQueueFull\<close>;
  otherwise it returns no error and the link is the last element of the outbound channel.
  The three errors are different values, and in every failing case the connection is
  unchanged.
\<close>

theorem tcpConn_Append_cases:
  "(mu_writer c \<longrightarrow> tcpConn_Append c link = (Some errConnChangingState, c)) \<and>
   (\<not> mu_writer c \<and> state c \<noteq> Connected \<longrightarrow>
      tcpConn_Append c link = (Some (ErrNotConnected (be c) (state c)), c)) \<and>
   (\<not> mu_writer c \<and> state c = Connected \<and> queueSize \<le> length (outbound c) \<longrightarrow>
      tcpConn_Append c link = (Some errOutboundQueueFull, c)) \<and>
   (\<not> mu_writer c \<and> state c = Connected \<and> length (outbound c) < queueSize \<longrightarrow>
      tcpConn_Append c link = (None, c\<lparr>outbound := outbound c @ [link]\<rparr>)) \<and>
   errConnChangingState \<noteq> errOutboundQueueFull \<and>
   errConnChangingState \<noteq> ErrNotConnected (be c) (state c) \<and>
   errOutboundQueueFull \<noteq> ErrNotConnected (be c) (state c)"
  by (auto simp: tcpConn_Append_def TryRLock_def RUnlock_def trySend_def)

text \<open>One connection for each of the four outcomes.\<close>

theorem tcpConn_Append_cases_witness:
  "tcpConn_Append \<lparr>be = ''b'', mu_writer = True, mu_readers = 0, state = Connected, outbound = []\<rparr> (7::nat)
     = (Some errConnChangingState, \<lparr>be = ''b'', mu_writer = True, mu_readers = 0, state = Connected, outbound = []\<rparr>) \<and>
   tcpConn_Append \<lparr>be = ''b'', mu_writer = False, mu_readers = 0, state = Reconnecting, outbound = []\<rparr> (7::nat)
     = (Some (ErrNotConnected ''b'' Reconnecting), \<lparr>be = ''b'', mu_writer = False, mu_readers = 0, state = Reconnecting, outbound = []\<rparr>) \<and>
   tcpConn_Append \<lparr>be = ''b'', mu_writer = False, mu_readers = 0, state = Connected, outbound = replicate 1000 (1::nat)\<rparr> 7
     = (Some errOutboundQueueFull, \<lparr>be = ''b'', mu_writer = False, mu_readers = 0, state = Connected, outbound = replicate 1000 (1::nat)\<rparr>) \<and>
   tcpConn_Append \<lparr>be = ''b'', mu_writer = False, mu_readers = 0, state = Connected, outbound = [1, 2]\<rparr> (7::nat)
     = (None, \<lparr>be = ''b'', mu_writer = False, mu_readers = 0, state = Connected, outbound = [1, 2, 7]\<rparr>)"
  using
    tcpConn_Append_cases [of "\<lparr>be = ''b'', mu_writer = True, mu_readers = 0, state = Connected, outbound = []\<rparr>" "7::nat"]
    tcpConn_Append_cases [of "\<lparr>be = ''b'', mu_writer = False, mu_readers = 0, state = Reconnecting, outbound = []\<rparr>" "7::nat"]
    tcpConn_Append_cases [of "\<lparr>be = ''b'', mu_writer = False, mu_readers = 0, state = Connected, outbound = replicate 1000 (1::nat)\<rparr>" "7::nat"]
    tcpConn_Append_cases [of "\<lparr>be = ''b'', mu_writer = False, mu_readers = 0, state = Connected, outbound = [1, 2]\<rparr>" "7::nat"]
  by (simp add: queueSize_def)

section \<open>Submitting a link to a connection list\<close>

lemma tcpConn_Append_changing:
  "fst (tcpConn_Append c link) = Some errConnChangingState \<longleftrightarrow> mu_writer c"
  by (auto simp: tcpConn_Append_def TryRLock_def RUnlock_def trySend_def)

lemma tcpConn_Append_changing_same:
  "fst (tcpConn_Append c link) = Some errConnChangingState \<Longrightarrow> snd (tcpConn_Append c link) = c"
  by (auto simp: tcpConn_Append_def TryRLock_def RUnlock_def trySend_def split: if_splits)

lemma tcpConn_Append_errors_Is:
  "errors_Is (fst (tcpConn_Append c link)) errConnChangingState \<longleftrightarrow>
   fst (tcpConn_Append c link) = Some errConnChangingState"
  by (auto simp: tcpConn_Append_def TryRLock_def RUnlock_def trySend_def errors_Is_def)

lemma listTarget_lt: "numConns t \<noteq> 0 \<Longrightarrow> listTarget t j < unat (numConns t)"
  by (simp add: listTarget_def unat_mod unat_gt_0)

lemma listTarget_shift:
  "listTarget (t\<lparr>iterIdx := iterIdx t + 1\<rparr>) j = listTarget t (Suc j)"
  by (simp add: listTarget_def add.assoc)

lemma tcpConnList_loop_step:
  assumes "listTarget t 1 < length (conns t)"
    and "tcpConn_Append (conns t ! listTarget t 1) link = (err, c1)"
  shows "tcpConnList_loop (Suc k) t link =
           (if err \<noteq> Some errConnChangingState
            then Inl (err, t\<lparr>iterIdx := iterIdx t + 1, conns := (conns t)[listTarget t 1 := c1]\<rparr>)
            else tcpConnList_loop k (t\<lparr>iterIdx := iterIdx t + 1\<rparr>) link)"
proof -
  have tg: "unat ((iterIdx t + 1) mod numConns t) = listTarget t 1"
    by (simp add: listTarget_def)
  have eis: "errors_Is err errConnChangingState \<longleftrightarrow> err = Some errConnChangingState"
    using tcpConn_Append_errors_Is [of "conns t ! listTarget t 1" link] assms(2) by simp
  have same: "err = Some errConnChangingState \<Longrightarrow> c1 = conns t ! listTarget t 1"
    using tcpConn_Append_changing_same [of "conns t ! listTarget t 1" link] assms(2) by simp
  show ?thesis
    using assms eis same by (auto simp: Let_def tg)
qed

lemma tcpConnList_loop_skip:
  assumes "\<forall>j. 1 \<le> j \<and> j \<le> k \<longrightarrow>
             listTarget t j < length (conns t) \<and>
             fst (tcpConn_Append (conns t ! listTarget t j) link) = Some errConnChangingState"
  shows "tcpConnList_loop (k + m) t link =
         tcpConnList_loop m (t\<lparr>iterIdx := iterIdx t + of_nat k\<rparr>) link"
  using assms
proof (induction k arbitrary: t)
  case 0
  then show ?case by simp
next
  case (Suc k)
  let ?t1 = "t\<lparr>iterIdx := iterIdx t + 1\<rparr>"
  have one: "listTarget t 1 < length (conns t)"
    "fst (tcpConn_Append (conns t ! listTarget t 1) link) = Some errConnChangingState"
    using Suc.prems by auto
  obtain c1 where ap: "tcpConn_Append (conns t ! listTarget t 1) link = (Some errConnChangingState, c1)"
    using one(2) by (cases "tcpConn_Append (conns t ! listTarget t 1) link") auto
  have step: "tcpConnList_loop (Suc k + m) t link = tcpConnList_loop (k + m) ?t1 link"
    using tcpConnList_loop_step [OF one(1) ap, of "k + m"] by simp
  have "\<forall>j. 1 \<le> j \<and> j \<le> k \<longrightarrow>
             listTarget ?t1 j < length (conns ?t1) \<and>
             fst (tcpConn_Append (conns ?t1 ! listTarget ?t1 j) link) = Some errConnChangingState"
    using Suc.prems by (auto simp: listTarget_shift)
  then have ih: "tcpConnList_loop (k + m) ?t1 link =
             tcpConnList_loop m (?t1\<lparr>iterIdx := iterIdx ?t1 + of_nat k\<rparr>) link"
    by (rule Suc.IH)
  have e: "?t1\<lparr>iterIdx := iterIdx ?t1 + of_nat k\<rparr> = t\<lparr>iterIdx := iterIdx t + of_nat (Suc k)\<rparr>"
    by (simp add: add.assoc)
  show ?case using step ih e by (simp only:)
qed

text \<open>
  C9. For a list with as many connections as \<^verbatim>\<open>numConns\<close> says: the \<open>j\<close>-th attempt
  increments the iteration counter and chooses the connection at the counter modulo
  \<^verbatim>\<open>numConns\<close>. If the first \<open>k\<close> connections chosen (\<open>k\<close> below \<^verbatim>\<open>numConns\<close>) return
  the changing-state error and the next one returns anything else (no error, queue-full,
  not-connected), that result is returned at once, after \<open>k + 1\<close> increments, and only
  the connection that answered has changed. If all \<^verbatim>\<open>numConns\<close> connections chosen return
  changing-state, the result is an error that wraps \<open>errBackendUnhealthy\<close>, after
  \<^verbatim>\<open>numConns\<close> increments.
\<close>

theorem tcpConnList_Append_sweep:
  assumes "length (conns t) = unat (numConns t)"
  shows
    "(k < unat (numConns t) \<and>
      (\<forall>j. 1 \<le> j \<and> j \<le> k \<longrightarrow>
           fst (tcpConn_Append (conns t ! listTarget t j) link) = Some errConnChangingState) \<and>
      tcpConn_Append (conns t ! listTarget t (Suc k)) link = (err, c1) \<and>
      err \<noteq> Some errConnChangingState \<longrightarrow>
        tcpConnList_Append t link =
          (err, t\<lparr>iterIdx := iterIdx t + of_nat (Suc k),
                   conns := (conns t)[listTarget t (Suc k) := c1]\<rparr>)) \<and>
     ((\<forall>j. 1 \<le> j \<and> j \<le> unat (numConns t) \<longrightarrow>
           fst (tcpConn_Append (conns t ! listTarget t j) link) = Some errConnChangingState) \<longrightarrow>
        (\<exists>msg. tcpConnList_Append t link =
           (Some (ErrWrap msg errBackendUnhealthy), t\<lparr>iterIdx := iterIdx t + numConns t\<rparr>)))"
proof (intro conjI impI)
  assume h: "k < unat (numConns t) \<and>
      (\<forall>j. 1 \<le> j \<and> j \<le> k \<longrightarrow>
           fst (tcpConn_Append (conns t ! listTarget t j) link) = Some errConnChangingState) \<and>
      tcpConn_Append (conns t ! listTarget t (Suc k)) link = (err, c1) \<and>
      err \<noteq> Some errConnChangingState"
  then have nz: "numConns t \<noteq> 0" by (auto simp: unat_gt_0)
  have lt: "\<And>j. listTarget t j < length (conns t)"
    using listTarget_lt [OF nz] assms by simp
  obtain m where m: "unat (numConns t) = k + Suc m"
    using h by (metis add_Suc_right less_iff_Suc_add)
  let ?tk = "t\<lparr>iterIdx := iterIdx t + of_nat k\<rparr>"
  have skip: "tcpConnList_loop (k + Suc m) t link = tcpConnList_loop (Suc m) ?tk link"
    using h lt by (intro tcpConnList_loop_skip) auto
  have tg: "listTarget ?tk 1 = listTarget t (Suc k)"
    by (simp add: listTarget_def ac_simps)
  have "tcpConnList_loop (Suc m) ?tk link =
          Inl (err, ?tk\<lparr>iterIdx := iterIdx ?tk + 1, conns := (conns ?tk)[listTarget ?tk 1 := c1]\<rparr>)"
    using tcpConnList_loop_step [of ?tk link err c1 m] h lt tg by simp
  then show "tcpConnList_Append t link =
          (err, t\<lparr>iterIdx := iterIdx t + of_nat (Suc k),
                   conns := (conns t)[listTarget t (Suc k) := c1]\<rparr>)"
    using skip m tg by (simp add: tcpConnList_Append_def ac_simps)
next
  assume h: "\<forall>j. 1 \<le> j \<and> j \<le> unat (numConns t) \<longrightarrow>
           fst (tcpConn_Append (conns t ! listTarget t j) link) = Some errConnChangingState"
  have lt: "\<And>j. 1 \<le> j \<and> j \<le> unat (numConns t) \<Longrightarrow> listTarget t j < length (conns t)"
  proof -
    fix j assume "1 \<le> j \<and> j \<le> unat (numConns t)"
    then have "numConns t \<noteq> 0" by (auto simp: unat_gt_0)
    then show "listTarget t j < length (conns t)" using listTarget_lt assms by metis
  qed
  have "tcpConnList_loop (unat (numConns t) + 0) t link =
        tcpConnList_loop 0 (t\<lparr>iterIdx := iterIdx t + of_nat (unat (numConns t))\<rparr>) link"
    using h lt by (intro tcpConnList_loop_skip) auto
  then have "tcpConnList_loop (unat (numConns t)) t link =
             Inr (t\<lparr>iterIdx := iterIdx t + numConns t\<rparr>)"
    by simp
  then show "\<exists>msg. tcpConnList_Append t link =
           (Some (ErrWrap msg errBackendUnhealthy), t\<lparr>iterIdx := iterIdx t + numConns t\<rparr>)"
    by (simp add: tcpConnList_Append_def)
qed



text \<open>
  A list of three connections whose first and third are changing state, with the counter
  at 1: the attempts choose indices 2, 0 and 1, and the link lands in the second
  connection. A list of two connections that are both changing state is unhealthy.
\<close>

theorem tcpConnList_Append_sweep_witness:
  "tcpConnList_Append
     \<lparr>numConns = 3, lbe = ''b'',
      conns = [\<lparr>be = ''b'', mu_writer = True, mu_readers = 0, state = Connected, outbound = []\<rparr>,
               \<lparr>be = ''b'', mu_writer = False, mu_readers = 0, state = Connected, outbound = []\<rparr>,
               \<lparr>be = ''b'', mu_writer = True, mu_readers = 0, state = Connected, outbound = []\<rparr>],
      iterIdx = 1\<rparr> (7::nat)
   = (None,
     \<lparr>numConns = 3, lbe = ''b'',
      conns = [\<lparr>be = ''b'', mu_writer = True, mu_readers = 0, state = Connected, outbound = []\<rparr>,
               \<lparr>be = ''b'', mu_writer = False, mu_readers = 0, state = Connected, outbound = [7]\<rparr>,
               \<lparr>be = ''b'', mu_writer = True, mu_readers = 0, state = Connected, outbound = []\<rparr>],
      iterIdx = 4\<rparr>) \<and>
   (\<exists>msg. tcpConnList_Append
     \<lparr>numConns = 2, lbe = ''b'',
      conns = [\<lparr>be = ''b'', mu_writer = True, mu_readers = 0, state = Connected, outbound = []\<rparr>,
               \<lparr>be = ''b'', mu_writer = True, mu_readers = 0, state = Connected, outbound = []\<rparr>],
      iterIdx = 5\<rparr> (7::nat)
   = (Some (ErrWrap msg errBackendUnhealthy),
     \<lparr>numConns = 2, lbe = ''b'',
      conns = [\<lparr>be = ''b'', mu_writer = True, mu_readers = 0, state = Connected, outbound = []\<rparr>,
               \<lparr>be = ''b'', mu_writer = True, mu_readers = 0, state = Connected, outbound = []\<rparr>],
      iterIdx = 7\<rparr>))"
proof -
  let ?cL = "\<lparr>be = ''b'', mu_writer = True, mu_readers = 0, state = Connected, outbound = ([]::nat list)\<rparr>"
  let ?cF = "\<lparr>be = ''b'', mu_writer = False, mu_readers = 0, state = Connected, outbound = ([]::nat list)\<rparr>"
  let ?t = "\<lparr>numConns = 3, lbe = ''b'', conns = [?cL, ?cF, ?cL], iterIdx = 1\<rparr>"
  let ?u = "\<lparr>numConns = 2, lbe = ''b'', conns = [?cL, ?cL], iterIdx = 5\<rparr>"
  let ?cF' = "\<lparr>be = ''b'', mu_writer = False, mu_readers = 0, state = Connected, outbound = [7::nat]\<rparr>"
  have apL: "tcpConn_Append ?cL 7 = (Some errConnChangingState, ?cL)"
    by (simp add: tcpConn_Append_def TryRLock_def)
  have apF: "tcpConn_Append ?cF 7 = (None, ?cF')"
    by (simp add: tcpConn_Append_def TryRLock_def RUnlock_def trySend_def queueSize_def)
  have lent: "length (conns ?t) = unat (numConns ?t)" by simp
  have lenu: "length (conns ?u) = unat (numConns ?u)" by simp
  have tg: "listTarget ?t 1 = 2" "listTarget ?t 2 = 0" "listTarget ?t (Suc 2) = 1"
    "listTarget ?u 1 = 0" "listTarget ?u 2 = 1"
    by (simp_all add: listTarget_def)
  have pre_t: "2 < unat (numConns ?t) \<and>
      (\<forall>j. 1 \<le> j \<and> j \<le> 2 \<longrightarrow>
           fst (tcpConn_Append (conns ?t ! listTarget ?t j) 7) = Some errConnChangingState) \<and>
      tcpConn_Append (conns ?t ! listTarget ?t (Suc 2)) 7 = (None, ?cF') \<and>
      None \<noteq> Some errConnChangingState"
  proof (intro conjI allI impI)
    fix j :: nat
    assume "1 \<le> j \<and> j \<le> 2"
    then have "j = 1 \<or> j = 2" by auto
    then show "fst (tcpConn_Append (conns ?t ! listTarget ?t j) 7) = Some errConnChangingState"
      using tg apL by auto
  next
    show "tcpConn_Append (conns ?t ! listTarget ?t (Suc 2)) 7 = (None, ?cF')"
      using tg(3) apF by simp
  qed simp_all
  have pre_u: "\<forall>j. 1 \<le> j \<and> j \<le> unat (numConns ?u) \<longrightarrow>
           fst (tcpConn_Append (conns ?u ! listTarget ?u j) 7) = Some errConnChangingState"
  proof (intro allI impI)
    fix j :: nat
    assume "1 \<le> j \<and> j \<le> unat (numConns ?u)"
    then have "j = 1 \<or> j = 2" by auto
    then show "fst (tcpConn_Append (conns ?u ! listTarget ?u j) 7) = Some errConnChangingState"
      using tg apL by auto
  qed
  have a: "tcpConnList_Append ?t 7 = (None, ?t\<lparr>iterIdx := 4, conns := [?cL, ?cF', ?cL]\<rparr>)"
    using tcpConnList_Append_sweep [OF lent, of 2 7 None ?cF', THEN conjunct1, THEN mp, OF pre_t] tg
    by simp
  have b: "\<exists>msg. tcpConnList_Append ?u 7 = (Some (ErrWrap msg errBackendUnhealthy), ?u\<lparr>iterIdx := 7\<rparr>)"
    using tcpConnList_Append_sweep [OF lenu, of 0 7 None ?cL, THEN conjunct2, THEN mp, OF pre_u]
    by simp
  show ?thesis using a b by simp
qed

section \<open>Decoding loops\<close>

lemma range_loop_inv:
  assumes "I s"
    and "\<And>idx x s. x \<in> set xs \<Longrightarrow> i \<le> idx \<Longrightarrow> I s \<Longrightarrow>
           (case body idx x s of Inl r \<Rightarrow> R r | Inr s' \<Rightarrow> I s')"
  shows "case range_loop body i xs s of Inl r \<Rightarrow> R r | Inr s' \<Rightarrow> I s'"
  using assms
proof (induction xs arbitrary: i s)
  case Nil
  then show ?case by simp
next
  case (Cons x xs)
  have step: "case body i x s of Inl r \<Rightarrow> R r | Inr s' \<Rightarrow> I s'"
    using Cons.prems(1) Cons.prems(2) [of x i s] by simp
  show ?case
  proof (cases "body i x s")
    case (Inl r)
    then show ?thesis using step by simp
  next
    case (Inr s')
    then have "I s'" using step by simp
    moreover have "\<And>idx y t. y \<in> set xs \<Longrightarrow> Suc i \<le> idx \<Longrightarrow> I t \<Longrightarrow>
           (case body idx y t of Inl r \<Rightarrow> R r | Inr s' \<Rightarrow> I s')"
      using Cons.prems(2) by simp
    ultimately have "case range_loop body (Suc i) xs s' of Inl r \<Rightarrow> R r | Inr s' \<Rightarrow> I s'"
      by (rule Cons.IH)
    then show ?thesis using Inr by simp
  qed
qed

lemma keeps_Inl [simp]: "keeps g d (Inl (e, d')) \<longleftrightarrow> g d' = g d"
  by (simp add: keeps_def)

lemma keeps_Inr [simp]: "keeps g d (Inr (d', vs)) \<longleftrightarrow> g d' = g d"
  by (simp add: keeps_def)

lemma keeps_parseUintField:
  "(\<And>n. g (upd n) = g d) \<Longrightarrow> keeps g d (parseUintField msg elem arg bitSize upd d vs)"
  by (simp add: parseUintField_def split: sum.split)

lemma keeps_parseIntField:
  "(\<And>n. g (upd n) = g d) \<Longrightarrow> keeps g d (parseIntField msg elem arg bitSize upd d vs)"
  by (simp add: parseIntField_def split: sum.split)

text \<open>A loop whose every step after the first token keeps \<open>g\<close> keeps \<open>g\<close>.\<close>

lemma range_loop_keeps:
  fixes body :: "nat \<Rightarrow> 'e \<Rightarrow> 'd \<times> int \<Rightarrow> (error option \<times> 'd) + ('d \<times> int)"
  assumes "\<And>idx x d1 vs1. x \<in> set xs \<Longrightarrow> i \<le> idx \<Longrightarrow> keeps g d1 (body idx x (d1, vs1))"
  shows "keeps g d (range_loop body i xs (d, vs))"
proof -
  let ?I = "\<lambda>s. g (fst s) = g d"
  let ?R = "\<lambda>r. g (snd r) = g d"
  have "case range_loop body i xs (d, vs) of Inl r \<Rightarrow> ?R r | Inr s' \<Rightarrow> ?I s'"
  proof (rule range_loop_inv [where I = ?I and R = ?R])
    show "?I (d, vs)" by simp
  next
    fix idx x and s :: "'d \<times> int"
    assume x: "x \<in> set xs" and idx: "i \<le> idx" and I: "?I s"
    obtain d1 vs1 where s: "s = (d1, vs1)" by (cases s)
    have "keeps g d1 (body idx x (d1, vs1))" using assms x idx by simp
    then show "case body idx x s of Inl r \<Rightarrow> ?R r | Inr s' \<Rightarrow> ?I s'"
      using I s by (auto simp: keeps_def split: sum.splits)
  qed
  then show ?thesis by (auto simp: keeps_def split: sum.splits)
qed

lemma novalue_simps [simp]: "novalue (Inl r)" "novalue (Inr (d', vs)) \<longleftrightarrow> vs = - 1"
  by (simp_all add: novalue_def)

lemma novalue_parseUintField: "novalue (parseUintField msg elem arg bitSize upd d (- 1))"
  by (simp add: parseUintField_def split: sum.split)

lemma novalue_parseIntField: "novalue (parseIntField msg elem arg bitSize upd d (- 1))"
  by (simp add: parseIntField_def split: sum.split)

lemma range_loop_novalue:
  fixes body :: "nat \<Rightarrow> 'e \<Rightarrow> 'd \<times> int \<Rightarrow> (error option \<times> 'd) + ('d \<times> int)"
  assumes "\<And>idx x d1. x \<in> set xs \<Longrightarrow> i \<le> idx \<Longrightarrow> novalue (body idx x (d1, - 1))"
  shows "novalue (range_loop body i xs (d, - 1))"
proof -
  let ?I = "\<lambda>s. snd s = - 1"
  let ?R = "\<lambda>r. True"
  have "case range_loop body i xs (d, - 1) of Inl r \<Rightarrow> ?R r | Inr s' \<Rightarrow> ?I s'"
  proof (rule range_loop_inv [where I = ?I and R = ?R])
    show "?I (d, - 1)" by simp
  next
    fix idx x and s :: "'d \<times> int"
    assume x: "x \<in> set xs" and idx: "i \<le> idx" and I: "?I s"
    obtain d1 vs1 where s: "s = (d1, vs1)" by (cases s)
    have "novalue (body idx x (d1, - 1))" using assms x idx by simp
    then show "case body idx x s of Inl r \<Rightarrow> ?R r | Inr s' \<Rightarrow> ?I s'"
      using I s by (auto simp: novalue_def split: sum.splits)
  qed
  then show ?thesis by (auto simp: novalue_def split: sum.splits)
qed

lemma loop0_keeps:
  fixes body :: "nat \<Rightarrow> 'e \<Rightarrow> 'd \<times> int \<Rightarrow> (error option \<times> 'd) + ('d \<times> int)"
  assumes first: "\<And>t0 d1 vs1. keeps g d1 (body 0 t0 (d1, vs1))"
    and rest: "\<And>tok idx d1 vs1. tok \<in> set (tl toks) \<Longrightarrow> 0 < idx \<Longrightarrow>
                 keeps g d1 (body idx tok (d1, vs1))"
  shows "keeps g d (range_loop body 0 toks (d, vs))"
proof (cases toks)
  case Nil
  then show ?thesis by simp
next
  case (Cons t0 ts)
  have k0: "keeps g d (body 0 t0 (d, vs))" by (rule first)
  show ?thesis
  proof (cases "body 0 t0 (d, vs)")
    case (Inl r)
    then show ?thesis using k0 Cons by simp
  next
    case (Inr s1)
    obtain d1 vs1 where s1: "s1 = (d1, vs1)" by (cases s1)
    have g1: "g d1 = g d" using k0 Inr s1 by simp
    have "keeps g d1 (range_loop body (Suc 0) ts (d1, vs1))"
      using rest Cons by (intro range_loop_keeps) simp
    then have "keeps g d (range_loop body (Suc 0) ts (d1, vs1))"
      unfolding keeps_def g1 .
    then show ?thesis using Cons Inr s1 by simp
  qed
qed

lemma loop0_novalue:
  fixes body :: "nat \<Rightarrow> 'e \<Rightarrow> 'd \<times> int \<Rightarrow> (error option \<times> 'd) + ('d \<times> int)"
  assumes first: "\<And>t0 d1. novalue (body 0 t0 (d1, - 1))"
    and rest: "\<And>tok idx d1. tok \<in> set (tl toks) \<Longrightarrow> 0 < idx \<Longrightarrow>
                 novalue (body idx tok (d1, - 1))"
  shows "novalue (range_loop body 0 toks (d, - 1))"
proof (cases toks)
  case Nil
  then show ?thesis by simp
next
  case (Cons t0 ts)
  have k0: "novalue (body 0 t0 (d, - 1))" by (rule first)
  show ?thesis
  proof (cases "body 0 t0 (d, - 1)")
    case (Inl r)
    then show ?thesis using Cons by simp
  next
    case (Inr s1)
    obtain d1 vs1 where s1: "s1 = (d1, vs1)" by (cases s1)
    have v1: "vs1 = - 1" using k0 Inr s1 by simp
    have "novalue (range_loop body (Suc 0) ts (d1, - 1))"
      using rest Cons by (intro range_loop_novalue) simp
    then show ?thesis using Cons Inr s1 v1 by simp
  qed
qed

lemma absent_tokens:
  assumes "flagAbsent c rd" and "ReadSlice (CHR 0x0A) rd = (Inr h, rd1)"
    and "tok \<in> set (tl (Fields h))"
  shows "\<not> startsWith c tok"
  using assms by (auto simp: flagAbsent_def list_ex_iff)

lemma absent_digits:
  assumes "valueAbsent rd" and "ReadSlice (CHR 0x0A) rd = (Inr h, rd1)"
    and "tok \<in> set (tl (Fields h))"
  shows "\<not> startsWithDigit tok"
  using assms by (auto simp: valueAbsent_def list_ex_iff)

subsection \<open>mg\<close>

lemma MetaGetDecoder_elem_keeps:
  assumes "0 < idx"
    and "\<And>c arg. tok = c # arg \<Longrightarrow> length tok = 1 \<Longrightarrow> g (MetaGetDecoder_single c d) = g d"
    and "\<And>c arg. tok = c # arg \<Longrightarrow> keeps g d (MetaGetDecoder_flag c arg tok d vs)"
  shows "keeps g d (MetaGetDecoder_elem hdrLine idx tok (d, vs))"
  using assms by (cases tok) (simp_all add: MetaGetDecoder_elem_def split: sum.split)

lemma MetaGetDecoder_elem_first_keeps:
  assumes "\<And>d x. g (d\<lparr>mgd_Status := x\<rparr>) = g d" and "\<And>d x. g (d\<lparr>mgd_HdrLine := x\<rparr>) = g d"
  shows "keeps g d (MetaGetDecoder_elem hdrLine 0 t0 (d, vs))"
  using assms by (simp add: MetaGetDecoder_elem_def Let_def)

lemma MetaGetDecoder_elem_novalue:
  assumes "0 < idx" and "\<not> startsWithDigit tok"
  shows "novalue (MetaGetDecoder_elem hdrLine idx tok (d, - 1))"
  using assms
  by (cases tok)
     (simp_all add: MetaGetDecoder_elem_def MetaGetDecoder_flag_def startsWithDigit_def
        novalue_parseUintField novalue_parseIntField)

lemma MetaGetDecoder_elem_first_novalue:
  "novalue (MetaGetDecoder_elem hdrLine 0 t0 (d, - 1))"
  by (simp add: MetaGetDecoder_elem_def Let_def)

lemma MetaGetDecoder_Decode_keeps:
  assumes loop: "\<And>h rd1. ReadSlice (CHR 0x0A) rd = (Inr h, rd1) \<Longrightarrow>
                 keeps g d (range_loop (MetaGetDecoder_elem h) 0 (Fields h) (d, - 1))"
    and vl0: "\<And>d x. g (d\<lparr>mgd_Value := x\<rparr>) = g d"
  shows "g (fst (snd (MetaGetDecoder_Decode d rd))) = g d"
proof (cases "ReadSlice (CHR 0x0A) rd")
  case (Pair res rd1)
  show ?thesis
  proof (cases res)
    case (Inl err)
    then show ?thesis using Pair by (simp add: MetaGetDecoder_Decode_def)
  next
    case (Inr h)
    have k: "keeps g d (range_loop (MetaGetDecoder_elem h) 0 (Fields h) (d, - 1))"
      using loop Pair Inr by simp
    show ?thesis
    proof (cases "range_loop (MetaGetDecoder_elem h) 0 (Fields h) (d, - 1)")
      case (Inl r)
      then show ?thesis using Pair Inr k
        by (cases r) (simp add: MetaGetDecoder_Decode_def)
    next
      case (Inr s1)
      obtain d1 vs1 where s1: "s1 = (d1, vs1)" by (cases s1)
      have g1: "g d1 = g d" using k Inr s1 by simp
      show ?thesis
        using Pair \<open>res = Inr h\<close> Inr s1 g1 vl0
        by (simp add: MetaGetDecoder_Decode_def Let_def split: prod.split option.split sum.split)
    qed
  qed
qed

lemma MetaGetDecoder_Decode_novalue:
  assumes rs: "ReadSlice (CHR 0x0A) rd = (Inr h, rd1)"
    and nv: "novalue (range_loop (MetaGetDecoder_elem h) 0 (Fields h) (d, - 1))"
    and "keeps mgd_Value d (range_loop (MetaGetDecoder_elem h) 0 (Fields h) (d, - 1))"
  shows "snd (snd (MetaGetDecoder_Decode d rd)) = rd1 \<and>
         mgd_Value (fst (snd (MetaGetDecoder_Decode d rd))) = mgd_Value d"
proof (cases "range_loop (MetaGetDecoder_elem h) 0 (Fields h) (d, - 1)")
  case (Inl r)
  then show ?thesis using rs assms(3-) by (cases r) (simp add: MetaGetDecoder_Decode_def)
next
  case (Inr s1)
  obtain d1 vs1 where s1: "s1 = (d1, vs1)" by (cases s1)
  then have "vs1 = - 1" "mgd_Value d1 = mgd_Value d" using nv assms(3-) Inr by simp_all
  then show ?thesis using rs Inr s1 by (simp add: MetaGetDecoder_Decode_def)
qed

lemma MetaGetDecoder_loop_keeps_mgd_Value:
  "keeps mgd_Value d (range_loop (MetaGetDecoder_elem h) 0 toks (d, vs))"
proof (rule loop0_keeps)
  fix tok idx d1 vs1
  assume "0 < (idx::nat)"
  then show "keeps mgd_Value d1 (MetaGetDecoder_elem h idx tok (d1, vs1))"
    by (intro MetaGetDecoder_elem_keeps)
       (simp_all add: MetaGetDecoder_single_def MetaGetDecoder_flag_def keeps_parseUintField keeps_parseIntField)
qed (simp add: MetaGetDecoder_elem_first_keeps)

lemma mg_novalue:
  assumes "valueAbsent rd" and rs: "ReadSlice (CHR 0x0A) rd = (Inr h, rd1)"
  shows "snd (snd (MetaGetDecoder_Decode d rd)) = rd1 \<and>
         mgd_Value (fst (snd (MetaGetDecoder_Decode d rd))) = mgd_Value d"
proof (rule MetaGetDecoder_Decode_novalue [OF rs])
  show "novalue (range_loop (MetaGetDecoder_elem h) 0 (Fields h) (d, - 1))"
  proof (rule loop0_novalue)
    fix tok idx d1
    assume tok: "tok \<in> set (tl (Fields h))" and idx: "0 < (idx::nat)"
    show "novalue (MetaGetDecoder_elem h idx tok (d1, - 1))"
      using idx absent_digits [OF assms(1) rs tok] by (rule MetaGetDecoder_elem_novalue)
  qed (rule MetaGetDecoder_elem_first_novalue)
qed (rule MetaGetDecoder_loop_keeps_mgd_Value)+

lemma mg_keeps_Value:
  assumes "valueAbsent rd"
  shows "mgd_Value (fst (snd (MetaGetDecoder_Decode d rd))) = mgd_Value d"
proof (cases "ReadSlice (CHR 0x0A) rd")
  case (Pair res rd1)
  show ?thesis
  proof (cases res)
    case (Inl err)
    then show ?thesis using Pair by (simp add: MetaGetDecoder_Decode_def)
  next
    case (Inr h)
    then show ?thesis using mg_novalue [OF assms, of h rd1 d] Pair by simp
  qed
qed

lemma mg_keeps_Opaque:
  assumes "flagAbsent (CHR ''O'') rd"
  shows "mgd_Opaque (fst (snd (MetaGetDecoder_Decode d rd))) = mgd_Opaque d"
proof (rule MetaGetDecoder_Decode_keeps)
  fix h rd1
  assume rs: "ReadSlice (CHR 0x0A) rd = (Inr h, rd1)"
  show "keeps mgd_Opaque d (range_loop (MetaGetDecoder_elem h) 0 (Fields h) (d, - 1))"
  proof (rule loop0_keeps)
    fix tok idx d1 vs1
    assume tok: "tok \<in> set (tl (Fields h))" and idx: "0 < (idx::nat)"
    have ns1: "\<not> startsWith (CHR ''O'') tok"
      using absent_tokens [OF assms(1) rs tok] .
    show "keeps mgd_Opaque d1 (MetaGetDecoder_elem h idx tok (d1, vs1))"
      using idx ns1
      by (intro MetaGetDecoder_elem_keeps)
         (simp_all add: startsWith_def MetaGetDecoder_single_def MetaGetDecoder_flag_def
            keeps_parseUintField keeps_parseIntField)
  qed (simp add: MetaGetDecoder_elem_first_keeps)
qed simp

lemma mg_keeps_RemainingTTLSeconds:
  assumes "flagAbsent (CHR ''t'') rd"
  shows "mgd_RemainingTTLSeconds (fst (snd (MetaGetDecoder_Decode d rd))) = mgd_RemainingTTLSeconds d"
proof (rule MetaGetDecoder_Decode_keeps)
  fix h rd1
  assume rs: "ReadSlice (CHR 0x0A) rd = (Inr h, rd1)"
  show "keeps mgd_RemainingTTLSeconds d (range_loop (MetaGetDecoder_elem h) 0 (Fields h) (d, - 1))"
  proof (rule loop0_keeps)
    fix tok idx d1 vs1
    assume tok: "tok \<in> set (tl (Fields h))" and idx: "0 < (idx::nat)"
    have ns1: "\<not> startsWith (CHR ''t'') tok"
      using absent_tokens [OF assms(1) rs tok] .
    show "keeps mgd_RemainingTTLSeconds d1 (MetaGetDecoder_elem h idx tok (d1, vs1))"
      using idx ns1
      by (intro MetaGetDecoder_elem_keeps)
         (simp_all add: startsWith_def MetaGetDecoder_single_def MetaGetDecoder_flag_def
            keeps_parseUintField keeps_parseIntField)
  qed (simp add: MetaGetDecoder_elem_first_keeps)
qed simp

lemma mg_keeps_CasId:
  assumes "flagAbsent (CHR ''c'') rd"
  shows "mgd_CasId (fst (snd (MetaGetDecoder_Decode d rd))) = mgd_CasId d"
proof (rule MetaGetDecoder_Decode_keeps)
  fix h rd1
  assume rs: "ReadSlice (CHR 0x0A) rd = (Inr h, rd1)"
  show "keeps mgd_CasId d (range_loop (MetaGetDecoder_elem h) 0 (Fields h) (d, - 1))"
  proof (rule loop0_keeps)
    fix tok idx d1 vs1
    assume tok: "tok \<in> set (tl (Fields h))" and idx: "0 < (idx::nat)"
    have ns1: "\<not> startsWith (CHR ''c'') tok"
      using absent_tokens [OF assms(1) rs tok] .
    show "keeps mgd_CasId d1 (MetaGetDecoder_elem h idx tok (d1, vs1))"
      using idx ns1
      by (intro MetaGetDecoder_elem_keeps)
         (simp_all add: startsWith_def MetaGetDecoder_single_def MetaGetDecoder_flag_def
            keeps_parseUintField keeps_parseIntField)
  qed (simp add: MetaGetDecoder_elem_first_keeps)
qed simp

lemma mg_keeps_ClientFlags:
  assumes "flagAbsent (CHR ''f'') rd"
  shows "mgd_ClientFlags (fst (snd (MetaGetDecoder_Decode d rd))) = mgd_ClientFlags d"
proof (rule MetaGetDecoder_Decode_keeps)
  fix h rd1
  assume rs: "ReadSlice (CHR 0x0A) rd = (Inr h, rd1)"
  show "keeps mgd_ClientFlags d (range_loop (MetaGetDecoder_elem h) 0 (Fields h) (d, - 1))"
  proof (rule loop0_keeps)
    fix tok idx d1 vs1
    assume tok: "tok \<in> set (tl (Fields h))" and idx: "0 < (idx::nat)"
    have ns1: "\<not> startsWith (CHR ''f'') tok"
      using absent_tokens [OF assms(1) rs tok] .
    show "keeps mgd_ClientFlags d1 (MetaGetDecoder_elem h idx tok (d1, vs1))"
      using idx ns1
      by (intro MetaGetDecoder_elem_keeps)
         (simp_all add: startsWith_def MetaGetDecoder_single_def MetaGetDecoder_flag_def
            keeps_parseUintField keeps_parseIntField)
  qed (simp add: MetaGetDecoder_elem_first_keeps)
qed simp

lemma mg_keeps_IsItemHitBefore:
  assumes "flagAbsent (CHR ''h'') rd"
  shows "mgd_IsItemHitBefore (fst (snd (MetaGetDecoder_Decode d rd))) = mgd_IsItemHitBefore d"
proof (rule MetaGetDecoder_Decode_keeps)
  fix h rd1
  assume rs: "ReadSlice (CHR 0x0A) rd = (Inr h, rd1)"
  show "keeps mgd_IsItemHitBefore d (range_loop (MetaGetDecoder_elem h) 0 (Fields h) (d, - 1))"
  proof (rule loop0_keeps)
    fix tok idx d1 vs1
    assume tok: "tok \<in> set (tl (Fields h))" and idx: "0 < (idx::nat)"
    have ns1: "\<not> startsWith (CHR ''h'') tok"
      using absent_tokens [OF assms(1) rs tok] .
    show "keeps mgd_IsItemHitBefore d1 (MetaGetDecoder_elem h idx tok (d1, vs1))"
      using idx ns1
      by (intro MetaGetDecoder_elem_keeps)
         (simp_all add: startsWith_def MetaGetDecoder_single_def MetaGetDecoder_flag_def
            keeps_parseUintField keeps_parseIntField)
  qed (simp add: MetaGetDecoder_elem_first_keeps)
qed simp

lemma mg_keeps_ItemKey:
  assumes "flagAbsent (CHR ''k'') rd"
  shows "mgd_ItemKey (fst (snd (MetaGetDecoder_Decode d rd))) = mgd_ItemKey d"
proof (rule MetaGetDecoder_Decode_keeps)
  fix h rd1
  assume rs: "ReadSlice (CHR 0x0A) rd = (Inr h, rd1)"
  show "keeps mgd_ItemKey d (range_loop (MetaGetDecoder_elem h) 0 (Fields h) (d, - 1))"
  proof (rule loop0_keeps)
    fix tok idx d1 vs1
    assume tok: "tok \<in> set (tl (Fields h))" and idx: "0 < (idx::nat)"
    have ns1: "\<not> startsWith (CHR ''k'') tok"
      using absent_tokens [OF assms(1) rs tok] .
    show "keeps mgd_ItemKey d1 (MetaGetDecoder_elem h idx tok (d1, vs1))"
      using idx ns1
      by (intro MetaGetDecoder_elem_keeps)
         (simp_all add: startsWith_def MetaGetDecoder_single_def MetaGetDecoder_flag_def
            keeps_parseUintField keeps_parseIntField)
  qed (simp add: MetaGetDecoder_elem_first_keeps)
qed simp

lemma mg_keeps_ItemSizeInBytes:
  assumes "flagAbsent (CHR ''s'') rd"
  shows "mgd_ItemSizeInBytes (fst (snd (MetaGetDecoder_Decode d rd))) = mgd_ItemSizeInBytes d"
proof (rule MetaGetDecoder_Decode_keeps)
  fix h rd1
  assume rs: "ReadSlice (CHR 0x0A) rd = (Inr h, rd1)"
  show "keeps mgd_ItemSizeInBytes d (range_loop (MetaGetDecoder_elem h) 0 (Fields h) (d, - 1))"
  proof (rule loop0_keeps)
    fix tok idx d1 vs1
    assume tok: "tok \<in> set (tl (Fields h))" and idx: "0 < (idx::nat)"
    have ns1: "\<not> startsWith (CHR ''s'') tok"
      using absent_tokens [OF assms(1) rs tok] .
    show "keeps mgd_ItemSizeInBytes d1 (MetaGetDecoder_elem h idx tok (d1, vs1))"
      using idx ns1
      by (intro MetaGetDecoder_elem_keeps)
         (simp_all add: startsWith_def MetaGetDecoder_single_def MetaGetDecoder_flag_def
            keeps_parseUintField keeps_parseIntField)
  qed (simp add: MetaGetDecoder_elem_first_keeps)
qed simp

lemma mg_keeps_TimeSinceLastAccessedSeconds:
  assumes "flagAbsent (CHR ''l'') rd"
  shows "mgd_TimeSinceLastAccessedSeconds (fst (snd (MetaGetDecoder_Decode d rd))) = mgd_TimeSinceLastAccessedSeconds d"
proof (rule MetaGetDecoder_Decode_keeps)
  fix h rd1
  assume rs: "ReadSlice (CHR 0x0A) rd = (Inr h, rd1)"
  show "keeps mgd_TimeSinceLastAccessedSeconds d (range_loop (MetaGetDecoder_elem h) 0 (Fields h) (d, - 1))"
  proof (rule loop0_keeps)
    fix tok idx d1 vs1
    assume tok: "tok \<in> set (tl (Fields h))" and idx: "0 < (idx::nat)"
    have ns1: "\<not> startsWith (CHR ''l'') tok"
      using absent_tokens [OF assms(1) rs tok] .
    show "keeps mgd_TimeSinceLastAccessedSeconds d1 (MetaGetDecoder_elem h idx tok (d1, vs1))"
      using idx ns1
      by (intro MetaGetDecoder_elem_keeps)
         (simp_all add: startsWith_def MetaGetDecoder_single_def MetaGetDecoder_flag_def
            keeps_parseUintField keeps_parseIntField)
  qed (simp add: MetaGetDecoder_elem_first_keeps)
qed simp

lemma mg_keeps_Recache:
  assumes "flagAbsent (CHR ''W'') rd" and "flagAbsent (CHR ''Z'') rd"
  shows "mgd_Recache (fst (snd (MetaGetDecoder_Decode d rd))) = mgd_Recache d"
proof (rule MetaGetDecoder_Decode_keeps)
  fix h rd1
  assume rs: "ReadSlice (CHR 0x0A) rd = (Inr h, rd1)"
  show "keeps mgd_Recache d (range_loop (MetaGetDecoder_elem h) 0 (Fields h) (d, - 1))"
  proof (rule loop0_keeps)
    fix tok idx d1 vs1
    assume tok: "tok \<in> set (tl (Fields h))" and idx: "0 < (idx::nat)"
    have ns1: "\<not> startsWith (CHR ''W'') tok"
      using absent_tokens [OF assms(1) rs tok] .
    have ns2: "\<not> startsWith (CHR ''Z'') tok"
      using absent_tokens [OF assms(2) rs tok] .
    show "keeps mgd_Recache d1 (MetaGetDecoder_elem h idx tok (d1, vs1))"
      using idx ns1 ns2
      by (intro MetaGetDecoder_elem_keeps)
         (simp_all add: startsWith_def MetaGetDecoder_single_def MetaGetDecoder_flag_def
            keeps_parseUintField keeps_parseIntField)
  qed (simp add: MetaGetDecoder_elem_first_keeps)
qed simp

lemma mg_keeps_Stale:
  assumes "flagAbsent (CHR ''X'') rd"
  shows "mgd_Stale (fst (snd (MetaGetDecoder_Decode d rd))) = mgd_Stale d"
proof (rule MetaGetDecoder_Decode_keeps)
  fix h rd1
  assume rs: "ReadSlice (CHR 0x0A) rd = (Inr h, rd1)"
  show "keeps mgd_Stale d (range_loop (MetaGetDecoder_elem h) 0 (Fields h) (d, - 1))"
  proof (rule loop0_keeps)
    fix tok idx d1 vs1
    assume tok: "tok \<in> set (tl (Fields h))" and idx: "0 < (idx::nat)"
    have ns1: "\<not> startsWith (CHR ''X'') tok"
      using absent_tokens [OF assms(1) rs tok] .
    show "keeps mgd_Stale d1 (MetaGetDecoder_elem h idx tok (d1, vs1))"
      using idx ns1
      by (intro MetaGetDecoder_elem_keeps)
         (simp_all add: startsWith_def MetaGetDecoder_single_def MetaGetDecoder_flag_def
            keeps_parseUintField keeps_parseIntField)
  qed (simp add: MetaGetDecoder_elem_first_keeps)
qed simp

subsection \<open>ms\<close>

lemma MetaSetDecoder_elem_keeps:
  assumes "0 < idx"
    and "\<And>c arg. tok = c # arg \<Longrightarrow> keeps g d (MetaSetDecoder_flag c arg tok d vs)"
  shows "keeps g d (MetaSetDecoder_elem hdrLine idx tok (d, vs))"
  using assms by (cases tok) (simp_all add: MetaSetDecoder_elem_def split: sum.split)

lemma MetaSetDecoder_elem_first_keeps:
  assumes "\<And>d x. g (d\<lparr>msd_Status := x\<rparr>) = g d" and "\<And>d x. g (d\<lparr>msd_HdrLine := x\<rparr>) = g d"
  shows "keeps g d (MetaSetDecoder_elem hdrLine 0 t0 (d, vs))"
  using assms by (simp add: MetaSetDecoder_elem_def Let_def)

lemma MetaSetDecoder_Decode_keeps:
  assumes loop: "\<And>h rd1. ReadSlice (CHR 0x0A) rd = (Inr h, rd1) \<Longrightarrow>
                 keeps g d (range_loop (MetaSetDecoder_elem h) 0 (Fields h) (d, 0))"
  shows "g (fst (snd (MetaSetDecoder_Decode d rd))) = g d"
proof (cases "ReadSlice (CHR 0x0A) rd")
  case (Pair res rd1)
  show ?thesis
  proof (cases res)
    case (Inl err)
    then show ?thesis using Pair by (simp add: MetaSetDecoder_Decode_def)
  next
    case (Inr h)
    have k: "keeps g d (range_loop (MetaSetDecoder_elem h) 0 (Fields h) (d, 0))"
      using loop Pair Inr by simp
    show ?thesis
    proof (cases "range_loop (MetaSetDecoder_elem h) 0 (Fields h) (d, 0)")
      case (Inl r)
      then show ?thesis using Pair Inr k
        by (cases r) (simp add: MetaSetDecoder_Decode_def)
    next
      case (Inr s1)
      obtain d1 vs1 where s1: "s1 = (d1, vs1)" by (cases s1)
      have g1: "g d1 = g d" using k Inr s1 by simp
      show ?thesis
        using Pair \<open>res = Inr h\<close> Inr s1 g1 
        by (simp add: MetaSetDecoder_Decode_def Let_def split: prod.split option.split sum.split)
    qed
  qed
qed

lemma ms_keeps_Opaque:
  assumes "flagAbsent (CHR ''O'') rd"
  shows "msd_Opaque (fst (snd (MetaSetDecoder_Decode d rd))) = msd_Opaque d"
proof (rule MetaSetDecoder_Decode_keeps)
  fix h rd1
  assume rs: "ReadSlice (CHR 0x0A) rd = (Inr h, rd1)"
  show "keeps msd_Opaque d (range_loop (MetaSetDecoder_elem h) 0 (Fields h) (d, 0))"
  proof (rule loop0_keeps)
    fix tok idx d1 vs1
    assume tok: "tok \<in> set (tl (Fields h))" and idx: "0 < (idx::nat)"
    have ns1: "\<not> startsWith (CHR ''O'') tok"
      using absent_tokens [OF assms(1) rs tok] .
    show "keeps msd_Opaque d1 (MetaSetDecoder_elem h idx tok (d1, vs1))"
      using idx ns1
      by (intro MetaSetDecoder_elem_keeps)
         (simp_all add: startsWith_def MetaSetDecoder_flag_def
            keeps_parseUintField keeps_parseIntField)
  qed (simp add: MetaSetDecoder_elem_first_keeps)
qed

lemma ms_keeps_CasId:
  assumes "flagAbsent (CHR ''c'') rd"
  shows "msd_CasId (fst (snd (MetaSetDecoder_Decode d rd))) = msd_CasId d"
proof (rule MetaSetDecoder_Decode_keeps)
  fix h rd1
  assume rs: "ReadSlice (CHR 0x0A) rd = (Inr h, rd1)"
  show "keeps msd_CasId d (range_loop (MetaSetDecoder_elem h) 0 (Fields h) (d, 0))"
  proof (rule loop0_keeps)
    fix tok idx d1 vs1
    assume tok: "tok \<in> set (tl (Fields h))" and idx: "0 < (idx::nat)"
    have ns1: "\<not> startsWith (CHR ''c'') tok"
      using absent_tokens [OF assms(1) rs tok] .
    show "keeps msd_CasId d1 (MetaSetDecoder_elem h idx tok (d1, vs1))"
      using idx ns1
      by (intro MetaSetDecoder_elem_keeps)
         (simp_all add: startsWith_def MetaSetDecoder_flag_def
            keeps_parseUintField keeps_parseIntField)
  qed (simp add: MetaSetDecoder_elem_first_keeps)
qed

lemma ms_keeps_ItemKey:
  assumes "flagAbsent (CHR ''k'') rd"
  shows "msd_ItemKey (fst (snd (MetaSetDecoder_Decode d rd))) = msd_ItemKey d"
proof (rule MetaSetDecoder_Decode_keeps)
  fix h rd1
  assume rs: "ReadSlice (CHR 0x0A) rd = (Inr h, rd1)"
  show "keeps msd_ItemKey d (range_loop (MetaSetDecoder_elem h) 0 (Fields h) (d, 0))"
  proof (rule loop0_keeps)
    fix tok idx d1 vs1
    assume tok: "tok \<in> set (tl (Fields h))" and idx: "0 < (idx::nat)"
    have ns1: "\<not> startsWith (CHR ''k'') tok"
      using absent_tokens [OF assms(1) rs tok] .
    show "keeps msd_ItemKey d1 (MetaSetDecoder_elem h idx tok (d1, vs1))"
      using idx ns1
      by (intro MetaSetDecoder_elem_keeps)
         (simp_all add: startsWith_def MetaSetDecoder_flag_def
            keeps_parseUintField keeps_parseIntField)
  qed (simp add: MetaSetDecoder_elem_first_keeps)
qed

subsection \<open>md\<close>

lemma MetaDeleteDecoder_elem_keeps:
  assumes "0 < idx"
    and "\<And>c arg. tok = c # arg \<Longrightarrow> keeps g d (MetaDeleteDecoder_flag c arg tok d vs)"
  shows "keeps g d (MetaDeleteDecoder_elem hdrLine idx tok (d, vs))"
  using assms by (cases tok) (simp_all add: MetaDeleteDecoder_elem_def split: sum.split)

lemma MetaDeleteDecoder_elem_first_keeps:
  assumes "\<And>d x. g (d\<lparr>mdd_Status := x\<rparr>) = g d" and "\<And>d x. g (d\<lparr>mdd_HdrLine := x\<rparr>) = g d"
  shows "keeps g d (MetaDeleteDecoder_elem hdrLine 0 t0 (d, vs))"
  using assms by (simp add: MetaDeleteDecoder_elem_def Let_def)

lemma MetaDeleteDecoder_Decode_keeps:
  assumes loop: "\<And>h rd1. ReadSlice (CHR 0x0A) rd = (Inr h, rd1) \<Longrightarrow>
                 keeps g d (range_loop (MetaDeleteDecoder_elem h) 0 (Fields h) (d, 0))"
  shows "g (fst (snd (MetaDeleteDecoder_Decode d rd))) = g d"
proof (cases "ReadSlice (CHR 0x0A) rd")
  case (Pair res rd1)
  show ?thesis
  proof (cases res)
    case (Inl err)
    then show ?thesis using Pair by (simp add: MetaDeleteDecoder_Decode_def)
  next
    case (Inr h)
    have k: "keeps g d (range_loop (MetaDeleteDecoder_elem h) 0 (Fields h) (d, 0))"
      using loop Pair Inr by simp
    show ?thesis
    proof (cases "range_loop (MetaDeleteDecoder_elem h) 0 (Fields h) (d, 0)")
      case (Inl r)
      then show ?thesis using Pair Inr k
        by (cases r) (simp add: MetaDeleteDecoder_Decode_def)
    next
      case (Inr s1)
      obtain d1 vs1 where s1: "s1 = (d1, vs1)" by (cases s1)
      have g1: "g d1 = g d" using k Inr s1 by simp
      show ?thesis
        using Pair \<open>res = Inr h\<close> Inr s1 g1 
        by (simp add: MetaDeleteDecoder_Decode_def Let_def split: prod.split option.split sum.split)
    qed
  qed
qed

lemma md_keeps_Opaque:
  assumes "flagAbsent (CHR ''O'') rd"
  shows "mdd_Opaque (fst (snd (MetaDeleteDecoder_Decode d rd))) = mdd_Opaque d"
proof (rule MetaDeleteDecoder_Decode_keeps)
  fix h rd1
  assume rs: "ReadSlice (CHR 0x0A) rd = (Inr h, rd1)"
  show "keeps mdd_Opaque d (range_loop (MetaDeleteDecoder_elem h) 0 (Fields h) (d, 0))"
  proof (rule loop0_keeps)
    fix tok idx d1 vs1
    assume tok: "tok \<in> set (tl (Fields h))" and idx: "0 < (idx::nat)"
    have ns1: "\<not> startsWith (CHR ''O'') tok"
      using absent_tokens [OF assms(1) rs tok] .
    show "keeps mdd_Opaque d1 (MetaDeleteDecoder_elem h idx tok (d1, vs1))"
      using idx ns1
      by (intro MetaDeleteDecoder_elem_keeps)
         (simp_all add: startsWith_def MetaDeleteDecoder_flag_def
            keeps_parseUintField keeps_parseIntField)
  qed (simp add: MetaDeleteDecoder_elem_first_keeps)
qed

lemma md_keeps_ItemKey:
  assumes "flagAbsent (CHR ''k'') rd"
  shows "mdd_ItemKey (fst (snd (MetaDeleteDecoder_Decode d rd))) = mdd_ItemKey d"
proof (rule MetaDeleteDecoder_Decode_keeps)
  fix h rd1
  assume rs: "ReadSlice (CHR 0x0A) rd = (Inr h, rd1)"
  show "keeps mdd_ItemKey d (range_loop (MetaDeleteDecoder_elem h) 0 (Fields h) (d, 0))"
  proof (rule loop0_keeps)
    fix tok idx d1 vs1
    assume tok: "tok \<in> set (tl (Fields h))" and idx: "0 < (idx::nat)"
    have ns1: "\<not> startsWith (CHR ''k'') tok"
      using absent_tokens [OF assms(1) rs tok] .
    show "keeps mdd_ItemKey d1 (MetaDeleteDecoder_elem h idx tok (d1, vs1))"
      using idx ns1
      by (intro MetaDeleteDecoder_elem_keeps)
         (simp_all add: startsWith_def MetaDeleteDecoder_flag_def
            keeps_parseUintField keeps_parseIntField)
  qed (simp add: MetaDeleteDecoder_elem_first_keeps)
qed

subsection \<open>ma\<close>

lemma MetaArithmeticDecoder_elem_keeps:
  assumes "0 < idx"
    and "\<And>c arg. tok = c # arg \<Longrightarrow> keeps g d (MetaArithmeticDecoder_flag c arg tok d vs)"
  shows "keeps g d (MetaArithmeticDecoder_elem hdrLine idx tok (d, vs))"
  using assms by (cases tok) (simp_all add: MetaArithmeticDecoder_elem_def split: sum.split)

lemma MetaArithmeticDecoder_elem_first_keeps:
  assumes "\<And>d x. g (d\<lparr>mad_Status := x\<rparr>) = g d" and "\<And>d x. g (d\<lparr>mad_HdrLine := x\<rparr>) = g d"
  shows "keeps g d (MetaArithmeticDecoder_elem hdrLine 0 t0 (d, vs))"
  using assms by (simp add: MetaArithmeticDecoder_elem_def Let_def)

lemma MetaArithmeticDecoder_elem_novalue:
  assumes "0 < idx" and "\<not> startsWithDigit tok"
  shows "novalue (MetaArithmeticDecoder_elem hdrLine idx tok (d, - 1))"
  using assms
  by (cases tok)
     (simp_all add: MetaArithmeticDecoder_elem_def MetaArithmeticDecoder_flag_def startsWithDigit_def
        novalue_parseUintField novalue_parseIntField)

lemma MetaArithmeticDecoder_elem_first_novalue:
  "novalue (MetaArithmeticDecoder_elem hdrLine 0 t0 (d, - 1))"
  by (simp add: MetaArithmeticDecoder_elem_def Let_def)

lemma MetaArithmeticDecoder_Decode_keeps:
  assumes loop: "\<And>h rd1. ReadSlice (CHR 0x0A) rd = (Inr h, rd1) \<Longrightarrow>
                 keeps g d (range_loop (MetaArithmeticDecoder_elem h) 0 (Fields h) (d, - 1))"
    and vl0: "\<And>d x. g (d\<lparr>mad_Value := x\<rparr>) = g d"
    and vl1: "\<And>d x. g (d\<lparr>mad_ValueUInt64 := x\<rparr>) = g d"
  shows "g (fst (snd (MetaArithmeticDecoder_Decode d rd))) = g d"
proof (cases "ReadSlice (CHR 0x0A) rd")
  case (Pair res rd1)
  show ?thesis
  proof (cases res)
    case (Inl err)
    then show ?thesis using Pair by (simp add: MetaArithmeticDecoder_Decode_def)
  next
    case (Inr h)
    have k: "keeps g d (range_loop (MetaArithmeticDecoder_elem h) 0 (Fields h) (d, - 1))"
      using loop Pair Inr by simp
    show ?thesis
    proof (cases "range_loop (MetaArithmeticDecoder_elem h) 0 (Fields h) (d, - 1)")
      case (Inl r)
      then show ?thesis using Pair Inr k
        by (cases r) (simp add: MetaArithmeticDecoder_Decode_def)
    next
      case (Inr s1)
      obtain d1 vs1 where s1: "s1 = (d1, vs1)" by (cases s1)
      have g1: "g d1 = g d" using k Inr s1 by simp
      show ?thesis
        using Pair \<open>res = Inr h\<close> Inr s1 g1 vl0 vl1
        by (simp add: MetaArithmeticDecoder_Decode_def Let_def split: prod.split option.split sum.split)
    qed
  qed
qed

lemma MetaArithmeticDecoder_Decode_novalue:
  assumes rs: "ReadSlice (CHR 0x0A) rd = (Inr h, rd1)"
    and nv: "novalue (range_loop (MetaArithmeticDecoder_elem h) 0 (Fields h) (d, - 1))"
    and "keeps mad_Value d (range_loop (MetaArithmeticDecoder_elem h) 0 (Fields h) (d, - 1))"
    and "keeps mad_ValueUInt64 d (range_loop (MetaArithmeticDecoder_elem h) 0 (Fields h) (d, - 1))"
  shows "snd (snd (MetaArithmeticDecoder_Decode d rd)) = rd1 \<and>
         mad_Value (fst (snd (MetaArithmeticDecoder_Decode d rd))) = mad_Value d \<and>
         mad_ValueUInt64 (fst (snd (MetaArithmeticDecoder_Decode d rd))) = mad_ValueUInt64 d"
proof (cases "range_loop (MetaArithmeticDecoder_elem h) 0 (Fields h) (d, - 1)")
  case (Inl r)
  then show ?thesis using rs assms(3-) by (cases r) (simp add: MetaArithmeticDecoder_Decode_def)
next
  case (Inr s1)
  obtain d1 vs1 where s1: "s1 = (d1, vs1)" by (cases s1)
  then have "vs1 = - 1" "mad_Value d1 = mad_Value d" "mad_ValueUInt64 d1 = mad_ValueUInt64 d" using nv assms(3-) Inr by simp_all
  then show ?thesis using rs Inr s1 by (simp add: MetaArithmeticDecoder_Decode_def)
qed

lemma MetaArithmeticDecoder_loop_keeps_mad_Value:
  "keeps mad_Value d (range_loop (MetaArithmeticDecoder_elem h) 0 toks (d, vs))"
proof (rule loop0_keeps)
  fix tok idx d1 vs1
  assume "0 < (idx::nat)"
  then show "keeps mad_Value d1 (MetaArithmeticDecoder_elem h idx tok (d1, vs1))"
    by (intro MetaArithmeticDecoder_elem_keeps)
       (simp_all add: MetaArithmeticDecoder_flag_def keeps_parseUintField keeps_parseIntField)
qed (simp add: MetaArithmeticDecoder_elem_first_keeps)

lemma MetaArithmeticDecoder_loop_keeps_mad_ValueUInt64:
  "keeps mad_ValueUInt64 d (range_loop (MetaArithmeticDecoder_elem h) 0 toks (d, vs))"
proof (rule loop0_keeps)
  fix tok idx d1 vs1
  assume "0 < (idx::nat)"
  then show "keeps mad_ValueUInt64 d1 (MetaArithmeticDecoder_elem h idx tok (d1, vs1))"
    by (intro MetaArithmeticDecoder_elem_keeps)
       (simp_all add: MetaArithmeticDecoder_flag_def keeps_parseUintField keeps_parseIntField)
qed (simp add: MetaArithmeticDecoder_elem_first_keeps)

lemma ma_novalue:
  assumes "valueAbsent rd" and rs: "ReadSlice (CHR 0x0A) rd = (Inr h, rd1)"
  shows "snd (snd (MetaArithmeticDecoder_Decode d rd)) = rd1 \<and>
         mad_Value (fst (snd (MetaArithmeticDecoder_Decode d rd))) = mad_Value d \<and>
         mad_ValueUInt64 (fst (snd (MetaArithmeticDecoder_Decode d rd))) = mad_ValueUInt64 d"
proof (rule MetaArithmeticDecoder_Decode_novalue [OF rs])
  show "novalue (range_loop (MetaArithmeticDecoder_elem h) 0 (Fields h) (d, - 1))"
  proof (rule loop0_novalue)
    fix tok idx d1
    assume tok: "tok \<in> set (tl (Fields h))" and idx: "0 < (idx::nat)"
    show "novalue (MetaArithmeticDecoder_elem h idx tok (d1, - 1))"
      using idx absent_digits [OF assms(1) rs tok] by (rule MetaArithmeticDecoder_elem_novalue)
  qed (rule MetaArithmeticDecoder_elem_first_novalue)
qed (rule MetaArithmeticDecoder_loop_keeps_mad_Value MetaArithmeticDecoder_loop_keeps_mad_ValueUInt64)+

lemma ma_keeps_Value:
  assumes "valueAbsent rd"
  shows "mad_Value (fst (snd (MetaArithmeticDecoder_Decode d rd))) = mad_Value d"
proof (cases "ReadSlice (CHR 0x0A) rd")
  case (Pair res rd1)
  show ?thesis
  proof (cases res)
    case (Inl err)
    then show ?thesis using Pair by (simp add: MetaArithmeticDecoder_Decode_def)
  next
    case (Inr h)
    then show ?thesis using ma_novalue [OF assms, of h rd1 d] Pair by simp
  qed
qed

lemma ma_keeps_ValueUInt64:
  assumes "valueAbsent rd"
  shows "mad_ValueUInt64 (fst (snd (MetaArithmeticDecoder_Decode d rd))) = mad_ValueUInt64 d"
proof (cases "ReadSlice (CHR 0x0A) rd")
  case (Pair res rd1)
  show ?thesis
  proof (cases res)
    case (Inl err)
    then show ?thesis using Pair by (simp add: MetaArithmeticDecoder_Decode_def)
  next
    case (Inr h)
    then show ?thesis using ma_novalue [OF assms, of h rd1 d] Pair by simp
  qed
qed

lemma ma_keeps_Opaque:
  assumes "flagAbsent (CHR ''O'') rd"
  shows "mad_Opaque (fst (snd (MetaArithmeticDecoder_Decode d rd))) = mad_Opaque d"
proof (rule MetaArithmeticDecoder_Decode_keeps)
  fix h rd1
  assume rs: "ReadSlice (CHR 0x0A) rd = (Inr h, rd1)"
  show "keeps mad_Opaque d (range_loop (MetaArithmeticDecoder_elem h) 0 (Fields h) (d, - 1))"
  proof (rule loop0_keeps)
    fix tok idx d1 vs1
    assume tok: "tok \<in> set (tl (Fields h))" and idx: "0 < (idx::nat)"
    have ns1: "\<not> startsWith (CHR ''O'') tok"
      using absent_tokens [OF assms(1) rs tok] .
    show "keeps mad_Opaque d1 (MetaArithmeticDecoder_elem h idx tok (d1, vs1))"
      using idx ns1
      by (intro MetaArithmeticDecoder_elem_keeps)
         (simp_all add: startsWith_def MetaArithmeticDecoder_flag_def
            keeps_parseUintField keeps_parseIntField)
  qed (simp add: MetaArithmeticDecoder_elem_first_keeps)
qed simp_all

lemma ma_keeps_RemainingTTLSeconds:
  assumes "flagAbsent (CHR ''t'') rd"
  shows "mad_RemainingTTLSeconds (fst (snd (MetaArithmeticDecoder_Decode d rd))) = mad_RemainingTTLSeconds d"
proof (rule MetaArithmeticDecoder_Decode_keeps)
  fix h rd1
  assume rs: "ReadSlice (CHR 0x0A) rd = (Inr h, rd1)"
  show "keeps mad_RemainingTTLSeconds d (range_loop (MetaArithmeticDecoder_elem h) 0 (Fields h) (d, - 1))"
  proof (rule loop0_keeps)
    fix tok idx d1 vs1
    assume tok: "tok \<in> set (tl (Fields h))" and idx: "0 < (idx::nat)"
    have ns1: "\<not> startsWith (CHR ''t'') tok"
      using absent_tokens [OF assms(1) rs tok] .
    show "keeps mad_RemainingTTLSeconds d1 (MetaArithmeticDecoder_elem h idx tok (d1, vs1))"
      using idx ns1
      by (intro MetaArithmeticDecoder_elem_keeps)
         (simp_all add: startsWith_def MetaArithmeticDecoder_flag_def
            keeps_parseUintField keeps_parseIntField)
  qed (simp add: MetaArithmeticDecoder_elem_first_keeps)
qed simp_all

lemma ma_keeps_CasId:
  assumes "flagAbsent (CHR ''c'') rd"
  shows "mad_CasId (fst (snd (MetaArithmeticDecoder_Decode d rd))) = mad_CasId d"
proof (rule MetaArithmeticDecoder_Decode_keeps)
  fix h rd1
  assume rs: "ReadSlice (CHR 0x0A) rd = (Inr h, rd1)"
  show "keeps mad_CasId d (range_loop (MetaArithmeticDecoder_elem h) 0 (Fields h) (d, - 1))"
  proof (rule loop0_keeps)
    fix tok idx d1 vs1
    assume tok: "tok \<in> set (tl (Fields h))" and idx: "0 < (idx::nat)"
    have ns1: "\<not> startsWith (CHR ''c'') tok"
      using absent_tokens [OF assms(1) rs tok] .
    show "keeps mad_CasId d1 (MetaArithmeticDecoder_elem h idx tok (d1, vs1))"
      using idx ns1
      by (intro MetaArithmeticDecoder_elem_keeps)
         (simp_all add: startsWith_def MetaArithmeticDecoder_flag_def
            keeps_parseUintField keeps_parseIntField)
  qed (simp add: MetaArithmeticDecoder_elem_first_keeps)
qed simp_all

lemma ma_keeps_ItemKey:
  assumes "flagAbsent (CHR ''k'') rd"
  shows "mad_ItemKey (fst (snd (MetaArithmeticDecoder_Decode d rd))) = mad_ItemKey d"
proof (rule MetaArithmeticDecoder_Decode_keeps)
  fix h rd1
  assume rs: "ReadSlice (CHR 0x0A) rd = (Inr h, rd1)"
  show "keeps mad_ItemKey d (range_loop (MetaArithmeticDecoder_elem h) 0 (Fields h) (d, - 1))"
  proof (rule loop0_keeps)
    fix tok idx d1 vs1
    assume tok: "tok \<in> set (tl (Fields h))" and idx: "0 < (idx::nat)"
    have ns1: "\<not> startsWith (CHR ''k'') tok"
      using absent_tokens [OF assms(1) rs tok] .
    show "keeps mad_ItemKey d1 (MetaArithmeticDecoder_elem h idx tok (d1, vs1))"
      using idx ns1
      by (intro MetaArithmeticDecoder_elem_keeps)
         (simp_all add: startsWith_def MetaArithmeticDecoder_flag_def
            keeps_parseUintField keeps_parseIntField)
  qed (simp add: MetaArithmeticDecoder_elem_first_keeps)
qed simp_all


section \<open>Evaluating a decoder on a given response\<close>

lemma FieldsFunc_ascii:
  assumes "byteval c < 0x80"
  shows "FieldsFunc f cur (c # cs) =
           (if f (byteval c) then (if cur \<noteq> [] then cur # FieldsFunc f [] cs else FieldsFunc f [] cs)
            else FieldsFunc f (cur @ [c]) cs)"
  using DecodeRune_ascii [OF assms, of cs] by (simp add: FieldsFunc.simps)

lemmas eval_fields =
  Fields_def FieldsFunc_ascii byteval_def IsSpace_def

lemmas eval_parse =
  Atoi_def ParseInt_def ParseUint_def isDigit_def byteval_def Let_def parseUintField_def
  parseIntField_def

lemmas eval_read =
  ReadSlice_def ReadFull_def ReadCLRF_def ReadByte_def ReadMNResp_def

lemmas eval_mg =
  MetaGetDecoder_Decode_def MetaGetDecoder_elem_def MetaGetDecoder_flag_def
  MetaGetDecoder_single_def MetaGetStatusFromHeader_def status_defs CreateMetaGetDecoder_def

lemma ReadSlice_Inr:
  assumes "ReadSlice delim rd = (Inr line, rd1)"
  shows "rdata rd = line @ rdata rd1 \<and> rsize rd1 = rsize rd"
  using assms by (auto simp: ReadSlice_def Let_def split: if_splits)

section \<open>The header line of an mg response\<close>

text \<open>
  C2, as the code has it. When the \<^verbatim>\<open>mg\<close> decoder reads a header line in which no
  token after the status word starts with a decimal digit, it consumes exactly that line,
  up to and including the newline, and reads no value block: the reader is left right
  after the line and \<^verbatim>\<open>Value\<close> is what it was, whatever the status word and the
  other tokens are, and whether or not a later token fails to parse.
\<close>

theorem MetaGetDecoder_Decode_header_only:
  assumes "ReadSlice (CHR 0x0A) rd = (Inr hdrLine, rd1)"
    and "\<forall>tok\<in>set (tl (Fields hdrLine)). \<not> startsWithDigit tok"
  shows "rdata rd = hdrLine @ rdata rd1 \<and>
         snd (snd (MetaGetDecoder_Decode d rd)) = rd1 \<and>
         mgd_Value (fst (snd (MetaGetDecoder_Decode d rd))) = mgd_Value d"
proof -
  have "valueAbsent rd"
    using assms by (simp add: valueAbsent_def list_ex_iff)
  then show ?thesis
    using mg_novalue [OF _ assms(1), of d] ReadSlice_Inr [OF assms(1)] by simp
qed

text \<open>The response \<^verbatim>\<open>HD O1231213 t989\<close> followed by another response.\<close>

theorem MetaGetDecoder_Decode_header_only_witness:
  "snd (snd (MetaGetDecoder_Decode CreateMetaGetDecoder
      \<lparr>rdata = ''HD O1231213 t989'' @ [CHR 0x0D, CHR 0x0A] @ ''EN'' @ [CHR 0x0D, CHR 0x0A],
       rsize = 4096\<rparr>))
     = \<lparr>rdata = ''EN'' @ [CHR 0x0D, CHR 0x0A], rsize = 4096\<rparr> \<and>
   mgd_Value (fst (snd (MetaGetDecoder_Decode CreateMetaGetDecoder
      \<lparr>rdata = ''HD O1231213 t989'' @ [CHR 0x0D, CHR 0x0A] @ ''EN'' @ [CHR 0x0D, CHR 0x0A],
       rsize = 4096\<rparr>))) = None"
proof -
  let ?rd = "\<lparr>rdata = ''HD O1231213 t989'' @ [CHR 0x0D, CHR 0x0A] @ ''EN'' @ [CHR 0x0D, CHR 0x0A],
       rsize = 4096\<rparr>"
  let ?h = "''HD O1231213 t989'' @ [CHR 0x0D, CHR 0x0A]"
  let ?rd1 = "\<lparr>rdata = ''EN'' @ [CHR 0x0D, CHR 0x0A], rsize = 4096\<rparr>"
  have h1: "ReadSlice (CHR 0x0A) ?rd = (Inr ?h, ?rd1)"
    by (simp add: eval_read)
  have h2: "\<forall>tok\<in>set (tl (Fields ?h)). \<not> startsWithDigit tok"
    by (simp add: eval_fields startsWithDigit_def isDigit_def)
  show ?thesis
    using MetaGetDecoder_Decode_header_only [OF h1 h2, of CreateMetaGetDecoder]
    by (simp add: CreateMetaGetDecoder_def)
qed

text \<open>
  C2 as stated fails: the status word of \<^verbatim>\<open>HD 5\<close> is not \<^verbatim>\<open>VA\<close>, and yet the
  decoder takes the token \<open>5\<close> for the size of a value block, reads the five bytes
  after the header line and the line end after them into \<^verbatim>\<open>Value\<close>, and leaves the
  reader behind them.
\<close>

theorem MetaGetDecoder_Decode_header_only_counterexample:
  "hd (Fields (''HD 5'' @ [CHR 0x0D, CHR 0x0A])) = ''HD'' \<and>
   MetaGetDecoder_Decode CreateMetaGetDecoder
     \<lparr>rdata = ''HD 5'' @ [CHR 0x0D, CHR 0x0A] @ ''hello'' @ [CHR 0x0D, CHR 0x0A] @ ''NEXT'',
      rsize = 4096\<rparr>
   = (None, CreateMetaGetDecoder\<lparr>mgd_Status := CacheHit, mgd_Value := Some ''hello''\<rparr>,
      \<lparr>rdata = ''NEXT'', rsize = 4096\<rparr>) \<and>
   \<lparr>rdata = ''NEXT'', rsize = 4096\<rparr>
     \<noteq> \<lparr>rdata = ''hello'' @ [CHR 0x0D, CHR 0x0A] @ ''NEXT'', rsize = 4096\<rparr>"
  by (simp add: eval_mg eval_read eval_fields eval_parse)

section \<open>What a decoder leaves untouched\<close>

text \<open>
  C10. Decoding a response leaves every field whose token the response lacks as it was
  before the call: in the \<^verbatim>\<open>mg\<close> decoder the opaque (\<open>O\<close>), the remaining TTL
  (\<open>t\<close>), the CAS id (\<open>c\<close>), the client flags (\<open>f\<close>), the hit-before flag
  (\<open>h\<close>), the item key (\<open>k\<close>), the item size (\<open>s\<close>), the last access
  (\<open>l\<close>), the recache status (\<open>W\<close>, \<open>Z\<close>), the stale flag (\<open>X\<close>), and the
  value (a token that starts with a digit); likewise in the \<^verbatim>\<open>ms\<close>, \<^verbatim>\<open>md\<close> and
  \<^verbatim>\<open>ma\<close> decoders. So the defaults (0, the empty key, the nil value) are what a
  decoder holds for an absent token when \<^verbatim>\<open>Reset\<close> ran before \<^verbatim>\<open>Decode\<close>.
\<close>

theorem decoders_keep_absent_fields:
  "(let d' = fst (snd (MetaGetDecoder_Decode d1 rd)) in
      (flagAbsent (CHR ''O'') rd \<longrightarrow> mgd_Opaque d' = mgd_Opaque d1) \<and>
      (flagAbsent (CHR ''t'') rd \<longrightarrow> mgd_RemainingTTLSeconds d' = mgd_RemainingTTLSeconds d1) \<and>
      (flagAbsent (CHR ''c'') rd \<longrightarrow> mgd_CasId d' = mgd_CasId d1) \<and>
      (flagAbsent (CHR ''f'') rd \<longrightarrow> mgd_ClientFlags d' = mgd_ClientFlags d1) \<and>
      (flagAbsent (CHR ''h'') rd \<longrightarrow> mgd_IsItemHitBefore d' = mgd_IsItemHitBefore d1) \<and>
      (flagAbsent (CHR ''k'') rd \<longrightarrow> mgd_ItemKey d' = mgd_ItemKey d1) \<and>
      (flagAbsent (CHR ''s'') rd \<longrightarrow> mgd_ItemSizeInBytes d' = mgd_ItemSizeInBytes d1) \<and>
      (flagAbsent (CHR ''l'') rd \<longrightarrow> mgd_TimeSinceLastAccessedSeconds d' = mgd_TimeSinceLastAccessedSeconds d1) \<and>
      (flagAbsent (CHR ''W'') rd \<and> flagAbsent (CHR ''Z'') rd \<longrightarrow> mgd_Recache d' = mgd_Recache d1) \<and>
      (flagAbsent (CHR ''X'') rd \<longrightarrow> mgd_Stale d' = mgd_Stale d1) \<and>
      (valueAbsent rd \<longrightarrow> mgd_Value d' = mgd_Value d1)) \<and>
   (let d' = fst (snd (MetaSetDecoder_Decode d2 rd)) in
      (flagAbsent (CHR ''O'') rd \<longrightarrow> msd_Opaque d' = msd_Opaque d2) \<and>
      (flagAbsent (CHR ''c'') rd \<longrightarrow> msd_CasId d' = msd_CasId d2) \<and>
      (flagAbsent (CHR ''k'') rd \<longrightarrow> msd_ItemKey d' = msd_ItemKey d2)) \<and>
   (let d' = fst (snd (MetaDeleteDecoder_Decode d3 rd)) in
      (flagAbsent (CHR ''O'') rd \<longrightarrow> mdd_Opaque d' = mdd_Opaque d3) \<and>
      (flagAbsent (CHR ''k'') rd \<longrightarrow> mdd_ItemKey d' = mdd_ItemKey d3)) \<and>
   (let d' = fst (snd (MetaArithmeticDecoder_Decode d4 rd)) in
      (flagAbsent (CHR ''O'') rd \<longrightarrow> mad_Opaque d' = mad_Opaque d4) \<and>
      (flagAbsent (CHR ''t'') rd \<longrightarrow> mad_RemainingTTLSeconds d' = mad_RemainingTTLSeconds d4) \<and>
      (flagAbsent (CHR ''c'') rd \<longrightarrow> mad_CasId d' = mad_CasId d4) \<and>
      (flagAbsent (CHR ''k'') rd \<longrightarrow> mad_ItemKey d' = mad_ItemKey d4) \<and>
      (valueAbsent rd \<longrightarrow> mad_Value d' = mad_Value d4) \<and>
      (valueAbsent rd \<longrightarrow> mad_ValueUInt64 d' = mad_ValueUInt64 d4)) \<and>
   (let d' = fst (snd (MetaGetDecoder_Decode (MetaGetDecoder_Reset d1) rd)) in
      (flagAbsent (CHR ''O'') rd \<longrightarrow> mgd_Opaque d' = 0) \<and>
      (flagAbsent (CHR ''k'') rd \<longrightarrow> mgd_ItemKey d' = []) \<and>
      (valueAbsent rd \<longrightarrow> mgd_Value d' = None)) \<and>
   (let d' = fst (snd (MetaSetDecoder_Decode (MetaSetDecoder_Reset d2) rd)) in
      (flagAbsent (CHR ''O'') rd \<longrightarrow> msd_Opaque d' = 0) \<and>
      (flagAbsent (CHR ''k'') rd \<longrightarrow> msd_ItemKey d' = [])) \<and>
   (let d' = fst (snd (MetaDeleteDecoder_Decode (MetaDeleteDecoder_Reset d3) rd)) in
      (flagAbsent (CHR ''O'') rd \<longrightarrow> mdd_Opaque d' = 0) \<and>
      (flagAbsent (CHR ''k'') rd \<longrightarrow> mdd_ItemKey d' = [])) \<and>
   (let d' = fst (snd (MetaArithmeticDecoder_Decode (MetaArithmeticDecoder_Reset d4) rd)) in
      (flagAbsent (CHR ''O'') rd \<longrightarrow> mad_Opaque d' = 0) \<and>
      (flagAbsent (CHR ''k'') rd \<longrightarrow> mad_ItemKey d' = []) \<and>
      (valueAbsent rd \<longrightarrow> mad_Value d' = None))"
  unfolding Let_def
  by (intro conjI impI)
     (simp_all add: mg_keeps_Opaque mg_keeps_RemainingTTLSeconds mg_keeps_CasId mg_keeps_ClientFlags mg_keeps_IsItemHitBefore
        mg_keeps_ItemKey mg_keeps_ItemSizeInBytes mg_keeps_TimeSinceLastAccessedSeconds mg_keeps_Recache mg_keeps_Stale
        mg_keeps_Value ms_keeps_Opaque ms_keeps_CasId ms_keeps_ItemKey md_keeps_Opaque
        md_keeps_ItemKey ma_keeps_Opaque ma_keeps_RemainingTTLSeconds ma_keeps_CasId ma_keeps_ItemKey
        ma_keeps_Value ma_keeps_ValueUInt64
        MetaGetDecoder_Reset_def MetaSetDecoder_Reset_def MetaDeleteDecoder_Reset_def
        MetaArithmeticDecoder_Reset_def)

text \<open>
  A decoder that still holds the opaque 5, the key \<open>old\<close> and a value from an earlier
  response keeps all three when it decodes \<^verbatim>\<open>HD c7\<close>; after \<^verbatim>\<open>Reset\<close> it holds
  the defaults.
\<close>

theorem decoders_keep_absent_fields_witness:
  "mgd_Opaque (fst (snd (MetaGetDecoder_Decode
      (CreateMetaGetDecoder\<lparr>mgd_Opaque := 5, mgd_ItemKey := ''old'', mgd_Value := Some ''stale''\<rparr>)
      \<lparr>rdata = ''HD c7'' @ [CHR 0x0D, CHR 0x0A], rsize = 4096\<rparr>))) = 5 \<and>
   mgd_ItemKey (fst (snd (MetaGetDecoder_Decode
      (CreateMetaGetDecoder\<lparr>mgd_Opaque := 5, mgd_ItemKey := ''old'', mgd_Value := Some ''stale''\<rparr>)
      \<lparr>rdata = ''HD c7'' @ [CHR 0x0D, CHR 0x0A], rsize = 4096\<rparr>))) = ''old'' \<and>
   mgd_Value (fst (snd (MetaGetDecoder_Decode
      (CreateMetaGetDecoder\<lparr>mgd_Opaque := 5, mgd_ItemKey := ''old'', mgd_Value := Some ''stale''\<rparr>)
      \<lparr>rdata = ''HD c7'' @ [CHR 0x0D, CHR 0x0A], rsize = 4096\<rparr>))) = Some ''stale'' \<and>
   mgd_Opaque (fst (snd (MetaGetDecoder_Decode
      (MetaGetDecoder_Reset
         (CreateMetaGetDecoder\<lparr>mgd_Opaque := 5, mgd_ItemKey := ''old'', mgd_Value := Some ''stale''\<rparr>))
      \<lparr>rdata = ''HD c7'' @ [CHR 0x0D, CHR 0x0A], rsize = 4096\<rparr>))) = 0 \<and>
   mgd_Value (fst (snd (MetaGetDecoder_Decode
      (MetaGetDecoder_Reset
         (CreateMetaGetDecoder\<lparr>mgd_Opaque := 5, mgd_ItemKey := ''old'', mgd_Value := Some ''stale''\<rparr>))
      \<lparr>rdata = ''HD c7'' @ [CHR 0x0D, CHR 0x0A], rsize = 4096\<rparr>))) = None"
proof -
  let ?rd = "\<lparr>rdata = ''HD c7'' @ [CHR 0x0D, CHR 0x0A], rsize = 4096\<rparr>"
  let ?d = "CreateMetaGetDecoder\<lparr>mgd_Opaque := 5, mgd_ItemKey := ''old'', mgd_Value := Some ''stale''\<rparr>"
  have rs: "ReadSlice (CHR 0x0A) ?rd = (Inr (''HD c7'' @ [CHR 0x0D, CHR 0x0A]), \<lparr>rdata = [], rsize = 4096\<rparr>)"
    by (simp add: eval_read)
  have absent: "flagAbsent (CHR ''O'') ?rd" "flagAbsent (CHR ''k'') ?rd" "valueAbsent ?rd"
    unfolding flagAbsent_def valueAbsent_def rs
    by (simp_all add: eval_fields startsWith_def startsWithDigit_def isDigit_def)
  show ?thesis
    using absent decoders_keep_absent_fields [of ?d ?rd]
    by (simp add: Let_def CreateMetaGetDecoder_def)
qed

section \<open>Bulk responses\<close>

lemma ReadMNResp_ok:
  assumes "take 4 (rdata rd) = [CHR ''M'', CHR ''N'', CHR 0x0D, CHR 0x0A]"
  shows "ReadMNResp rd = (None, rd\<lparr>rdata := drop 4 (rdata rd)\<rparr>)"
proof -
  consider "rdata rd = []" | a where "rdata rd = [a]" | a b where "rdata rd = [a, b]"
    | a b c where "rdata rd = [a, b, c]" | a b c e rest where "rdata rd = a # b # c # e # rest"
    by (metis list.exhaust)
  then show ?thesis
    using assms by cases (auto simp: ReadMNResp_def ReadCLRF_def ReadByte_def)
qed

lemma ReadMNResp_err:
  assumes "take 4 (rdata rd) \<noteq> [CHR ''M'', CHR ''N'', CHR 0x0D, CHR 0x0A]"
  shows "fst (ReadMNResp rd) \<noteq> None"
proof -
  consider "rdata rd = []" | a where "rdata rd = [a]" | a b where "rdata rd = [a, b]"
    | a b c where "rdata rd = [a, b, c]" | a b c e rest where "rdata rd = a # b # c # e # rest"
    by (metis list.exhaust)
  then show ?thesis
    using assms by cases (auto simp: ReadMNResp_def ReadCLRF_def ReadByte_def)
qed

lemma BulkDecoder_loop_append:
  "BulkDecoder_loop dec (xs @ ys) rd =
     (case BulkDecoder_loop dec xs rd of
        (Some e, xs1, r1) \<Rightarrow> (Some e, xs1 @ ys, r1)
      | (None, xs1, r1) \<Rightarrow>
          (case BulkDecoder_loop dec ys r1 of (e, ys1, r2) \<Rightarrow> (e, xs1 @ ys1, r2)))"
proof (induction xs arbitrary: rd)
  case Nil
  then show ?case by (simp split: prod.split)
next
  case (Cons x xs)
  show ?case
  proof (cases "dec x rd")
    case (fields e x1 r1)
    show ?thesis
    proof (cases e)
      case None
      then show ?thesis
        using fields Cons.IH [of r1]
        by (simp split: prod.split option.split)
    next
      case (Some err)
      then show ?thesis using fields by simp
    qed
  qed
qed

text \<open>
  C6. The bulk decoder runs its sub-decoders in the order of the list, each on the reader
  the one before left (the loop over one decoder is that decoder's \<^verbatim>\<open>Decode\<close>, and
  the loop over \<open>xs @ ys\<close> is the loop over \<open>xs\<close> followed, on its reader, by the loop
  over \<open>ys\<close>); the error of a sub-decoder is returned as it is. When all sub-decoders
  have succeeded, the bulk decode succeeds exactly when the next four bytes are
  \<^verbatim>\<open>MN\r\n\<close>, and then it has consumed exactly these four bytes; with anything else
  there (fewer bytes, or other bytes) it returns an error.
\<close>

theorem BulkDecoder_Decode_sentinel:
  "(BulkDecoder_loop dec ds rd = (None, ds1, rd1) \<longrightarrow>
      (fst (BulkDecoder_Decode dec ds rd) = None \<longleftrightarrow>
         take 4 (rdata rd1) = [CHR ''M'', CHR ''N'', CHR 0x0D, CHR 0x0A]) \<and>
      (take 4 (rdata rd1) = [CHR ''M'', CHR ''N'', CHR 0x0D, CHR 0x0A] \<longrightarrow>
         BulkDecoder_Decode dec ds rd = (None, ds1, rd1\<lparr>rdata := drop 4 (rdata rd1)\<rparr>))) \<and>
   (BulkDecoder_loop dec ds rd = (Some e, ds1, rd1) \<longrightarrow>
      BulkDecoder_Decode dec ds rd = (Some e, ds1, rd1)) \<and>
   BulkDecoder_loop dec [x] rd = (case dec x rd of (e, x1, r1) \<Rightarrow> (e, [x1], r1)) \<and>
   BulkDecoder_loop dec (xs @ ys) rd =
     (case BulkDecoder_loop dec xs rd of
        (Some e, xs1, r1) \<Rightarrow> (Some e, xs1 @ ys, r1)
      | (None, xs1, r1) \<Rightarrow>
          (case BulkDecoder_loop dec ys r1 of (e, ys1, r2) \<Rightarrow> (e, xs1 @ ys1, r2)))"
proof (intro conjI impI)
  assume loop: "BulkDecoder_loop dec ds rd = (None, ds1, rd1)"
  show "fst (BulkDecoder_Decode dec ds rd) = None \<longleftrightarrow>
         take 4 (rdata rd1) = [CHR ''M'', CHR ''N'', CHR 0x0D, CHR 0x0A]"
  proof (cases "take 4 (rdata rd1) = [CHR ''M'', CHR ''N'', CHR 0x0D, CHR 0x0A]")
    case True
    then show ?thesis using loop ReadMNResp_ok [OF True] by (simp add: BulkDecoder_Decode_def)
  next
    case False
    then show ?thesis
      using loop ReadMNResp_err [OF False]
      by (cases "ReadMNResp rd1") (simp add: BulkDecoder_Decode_def)
  qed
next
  assume loop: "BulkDecoder_loop dec ds rd = (None, ds1, rd1)"
    and mn: "take 4 (rdata rd1) = [CHR ''M'', CHR ''N'', CHR 0x0D, CHR 0x0A]"
  have "ReadMNResp rd1 = (None, rd1\<lparr>rdata := drop 4 (rdata rd1)\<rparr>)"
    using ReadMNResp_ok [OF mn] .
  then show "BulkDecoder_Decode dec ds rd = (None, ds1, rd1\<lparr>rdata := drop 4 (rdata rd1)\<rparr>)"
    using loop by (simp add: BulkDecoder_Decode_def)
next
  assume "BulkDecoder_loop dec ds rd = (Some e, ds1, rd1)"
  then show "BulkDecoder_Decode dec ds rd = (Some e, ds1, rd1)"
    by (simp add: BulkDecoder_Decode_def)
next
  show "BulkDecoder_loop dec [x] rd = (case dec x rd of (e, x1, r1) \<Rightarrow> (e, [x1], r1))"
    by (simp split: prod.split option.split)
next
  show "BulkDecoder_loop dec (xs @ ys) rd =
     (case BulkDecoder_loop dec xs rd of
        (Some e, xs1, r1) \<Rightarrow> (Some e, xs1 @ ys, r1)
      | (None, xs1, r1) \<Rightarrow>
          (case BulkDecoder_loop dec ys r1 of (e, ys1, r2) \<Rightarrow> (e, xs1 @ ys1, r2)))"
    by (rule BulkDecoder_loop_append)
qed

text \<open>
  Two \<^verbatim>\<open>mg\<close> sub-responses with the opaques 1000 and 1001, followed by the sentinel,
  and the same with a malformed sentinel.
\<close>

theorem BulkDecoder_Decode_sentinel_witness:
  "BulkDecoder_Decode MetaGetDecoder_Decode [CreateMetaGetDecoder, CreateMetaGetDecoder]
     \<lparr>rdata = ''HD O1000'' @ [CHR 0x0D, CHR 0x0A] @ ''EN O1001'' @ [CHR 0x0D, CHR 0x0A] @
              ''MN'' @ [CHR 0x0D, CHR 0x0A], rsize = 4096\<rparr>
   = (None,
      [CreateMetaGetDecoder\<lparr>mgd_Status := CacheHit, mgd_Opaque := 1000\<rparr>,
       CreateMetaGetDecoder\<lparr>mgd_Status := CacheMiss, mgd_Opaque := 1001\<rparr>],
      \<lparr>rdata = [], rsize = 4096\<rparr>) \<and>
   fst (BulkDecoder_Decode MetaGetDecoder_Decode [CreateMetaGetDecoder, CreateMetaGetDecoder]
     \<lparr>rdata = ''HD O1000'' @ [CHR 0x0D, CHR 0x0A] @ ''EN O1001'' @ [CHR 0x0D, CHR 0x0A] @
              ''MX'' @ [CHR 0x0D, CHR 0x0A], rsize = 4096\<rparr>) \<noteq> None"
proof -
  let ?ds = "[CreateMetaGetDecoder, CreateMetaGetDecoder]"
  let ?ds1 = "[CreateMetaGetDecoder\<lparr>mgd_Status := CacheHit, mgd_Opaque := 1000\<rparr>,
       CreateMetaGetDecoder\<lparr>mgd_Status := CacheMiss, mgd_Opaque := 1001\<rparr>]"
  let ?rd = "\<lparr>rdata = ''HD O1000'' @ [CHR 0x0D, CHR 0x0A] @ ''EN O1001'' @ [CHR 0x0D, CHR 0x0A] @
              ''MN'' @ [CHR 0x0D, CHR 0x0A], rsize = 4096\<rparr>"
  let ?rx = "\<lparr>rdata = ''HD O1000'' @ [CHR 0x0D, CHR 0x0A] @ ''EN O1001'' @ [CHR 0x0D, CHR 0x0A] @
              ''MX'' @ [CHR 0x0D, CHR 0x0A], rsize = 4096\<rparr>"
  have l1: "BulkDecoder_loop MetaGetDecoder_Decode ?ds ?rd
              = (None, ?ds1, \<lparr>rdata = ''MN'' @ [CHR 0x0D, CHR 0x0A], rsize = 4096\<rparr>)"
    by (simp add: eval_mg eval_read eval_fields eval_parse)
  have l2: "BulkDecoder_loop MetaGetDecoder_Decode ?ds ?rx
              = (None, ?ds1, \<lparr>rdata = ''MX'' @ [CHR 0x0D, CHR 0x0A], rsize = 4096\<rparr>)"
    by (simp add: eval_mg eval_read eval_fields eval_parse)
  have a: "BulkDecoder_Decode MetaGetDecoder_Decode ?ds ?rd = (None, ?ds1, \<lparr>rdata = [], rsize = 4096\<rparr>)"
    using BulkDecoder_Decode_sentinel
      [of MetaGetDecoder_Decode ?ds ?rd ?ds1 "\<lparr>rdata = ''MN'' @ [CHR 0x0D, CHR 0x0A], rsize = 4096\<rparr>"]
      l1
    by simp
  have b: "fst (BulkDecoder_Decode MetaGetDecoder_Decode ?ds ?rx) \<noteq> None"
    using BulkDecoder_Decode_sentinel
      [of MetaGetDecoder_Decode ?ds ?rx ?ds1 "\<lparr>rdata = ''MX'' @ [CHR 0x0D, CHR 0x0A], rsize = 4096\<rparr>"]
      l2
    by simp
  show ?thesis using a b by simp
qed

section \<open>The order of the flag tokens\<close>

lemma joinToks_append: "joinToks (xs @ ys) = joinToks xs @ joinToks ys"
  by (simp add: joinToks_def)

lemma joinToks_Nil: "joinToks [] = []"
  by (simp add: joinToks_def)

lemma joinToks_Cons: "joinToks (t # ts) = t @ [Space] @ joinToks ts"
  by (simp add: joinToks_def)

lemma writeIf_tok: "writeIf flag (tok @ [Space]) b = b @ joinToks (optTok flag tok)"
  by (simp add: writeIf_def optTok_def joinToks_def)

lemma write_consts:
  "writeIf flag Base64EncodedKey b = b @ joinToks (optTok flag ''b'')"
  "writeIf flag FetchCasId b = b @ joinToks (optTok flag ''c'')"
  "writeIf flag FetchClientFlags b = b @ joinToks (optTok flag ''f'')"
  "writeIf flag FetchItemHitBefore b = b @ joinToks (optTok flag ''h'')"
  "writeIf flag FetchKey b = b @ joinToks (optTok flag ''k'')"
  "writeIf flag FetchLastAccessedTime b = b @ joinToks (optTok flag ''l'')"
  "writeIf flag FetchItemSize b = b @ joinToks (optTok flag ''s'')"
  "writeIf flag FetchRemainingTTL b = b @ joinToks (optTok flag ''t'')"
  "writeIf flag PreventLRUBump b = b @ joinToks (optTok flag ''u'')"
  "writeIf flag FetchValue b = b @ joinToks (optTok flag ''v'')"
  "writeIf flag Invalidate b = b @ joinToks (optTok flag ''I'')"
  "writeIf flag DecrementMode b = b @ joinToks (optTok flag ''MD'')"
  by (simp_all add: writeIf_def optTok_def joinToks_def const_defs)

lemma write_numbers:
  "writeOpaque b x = b @ joinToks (optTok (x \<noteq> 0) (CHR ''O'' # FormatUint (unat x)))"
  "writeCasId b x = b @ joinToks (optTok (x \<noteq> 0) (CHR ''C'' # FormatUint (unat x)))"
  "writeCasOverride b x = b @ joinToks (optTok (x \<noteq> 0) (CHR ''E'' # FormatUint (unat x)))"
  "writeClientFlags b x = b @ joinToks (optTok (x \<noteq> 0) (CHR ''F'' # FormatUint (unat x)))"
  "writeInitialValue b x = b @ joinToks (optTok (x \<noteq> 0) (CHR ''J'' # FormatUint (unat x)))"
  "writeDelta b x = b @ joinToks [CHR ''D'' # FormatUint (unat x)]"
  "writeTTL b y = b @ joinToks (optTok (0 \<le> sint y) (CHR ''T'' # FormatInt (sint y)))"
  "writeBlockTTL b y = b @ joinToks (optTok (0 \<le> sint y) (CHR ''N'' # FormatInt (sint y)))"
  "writeRecacheTTL b y = b @ joinToks (optTok (0 \<le> sint y) (CHR ''R'' # FormatInt (sint y)))"
  by (simp_all add: writeOpaque_def writeCasId_def writeCasOverride_def writeClientFlags_def
        writeInitialValue_def writeDelta_def writeTTL_def writeBlockTTL_def writeRecacheTTL_def
        optTok_def joinToks_def const_defs word_greater_zero_iff)

lemma writeMode_tok: "writeMode m b = b @ joinToks (modeTok m)"
  by (simp add: writeMode_def modeTok_def joinToks_def const_defs)

lemma MetaGetEncoder_flags_tokens:
  "MetaGetEncoder_flags e b0 = b0 @ joinToks (MetaGetEncoder_tokens e) @ CRLF"
  by (simp add: MetaGetEncoder_flags_def MetaGetEncoder_tokens_def Let_def write_consts
        write_numbers joinToks_append)

lemma MetaSetEncoder_flags_tokens:
  "MetaSetEncoder_flags e b0 = b0 @ joinToks (MetaSetEncoder_tokens e) @ CRLF"
  by (simp add: MetaSetEncoder_flags_def MetaSetEncoder_tokens_def Let_def write_consts
        write_numbers writeMode_tok joinToks_append joinToks_Cons joinToks_Nil)

lemma MetaArithmeticEncoder_flags_tokens:
  "MetaArithmeticEncoder_flags e b0 = b0 @ joinToks (MetaArithmeticEncoder_tokens e) @ CRLF"
  by (simp add: MetaArithmeticEncoder_flags_def MetaArithmeticEncoder_tokens_def Let_def
        write_consts write_numbers joinToks_append joinToks_Cons joinToks_Nil)


lemma digit_char_isDigit: "d < 10 \<Longrightarrow> isDigit (digit_char d)"
proof -
  assume "d < 10"
  then have "d = 0 \<or> d = 1 \<or> d = 2 \<or> d = 3 \<or> d = 4 \<or> d = 5 \<or> d = 6 \<or> d = 7 \<or> d = 8 \<or> d = 9"
    by arith
  then show ?thesis
    by (auto simp: digit_char_def isDigit_def byteval_def)
qed

lemma FormatUint_digits: "FormatUint n \<noteq> [] \<and> (\<forall>c\<in>set (FormatUint n). isDigit c)"
proof (induction n rule: FormatUint.induct)
  case (1 n)
  show ?case
  proof (cases "n < 10")
    case True
    then show ?thesis by (subst (1 2) FormatUint.simps) (simp add: digit_char_isDigit)
  next
    case False
    then show ?thesis
      using "1.IH" by (subst (1 2) FormatUint.simps) (simp add: digit_char_isDigit)
  qed
qed

lemma isDigit_plain: "isDigit c \<Longrightarrow> byteval c < 0x80 \<and> \<not> IsSpace (byteval c)"
  by (simp add: isDigit_def IsSpace_def)

lemma plainTok_FormatUint: "plainTok (FormatUint n)"
  using FormatUint_digits [of n] by (simp add: plainTok_def isDigit_plain)

lemma plainTok_FormatInt: "0 \<le> i \<Longrightarrow> plainTok (FormatInt i)"
  by (simp add: FormatInt_def plainTok_FormatUint)

lemma plainTok_Cons:
  "plainTok t \<Longrightarrow> byteval c < 0x80 \<Longrightarrow> \<not> IsSpace (byteval c) \<Longrightarrow> plainTok (c # t)"
  by (simp add: plainTok_def)

lemma plainTok_letter:
  "plainTok (CHR ''E'' # FormatUint n)" "plainTok (CHR ''O'' # FormatUint n)"
  "plainTok (CHR ''C'' # FormatUint n)" "plainTok (CHR ''F'' # FormatUint n)"
  "plainTok (CHR ''J'' # FormatUint n)" "plainTok (CHR ''D'' # FormatUint n)"
  "0 \<le> i \<Longrightarrow> plainTok (CHR ''T'' # FormatInt i)"
  "0 \<le> i \<Longrightarrow> plainTok (CHR ''N'' # FormatInt i)"
  "0 \<le> i \<Longrightarrow> plainTok (CHR ''R'' # FormatInt i)"
  by (simp_all add: plainTok_Cons plainTok_FormatUint plainTok_FormatInt byteval_def IsSpace_def)

lemma plainTok_literal:
  "plainTok ''b''" "plainTok ''c''" "plainTok ''f''" "plainTok ''h''" "plainTok ''k''"
  "plainTok ''l''" "plainTok ''s''" "plainTok ''t''" "plainTok ''u''" "plainTok ''v''"
  "plainTok ''I''" "plainTok ''MD''" "plainTok ''ME''" "plainTok ''MA''" "plainTok ''MP''"
  "plainTok ''MR''"
  by (simp_all add: plainTok_def byteval_def IsSpace_def)

lemma ball_optTok: "(\<forall>t\<in>set (optTok c tok). P t) \<longleftrightarrow> (c \<longrightarrow> P tok)"
  by (simp add: optTok_def)

lemma ball_modeTok: "\<forall>t\<in>set (modeTok m). plainTok t"
  by (simp add: modeTok_def plainTok_literal)

lemma plain_MetaGetEncoder_tokens: "\<forall>t\<in>set (MetaGetEncoder_tokens e). plainTok t"
  by (simp add: MetaGetEncoder_tokens_def ball_Un ball_optTok plainTok_letter plainTok_literal)

lemma plain_MetaSetEncoder_tokens: "\<forall>t\<in>set (MetaSetEncoder_tokens e). plainTok t"
  by (simp add: MetaSetEncoder_tokens_def ball_Un ball_optTok ball_modeTok plainTok_letter
        plainTok_literal plainTok_FormatInt)

lemma plain_MetaArithmeticEncoder_tokens: "\<forall>t\<in>set (MetaArithmeticEncoder_tokens e). plainTok t"
  by (simp add: MetaArithmeticEncoder_tokens_def ball_Un ball_optTok plainTok_letter
        plainTok_literal)

lemma FieldsFunc_plain:
  "\<forall>c\<in>set t. byteval c < 0x80 \<and> \<not> IsSpace (byteval c) \<Longrightarrow>
   FieldsFunc IsSpace cur (t @ rest) = FieldsFunc IsSpace (cur @ t) rest"
  by (induction t arbitrary: cur) (simp_all add: FieldsFunc_ascii)

lemma FieldsFunc_Space:
  "FieldsFunc IsSpace cur (Space # rest) =
     (if cur \<noteq> [] then cur # FieldsFunc IsSpace [] rest else FieldsFunc IsSpace [] rest)"
  by (simp add: FieldsFunc_ascii Space_def byteval_def IsSpace_def)

lemma Fields_joinToks:
  "\<forall>t\<in>set ts. plainTok t \<Longrightarrow> Fields (joinToks ts @ [CHR 0x0D]) = ts"
proof (induction ts)
  case Nil
  show ?case
    by (simp add: Fields_def joinToks_def FieldsFunc_ascii byteval_def IsSpace_def)
next
  case (Cons t ts)
  then have t: "t \<noteq> []" "\<forall>c\<in>set t. byteval c < 0x80 \<and> \<not> IsSpace (byteval c)"
    and IH: "Fields (joinToks ts @ [CHR 0x0D]) = ts"
    by (simp_all add: plainTok_def)
  have "Fields (joinToks (t # ts) @ [CHR 0x0D]) =
        FieldsFunc IsSpace [] (t @ (Space # (joinToks ts @ [CHR 0x0D])))"
    by (simp add: Fields_def joinToks_Cons)
  also have "\<dots> = FieldsFunc IsSpace t (Space # (joinToks ts @ [CHR 0x0D]))"
    using FieldsFunc_plain [OF t(2), of "[]"] by simp
  also have "\<dots> = t # Fields (joinToks ts @ [CHR 0x0D])"
    using t(1) by (simp add: FieldsFunc_Space Fields_def)
  finally show ?case using IH by simp
qed

lemma legal_key_no_newline:
  "isLegalMemcacheKey key \<Longrightarrow> CHR 0x0A \<notin> set key"
  by (auto simp: isLegalMemcacheKey_bytes byteval_def)

lemma plain_no_newline:
  "\<forall>t\<in>set ts. plainTok t \<Longrightarrow> CHR 0x0A \<notin> set (joinToks ts)"
  by (induction ts) (auto simp: joinToks_Nil joinToks_Cons plainTok_def Space_def IsSpace_def byteval_def)

lemma requestFlags_tokens:
  assumes "isLegalMemcacheKey key" and "\<forall>t\<in>set ts. plainTok t" and "length verb = 3"
    and "CHR 0x0A \<notin> set verb"
  shows "requestFlags key (verb @ key @ [Space] @ joinToks ts @ CRLF @ rest) = ts"
proof -
  let ?pre = "verb @ key @ [Space] @ joinToks ts @ [CHR 0x0D]"
  have nl: "CHR 0x0A \<notin> set ?pre"
    using legal_key_no_newline [OF assms(1)] plain_no_newline [OF assms(2)] assms(4)
    by (simp add: Space_def)
  have eq: "verb @ key @ [Space] @ joinToks ts @ CRLF @ rest = ?pre @ CHR 0x0A # rest"
    by (simp add: CRLF_def)
  have tw: "takeWhile (\<lambda>c. c \<noteq> CHR 0x0A) (verb @ key @ [Space] @ joinToks ts @ CRLF @ rest) = ?pre"
    unfolding eq using nl by (rule takeWhile_delim)
  have "drop (length key + 4) ?pre = joinToks ts @ [CHR 0x0D]"
    using assms(3) by simp
  then show ?thesis
    unfolding requestFlags_def tw using Fields_joinToks [OF assms(2)] by simp
qed

lemma emittedBefore_append:
  "emittedBefore P Q (xs @ ys) \<longleftrightarrow>
     emittedBefore P Q xs \<and> emittedBefore P Q ys \<and> (list_ex Q xs \<longrightarrow> \<not> list_ex P ys)"
  by (induction xs) auto

lemma list_ex_optTok: "list_ex P (optTok c t) \<longleftrightarrow> c \<and> P t"
  by (simp add: optTok_def)

lemma emittedBefore_optTok: "emittedBefore P Q (optTok c t)"
  by (simp add: optTok_def)

lemma set_optTok: "t \<in> set (optTok c tok) \<longleftrightarrow> c \<and> t = tok"
  by (auto simp: optTok_def)

lemma modeTok_facts:
  "emittedBefore P Q (modeTok m)"
  "\<not> list_ex (startsWith (CHR ''T'')) (modeTok m)"
  "m = Add \<or> m = Append \<or> m = Prepend \<or> m = Replace \<Longrightarrow> list_ex (startsWith (CHR ''M'')) (modeTok m)"
  by (auto simp: modeTok_def startsWith_def)


lemma written_Write:
  "werr w = None \<Longrightarrow> written w (snd (Write w p)) = p"
  by (simp add: Write_def written_def)

lemma mg_requestFlags:
  assumes "isLegalMemcacheKey (mg_Key e)" and "werr w = None"
  shows "requestFlags (mg_Key e) (written w (snd (MetaGetEncoder_Encode e w))) =
         MetaGetEncoder_tokens e"
proof -
  have "written w (snd (MetaGetEncoder_Encode e w)) =
        MetaGet @ mg_Key e @ [Space] @ joinToks (MetaGetEncoder_tokens e) @ CRLF @ []"
    using assms
    by (simp add: MetaGetEncoder_Encode_def writeKey_legal MetaGetEncoder_flags_tokens
          written_Write)
  then show ?thesis
    using requestFlags_tokens [OF assms(1) plain_MetaGetEncoder_tokens, of MetaGet e "[]"]
    by (simp add: MetaGet_def)
qed

lemma ms_requestFlags:
  assumes "isLegalMemcacheKey (ms_Key e)" and "werr w = None"
  shows "requestFlags (ms_Key e) (written w (snd (MetaSetEncoder_Encode e w))) =
         MetaSetEncoder_tokens e"
proof -
  have "written w (snd (MetaSetEncoder_Encode e w)) =
        MetaSet @ ms_Key e @ [Space] @ joinToks (MetaSetEncoder_tokens e) @ CRLF @
        (ms_Value e @ CRLF)"
    using assms
    by (simp add: MetaSetEncoder_Encode_def writeKey_legal MetaSetEncoder_flags_tokens
          written_Write)
  then show ?thesis
    using requestFlags_tokens [OF assms(1) plain_MetaSetEncoder_tokens, of MetaSet e
        "ms_Value e @ CRLF"]
    by (simp add: MetaSet_def)
qed

lemma ma_requestFlags:
  assumes "isLegalMemcacheKey (ma_Key e)" and "werr w = None"
  shows "requestFlags (ma_Key e) (written w (snd (MetaArithmeticEncoder_Encode e w))) =
         MetaArithmeticEncoder_tokens e"
proof -
  have "written w (snd (MetaArithmeticEncoder_Encode e w)) =
        MetaArithmetic @ ma_Key e @ [Space] @ joinToks (MetaArithmeticEncoder_tokens e) @ CRLF @ []"
    using assms
    by (simp add: MetaArithmeticEncoder_Encode_def writeKey_legal
          MetaArithmeticEncoder_flags_tokens written_Write)
  then show ?thesis
    using requestFlags_tokens [OF assms(1) plain_MetaArithmeticEncoder_tokens,
        of MetaArithmetic e "[]"]
    by (simp add: MetaArithmetic_def)
qed

lemma FormatInt_starts_digit:
  assumes "\<not> isDigit x"
  shows "(case FormatInt (int n) of [] \<Rightarrow> False | c # cs \<Rightarrow> c = x) = False"
proof (cases "FormatInt (int n)")
  case Nil
  then show ?thesis by simp
next
  case (Cons c cs)
  then have "c \<in> set (FormatUint n)" by (simp add: FormatInt_def)
  then have "isDigit c" using FormatUint_digits [of n] by simp
  then show ?thesis using Cons assms by auto
qed

lemma letters_not_digits: "\<not> isDigit (CHR ''T'')" "\<not> isDigit (CHR ''M'')"
  by (simp_all add: isDigit_def byteval_def)

lemmas order_simps =
  emittedBefore_append list_ex_optTok emittedBefore_optTok set_optTok modeTok_facts
  startsWith_def FormatInt_starts_digit letters_not_digits

lemma legal_k: "isLegalMemcacheKey ''k''"
  by (simp add: isLegalMemcacheKey_bytes byteval_def)

text \<open>
  C4. For a legal key and a writer without a pending error, read the flag tokens off the
  bytes the encoder writes (the whitespace-separated tokens of the request line after the
  key). In an \<^verbatim>\<open>ms\<close> request no mode token (\<open>M\<close>) comes after the TTL token
  (\<open>T\<close>); in an \<^verbatim>\<open>mg\<close> request neither the block-TTL token (\<open>N\<close>) nor the
  update-TTL token (\<open>T\<close>) comes after the token \<open>t\<close>; in an \<^verbatim>\<open>ma\<close> request the
  update-TTL token (\<open>T\<close>) does not come after the block-TTL token (\<open>N\<close>). Each of
  these tokens is on the line whenever its field is set.
\<close>

theorem encoders_emit_in_order:
  "werr w = None \<longrightarrow>
   (isLegalMemcacheKey (ms_Key e2) \<longrightarrow>
      (let toks = requestFlags (ms_Key e2) (written w (snd (MetaSetEncoder_Encode e2 w))) in
       emittedBefore (startsWith (CHR ''M'')) (startsWith (CHR ''T'')) toks \<and>
       (ms_Mode e2 = Add \<or> ms_Mode e2 = Append \<or> ms_Mode e2 = Prepend \<or> ms_Mode e2 = Replace
          \<longrightarrow> list_ex (startsWith (CHR ''M'')) toks) \<and>
       (0 \<le> sint (ms_TTL e2) \<longrightarrow> CHR ''T'' # FormatInt (sint (ms_TTL e2)) \<in> set toks))) \<and>
   (isLegalMemcacheKey (mg_Key e1) \<longrightarrow>
      (let toks = requestFlags (mg_Key e1) (written w (snd (MetaGetEncoder_Encode e1 w))) in
       emittedBefore (startsWith (CHR ''N'')) (\<lambda>t. t = ''t'') toks \<and>
       emittedBefore (startsWith (CHR ''T'')) (\<lambda>t. t = ''t'') toks \<and>
       (0 \<le> sint (mg_BlockTTL e1) \<longrightarrow> CHR ''N'' # FormatInt (sint (mg_BlockTTL e1)) \<in> set toks) \<and>
       (0 \<le> sint (mg_UpdateTTL e1) \<longrightarrow> CHR ''T'' # FormatInt (sint (mg_UpdateTTL e1)) \<in> set toks) \<and>
       (mg_FetchRemainingTTL e1 \<longrightarrow> ''t'' \<in> set toks))) \<and>
   (isLegalMemcacheKey (ma_Key e4) \<longrightarrow>
      (let toks = requestFlags (ma_Key e4) (written w (snd (MetaArithmeticEncoder_Encode e4 w))) in
       emittedBefore (startsWith (CHR ''T'')) (startsWith (CHR ''N'')) toks \<and>
       (0 \<le> sint (ma_TTL e4) \<longrightarrow> CHR ''T'' # FormatInt (sint (ma_TTL e4)) \<in> set toks) \<and>
       (0 \<le> sint (ma_BlockTTL e4) \<longrightarrow> CHR ''N'' # FormatInt (sint (ma_BlockTTL e4)) \<in> set toks)))"
proof (intro impI conjI)
  assume w: "werr w = None" and k: "isLegalMemcacheKey (ms_Key e2)"
  show "let toks = requestFlags (ms_Key e2) (written w (snd (MetaSetEncoder_Encode e2 w))) in
       emittedBefore (startsWith (CHR ''M'')) (startsWith (CHR ''T'')) toks \<and>
       (ms_Mode e2 = Add \<or> ms_Mode e2 = Append \<or> ms_Mode e2 = Prepend \<or> ms_Mode e2 = Replace
          \<longrightarrow> list_ex (startsWith (CHR ''M'')) toks) \<and>
       (0 \<le> sint (ms_TTL e2) \<longrightarrow> CHR ''T'' # FormatInt (sint (ms_TTL e2)) \<in> set toks)"
    unfolding Let_def ms_requestFlags [OF k w]
    by (simp add: MetaSetEncoder_tokens_def order_simps)
next
  assume w: "werr w = None" and k: "isLegalMemcacheKey (mg_Key e1)"
  show "let toks = requestFlags (mg_Key e1) (written w (snd (MetaGetEncoder_Encode e1 w))) in
       emittedBefore (startsWith (CHR ''N'')) (\<lambda>t. t = ''t'') toks \<and>
       emittedBefore (startsWith (CHR ''T'')) (\<lambda>t. t = ''t'') toks \<and>
       (0 \<le> sint (mg_BlockTTL e1) \<longrightarrow> CHR ''N'' # FormatInt (sint (mg_BlockTTL e1)) \<in> set toks) \<and>
       (0 \<le> sint (mg_UpdateTTL e1) \<longrightarrow> CHR ''T'' # FormatInt (sint (mg_UpdateTTL e1)) \<in> set toks) \<and>
       (mg_FetchRemainingTTL e1 \<longrightarrow> ''t'' \<in> set toks)"
    unfolding Let_def mg_requestFlags [OF k w]
    by (simp add: MetaGetEncoder_tokens_def order_simps)
next
  assume w: "werr w = None" and k: "isLegalMemcacheKey (ma_Key e4)"
  show "let toks = requestFlags (ma_Key e4) (written w (snd (MetaArithmeticEncoder_Encode e4 w))) in
       emittedBefore (startsWith (CHR ''T'')) (startsWith (CHR ''N'')) toks \<and>
       (0 \<le> sint (ma_TTL e4) \<longrightarrow> CHR ''T'' # FormatInt (sint (ma_TTL e4)) \<in> set toks) \<and>
       (0 \<le> sint (ma_BlockTTL e4) \<longrightarrow> CHR ''N'' # FormatInt (sint (ma_BlockTTL e4)) \<in> set toks)"
    unfolding Let_def ma_requestFlags [OF k w]
    by (simp add: MetaArithmeticEncoder_tokens_def order_simps)
qed


text \<open>
  An \<^verbatim>\<open>ms\<close> request in add mode with TTL 60, an \<^verbatim>\<open>mg\<close> request with block TTL 100,
  update TTL 150 and the remaining TTL fetched, an \<^verbatim>\<open>ma\<close> request with TTL 150 and
  block TTL 100.
\<close>

theorem encoders_emit_in_order_witness:
  "(let toks = requestFlags ''k'' (written \<lparr>wout = [], werr = None\<rparr>
       (snd (MetaSetEncoder_Encode
          ((MetaSetEncoder_Reset CreateMetaSetEncoder)
             \<lparr>ms_Key := ''k'', ms_Value := ''hi'', ms_TTL := 60, ms_Mode := Add\<rparr>)
          \<lparr>wout = [], werr = None\<rparr>))) in
    emittedBefore (startsWith (CHR ''M'')) (startsWith (CHR ''T'')) toks \<and>
    list_ex (startsWith (CHR ''M'')) toks \<and> ''T60'' \<in> set toks) \<and>
   (let toks = requestFlags ''k'' (written \<lparr>wout = [], werr = None\<rparr>
       (snd (MetaGetEncoder_Encode
          ((MetaGetEncoder_Reset CreateMetaGetEncoder)
             \<lparr>mg_Key := ''k'', mg_BlockTTL := 100, mg_UpdateTTL := 150,
               mg_FetchRemainingTTL := True\<rparr>)
          \<lparr>wout = [], werr = None\<rparr>))) in
    emittedBefore (startsWith (CHR ''N'')) (\<lambda>t. t = ''t'') toks \<and>
    emittedBefore (startsWith (CHR ''T'')) (\<lambda>t. t = ''t'') toks \<and>
    ''N100'' \<in> set toks \<and> ''T150'' \<in> set toks \<and> ''t'' \<in> set toks) \<and>
   (let toks = requestFlags ''k'' (written \<lparr>wout = [], werr = None\<rparr>
       (snd (MetaArithmeticEncoder_Encode
          ((MetaArithmeticEncoder_Reset CreateArithmeticEncoder)
             \<lparr>ma_Key := ''k'', ma_BlockTTL := 100, ma_TTL := 150\<rparr>)
          \<lparr>wout = [], werr = None\<rparr>))) in
    emittedBefore (startsWith (CHR ''T'')) (startsWith (CHR ''N'')) toks \<and>
    ''T150'' \<in> set toks \<and> ''N100'' \<in> set toks)"
  using encoders_emit_in_order
    [of "\<lparr>wout = [], werr = None\<rparr>"
        "(MetaSetEncoder_Reset CreateMetaSetEncoder)
             \<lparr>ms_Key := ''k'', ms_Value := ''hi'', ms_TTL := 60, ms_Mode := Add\<rparr>"
        "(MetaGetEncoder_Reset CreateMetaGetEncoder)
             \<lparr>mg_Key := ''k'', mg_BlockTTL := 100, mg_UpdateTTL := 150,
               mg_FetchRemainingTTL := True\<rparr>"
        "(MetaArithmeticEncoder_Reset CreateArithmeticEncoder)
             \<lparr>ma_Key := ''k'', ma_BlockTTL := 100, ma_TTL := 150\<rparr>"]
  by (simp add: legal_k Let_def MetaSetEncoder_Reset_def MetaGetEncoder_Reset_def
        MetaArithmeticEncoder_Reset_def FormatInt_def FormatUint.simps digit_char_def)

end
